theory Spec2Isabelle
  imports Complex_Main "HOL-Library.List_Lexorder" "HOL-Library.Char_ord"
begin

section \<open>Strings\<close>

text \<open>
  Course codes, names, dates and table names are only compared, joined and sorted; they
  are kept as \<^typ>\<open>string\<close>. The matriculation number and the invigilator's name go
  through \<^verbatim>\<open>trim\<close> and \<^verbatim>\<open>toUpperCase\<close>, which look at the characters of all of
  Unicode. These two are kept as the list of their code points, the way the language
  standard reads a string for case conversion (\<^verbatim>\<open>StringToCodePoints\<close>: a surrogate pair
  is one code point).
\<close>

type_synonym js_string = "nat list"

text \<open>The code points of a string literal of the program text or of an example.\<close>

definition code_points :: "string \<Rightarrow> js_string" where
  "code_points s = map of_char s"

text \<open>
  \<^verbatim>\<open>s.trim()\<close> removes the white space and the line terminators of the language standard
  from both ends: tab, line feed, vertical tab, form feed, carriage return, space,
  no-break space, the Ogham space mark, the spaces \<^verbatim>\<open>U+2000\<close> to \<^verbatim>\<open>U+200A\<close>, line and
  paragraph separator, the narrow no-break space, the medium mathematical space, the
  ideographic space and the byte order mark.
\<close>

definition isWhiteSpace :: "nat \<Rightarrow> bool" where
  "isWhiteSpace c =
     (c \<in> {0x9, 0xA, 0xB, 0xC, 0xD, 0x20, 0xA0, 0x1680, 0x2028, 0x2029, 0x202F, 0x205F,
            0x3000, 0xFEFF}
      \<or> (0x2000 \<le> c \<and> c \<le> 0x200A))"

definition trim :: "js_string \<Rightarrow> js_string" where
  "trim s = rev (dropWhile isWhiteSpace (rev (dropWhile isWhiteSpace s)))"

text \<open>
  \<^verbatim>\<open>s.toUpperCase()\<close> replaces every code point by its upper-case mapping in the Unicode
  character database, which is one to three code points long (the sharp s becomes two
  capital S) and is the code point itself where the database has no entry. The database
  belongs to the runtime, not to the program, and differs between its versions: it is
  the argument \<open>uc\<close>.
\<close>

type_synonym case_mapping = "nat \<Rightarrow> nat list"

definition toUpperCase :: "case_mapping \<Rightarrow> js_string \<Rightarrow> js_string" where
  "toUpperCase uc s = concat (map uc s)"

text \<open>\<^verbatim>\<open>xs.join(sep)\<close> on an array of strings.\<close>

fun join :: "string \<Rightarrow> string list \<Rightarrow> string" where
  "join sep [] = []"
| "join sep [x] = x"
| "join sep (x # y # ys) = x @ sep @ join sep (y # ys)"

section \<open>Numbers\<close>

text \<open>
  The percentages are computed as \<^verbatim>\<open>Math.round((a / b) * 100)\<close> on two array lengths.
  JavaScript numbers are IEEE-754 binary64 values: the quotient and the product are each
  rounded to the nearest double, ties to the even significand. A finite double is kept as
  a pair \<open>(m, e)\<close> standing for \<open>m * 2 ^ e\<close>. Array lengths are below \<open>2 ^ 32\<close>, so
  they are doubles themselves and neither overflow nor subnormal numbers occur.
\<close>

type_synonym double = "int \<times> int"

function bit_length :: "int \<Rightarrow> int" where
  "bit_length n = (if n \<le> 0 then 0 else 1 + bit_length (n div 2))"
  by pat_completeness auto
termination
  by (relation "measure nat") auto

declare bit_length.simps [simp del]

text \<open>\<open>pow2_le d p q\<close> decides \<open>2 ^ d \<le> p / q\<close> for an integer \<open>d\<close> of either sign.\<close>

definition pow2_le :: "int \<Rightarrow> int \<Rightarrow> int \<Rightarrow> bool" where
  "pow2_le d p q = (if 0 \<le> d then 2 ^ nat d * q \<le> p else q \<le> p * 2 ^ nat (- d))"

text \<open>
  The double nearest to the fraction \<open>p / q\<close> (\<open>0 \<le> p\<close>, \<open>0 < q\<close>): the exponent of
  the fraction is found from the bit lengths, the fraction is scaled to a 53-bit
  significand, and the significand is rounded to nearest, ties to even.
\<close>

definition nearest_double :: "int \<Rightarrow> int \<Rightarrow> double" where
  "nearest_double p q =
     (if p = 0 then (0, 0)
      else
        let d = bit_length p - bit_length q;
            lg = (if pow2_le d p q then d else d - 1);
            s = lg - 52;
            n = (if 0 \<le> s then p else p * 2 ^ nat (- s));
            dn = (if 0 \<le> s then q * 2 ^ nat s else q);
            k = n div dn;
            r = n mod dn;
            m = (if 2 * r < dn then k
                 else if dn < 2 * r then k + 1
                 else if even k then k else k + 1)
        in (m, s))"

text \<open>\<^verbatim>\<open>a / b\<close> on two array lengths, \<open>b\<close> not zero.\<close>

definition js_div :: "nat \<Rightarrow> nat \<Rightarrow> double" where
  "js_div a b = nearest_double (int a) (int b)"

text \<open>\<^verbatim>\<open>x * n\<close> for a double \<open>x\<close> and a whole number \<open>n\<close>.\<close>

definition js_mul :: "double \<Rightarrow> int \<Rightarrow> double" where
  "js_mul x n =
     (case x of (m, e) \<Rightarrow>
        if 0 \<le> e then nearest_double (m * n * 2 ^ nat e) 1
        else nearest_double (m * n) (2 ^ nat (- e)))"

text \<open>
  \<^verbatim>\<open>Math.round(x)\<close>: the integer nearest to \<open>x\<close>, a tie going up, which is
  \<open>\<lfloor>x + 1/2\<rfloor>\<close>.
\<close>

definition Math_round :: "double \<Rightarrow> int" where
  "Math_round x =
     (case x of (m, e) \<Rightarrow>
        if 0 \<le> e then m * 2 ^ nat e
        else (2 * m + 2 ^ nat (- e)) div 2 ^ (nat (- e) + 1))"

text \<open>The exact value of a double, for stating what the operations compute.\<close>

definition double_val :: "double \<Rightarrow> rat" where
  "double_val x = (case x of (m, e) \<Rightarrow> of_int m * 2 powi e)"

section \<open>Data model\<close>

text \<open>
  The rows the screens exchange with the remote store: \<^verbatim>\<open>Student\<close> and
  \<^verbatim>\<open>CourseAttendance\<close>, with the fields the screens read and write.
\<close>

record student =
  id :: string
  fullName :: string
  matricNumber :: js_string
  image :: string
  session :: string
  semester :: string
  courses :: "string list"
  registrationDate :: string

record attendance =
  id :: string
  matricNumber :: js_string
  courseCode :: string
  verificationDate :: string
  invigilatorName :: js_string

text \<open>
  The rows the home screen reads from the tables \<^verbatim>\<open>students\<close>, \<^verbatim>\<open>student_courses\<close> and
  \<^verbatim>\<open>attendance_records\<close>, with the column names it uses there.
\<close>

record student_row =
  id :: string
  full_name :: string
  matric_number :: js_string
  image :: string
  session :: string
  semester :: string
  registration_date :: string

record student_course_row =
  student_id :: string
  course_code :: string

record attendance_record_row =
  id :: string
  matric_number :: js_string
  course_code :: string
  verification_date :: string
  invigilator_name :: js_string

section \<open>The remote table store\<close>

text \<open>
  A remote call answers with a pair of \<^verbatim>\<open>data\<close> and \<^verbatim>\<open>error\<close>, of which the screens
  read the error's \<^verbatim>\<open>code\<close> and \<^verbatim>\<open>message\<close>.
\<close>

record pg_error =
  code :: string
  message :: string

record 'a response =
  data :: "'a option"
  error :: "pg_error option"

text \<open>
  The tables the screens name. The registration screen inserts into \<^verbatim>\<open>students\<close> and
  the verification screen into \<^verbatim>\<open>course_attendance\<close>; \<^verbatim>\<open>student_courses\<close> and
  \<^verbatim>\<open>attendance_records\<close> are only ever selected from. The declaration of the tables is
  not part of the sources, and the screens do not agree on the columns: the home screen
  reads \<^verbatim>\<open>students\<close> under other column names than the registration screen writes, and
  the details screen reads \<^verbatim>\<open>attendance_records\<close> under other names than the home screen.
  So the row types of these two tables are left to the screen that reads them: \<open>'s\<close> for
  \<^verbatim>\<open>students\<close> and \<open>'r\<close> for \<^verbatim>\<open>attendance_records\<close>.
\<close>

record ('s, 'r) store =
  students :: "'s list"
  student_courses :: "student_course_row list"
  course_attendance :: "attendance list"
  attendance_records :: "'r list"

text \<open>
  What a screen action leaves behind outside its own state: the store, the lines written
  with \<^verbatim>\<open>console.error\<close>, and the remote calls it issued, oldest first. A select is
  recorded with its table and its equality filters, column by column with the value asked
  for (a course code by its code points); an insert with its table.
\<close>

datatype logged = LogError string pg_error | LogText string string

datatype request = Select string "(string \<times> js_string) list" | Insert string

fun table_of :: "request \<Rightarrow> string" where
  "table_of (Select t filters) = t"
| "table_of (Insert t) = t"

record ('s, 'r) world =
  db :: "('s, 'r) store"
  console :: "logged list"
  requests :: "request list"

definition issue :: "request \<Rightarrow> ('s, 'r) world \<Rightarrow> ('s, 'r) world" where
  "issue rq w = w\<lparr>requests := requests w @ [rq]\<rparr>"

definition console_error :: "logged \<Rightarrow> ('s, 'r) world \<Rightarrow> ('s, 'r) world" where
  "console_error l w = w\<lparr>console := console w @ [l]\<rparr>"

text \<open>
  Modelled from the spec: the remote data store client, which is not part of the
  sources. It provides equality-filtered row retrieval and row insertion; a call
  may fail as a whole, which the argument \<open>fault\<close> decides (the failure of the network or
  of the server is the environment's choice). A select answers with the matching rows,
  an insert appends the row.
\<close>

definition select_rows :: "pg_error option \<Rightarrow> ('a \<Rightarrow> bool) \<Rightarrow> 'a list \<Rightarrow> 'a list response" where
  "select_rows fault p rows =
     (case fault of
        Some e \<Rightarrow> \<lparr>data = None, error = Some e\<rparr>
      | None \<Rightarrow> \<lparr>data = Some (filter p rows), error = None\<rparr>)"

definition insert_row :: "pg_error option \<Rightarrow> 'a \<Rightarrow> 'a list \<Rightarrow> 'a list \<times> pg_error option" where
  "insert_row fault row rows =
     (case fault of
        Some e \<Rightarrow> (rows, Some e)
      | None \<Rightarrow> (rows @ [row], None))"

text \<open>
  Modelled from the spec: \<^verbatim>\<open>.single()\<close> of the client, which asks for exactly one
  row. The spec names one recognised condition, no matching row, reported with the code
  \<^verbatim>\<open>PGRST116\<close>; the client reports a result of several rows under the same code.
\<close>

definition PGRST116 :: pg_error where
  "PGRST116 = \<lparr>code = ''PGRST116'', message = ''JSON object requested, multiple (or no) rows returned''\<rparr>"

definition single :: "'a list response \<Rightarrow> 'a response" where
  "single r =
     (case error r of
        Some e \<Rightarrow> \<lparr>data = None, error = Some e\<rparr>
      | None \<Rightarrow>
          (case data r of
             Some [x] \<Rightarrow> \<lparr>data = Some x, error = None\<rparr>
           | _ \<Rightarrow> \<lparr>data = None, error = Some PGRST116\<rparr>))"

section \<open>Student registration screen\<close>

datatype message_type = success | error | info

record ui_message =
  type :: message_type
  "text" :: string

record form_data =
  fullName :: string
  matricNumber :: js_string
  image :: string
  session :: string
  semester :: string
  courses :: "string list"

text \<open>
  The screen's state. \<open>timers\<close> counts the calls of
  \<^verbatim>\<open>setTimeout(() => setMessage(null), 3000)\<close> that were made; what the timers do
  three seconds later is outside the model.
\<close>

record registration_state =
  formData :: form_data
  message :: "ui_message option"
  loading :: bool
  timers :: nat

definition initial_formData :: form_data where
  "initial_formData =
     \<lparr>fullName = [], matricNumber = [], image = [],
      session = ''2024/2025'', semester = ''First Semester'', courses = []\<rparr>"

text \<open>The handlers of the matriculation number field and of a course check box.\<close>

definition registration_onChangeText_matricNumber ::
  "case_mapping \<Rightarrow> js_string \<Rightarrow> registration_state \<Rightarrow> registration_state" where
  "registration_onChangeText_matricNumber uc txt st =
     st\<lparr>formData := (formData st)\<lparr>form_data.matricNumber := toUpperCase uc txt\<rparr>\<rparr>"

definition handleCourseToggle :: "string \<Rightarrow> registration_state \<Rightarrow> registration_state" where
  "handleCourseToggle course st =
     st\<lparr>formData := (formData st)\<lparr>form_data.courses :=
        (if course \<in> set (form_data.courses (formData st))
         then filter (\<lambda>c. c \<noteq> course) (form_data.courses (formData st))
         else form_data.courses (formData st) @ [course])\<rparr>\<rparr>"

text \<open>
  \<^verbatim>\<open>error && error.code !== 'PGRST116'\<close>: the call failed with something else than
  "no rows found".
\<close>

definition failed_other_than_no_rows :: "pg_error option \<Rightarrow> bool" where
  "failed_other_than_no_rows err =
     (case err of None \<Rightarrow> False | Some e \<Rightarrow> code e \<noteq> ''PGRST116'')"

text \<open>
  \<^verbatim>\<open>checkDuplicateRegistration\<close>: one select on \<^verbatim>\<open>students\<close> by matriculation number,
  asked for as a single row. It returns the requested courses the stored row already
  lists, and the empty list when the call failed or no row came back.
\<close>

definition checkDuplicateRegistration ::
  "pg_error option \<Rightarrow> js_string \<Rightarrow> string list \<Rightarrow> registration_state \<times> (student, 'r) world
     \<Rightarrow> string list \<times> registration_state \<times> (student, 'r) world" where
  "checkDuplicateRegistration fault matric requested sw =
     (case sw of (st, w) \<Rightarrow>
        let st1 = st\<lparr>loading := True\<rparr>;
            r = single (select_rows fault (\<lambda>s. student.matricNumber s = matric) (students (db w)));
            w1 = issue (Select ''students'' [(''matricNumber'', matric)]) w;
            st2 = st1\<lparr>loading := False\<rparr>
        in if failed_other_than_no_rows (response.error r)
           then (case response.error r of
                   Some e \<Rightarrow> ([], st2, console_error (LogError ''Error checking duplicate registration:'' e) w1)
                 | None \<Rightarrow> ([], st2, w1))
           else (case data r of
                   Some d \<Rightarrow> (filter (\<lambda>course. course \<in> set (student.courses d)) requested, st2, w1)
                 | None \<Rightarrow> ([], st2, w1)))"

text \<open>
  What \<^verbatim>\<open>handleSubmit\<close> takes from its environment: whether the two remote calls fail,
  and the two readings of the clock (\<^verbatim>\<open>Date.now().toString()\<close> and
  \<^verbatim>\<open>new Date().toISOString()\<close>).
\<close>

record submit_env =
  lookup_fault :: "pg_error option"
  insert_fault :: "pg_error option"
  now_millis :: string
  now_iso :: string

definition form_incomplete :: "form_data \<Rightarrow> bool" where
  "form_incomplete f =
     (form_data.fullName f = [] \<or> form_data.matricNumber f = [] \<or> form_data.image f = []
      \<or> length (form_data.courses f) = 0)"

definition newStudent :: "submit_env \<Rightarrow> form_data \<Rightarrow> student" where
  "newStudent env f =
     \<lparr>student.id = now_millis env,
      fullName = form_data.fullName f,
      matricNumber = form_data.matricNumber f,
      image = form_data.image f,
      session = form_data.session f,
      semester = form_data.semester f,
      courses = form_data.courses f,
      registrationDate = now_iso env\<rparr>"

definition handleSubmit ::
  "submit_env \<Rightarrow> registration_state \<times> (student, 'r) world
     \<Rightarrow> registration_state \<times> (student, 'r) world" where
  "handleSubmit env sw =
     (case sw of (st0, w0) \<Rightarrow>
        let st = st0\<lparr>loading := True\<rparr> in
        if form_incomplete (formData st)
        then (st\<lparr>message := Some \<lparr>type = error,
                      text = ''Please fill in all fields and select at least one course.''\<rparr>,
                 loading := False\<rparr>, w0)
        else
          (case checkDuplicateRegistration (lookup_fault env)
                  (form_data.matricNumber (formData st)) (form_data.courses (formData st)) (st, w0) of
             (duplicateCourses, st1, w1) \<Rightarrow>
               if length duplicateCourses > 0
               then (st1\<lparr>message := Some \<lparr>type = error,
                              text = ''Student is already registered for: '' @ join '', '' duplicateCourses\<rparr>,
                         loading := False\<rparr>, w1)
               else
                 (case insert_row (insert_fault env) (newStudent env (formData st1)) (students (db w1)) of
                    (rows, err) \<Rightarrow>
                      let w2 = (issue (Insert ''students'') w1)\<lparr>db := (db w1)\<lparr>students := rows\<rparr>\<rparr>;
                          st2 = st1\<lparr>loading := False\<rparr>
                      in (case err of
                            Some e \<Rightarrow>
                              (st2\<lparr>message := Some \<lparr>type = error, text = ''Error registering student.''\<rparr>,
                                   timers := timers st2 + 1\<rparr>,
                               console_error (LogError ''Error registering student:'' e) w2)
                          | None \<Rightarrow>
                              (st2\<lparr>message := Some \<lparr>type = success, text = ''Student registered successfully!''\<rparr>,
                                   formData := initial_formData,
                                   timers := timers st2 + 1\<rparr>, w2)))))"

section \<open>Student verification screen\<close>

record verification_state =
  matricNumber :: js_string
  selectedStudent :: "student option"
  selectedCourse :: string
  invigilatorName :: js_string
  message :: "ui_message option"
  loading :: bool
  timers :: nat

definition verification_onChangeText_matricNumber ::
  "case_mapping \<Rightarrow> js_string \<Rightarrow> verification_state \<Rightarrow> verification_state" where
  "verification_onChangeText_matricNumber uc txt st =
     st\<lparr>verification_state.matricNumber := toUpperCase uc txt\<rparr>"

text \<open>
  \<^verbatim>\<open>handleSearch\<close>: the trimmed, upper-cased field is looked up in \<^verbatim>\<open>students\<close> as a
  single row.
\<close>

definition handleSearch ::
  "case_mapping \<Rightarrow> pg_error option \<Rightarrow> verification_state \<times> (student, 'r) world
     \<Rightarrow> verification_state \<times> (student, 'r) world" where
  "handleSearch uc fault sw =
     (case sw of (st, w) \<Rightarrow>
        if trim (verification_state.matricNumber st) = []
        then (st\<lparr>verification_state.message :=
                   Some \<lparr>type = error, text = ''Please enter a matric number.''\<rparr>\<rparr>, w)
        else
          let st1 = st\<lparr>verification_state.loading := True\<rparr>;
              key = toUpperCase uc (trim (verification_state.matricNumber st));
              r = single (select_rows fault (\<lambda>s. student.matricNumber s = key) (students (db w)));
              w1 = issue (Select ''students'' [(''matricNumber'', key)]) w;
              st2 = st1\<lparr>verification_state.loading := False\<rparr>
          in if failed_other_than_no_rows (response.error r)
             then (st2\<lparr>verification_state.message :=
                         Some \<lparr>type = error, text = ''Error searching student.''\<rparr>,
                       selectedStudent := None\<rparr>,
                   (case response.error r of
                      Some e \<Rightarrow> console_error (LogError ''Error searching student:'' e) w1
                    | None \<Rightarrow> w1))
             else (case data r of
                     Some d \<Rightarrow>
                       (st2\<lparr>selectedStudent := Some d, verification_state.message := None\<rparr>, w1)
                   | None \<Rightarrow>
                       (st2\<lparr>selectedStudent := None,
                            verification_state.message :=
                              Some \<lparr>type = error,
                                    text = ''Student not found. Please check the matric number.''\<rparr>\<rparr>, w1)))"

text \<open>
  \<^verbatim>\<open>isAlreadyVerified\<close>: the rows of \<^verbatim>\<open>course_attendance\<close> with this matriculation
  number and this course code; \<^verbatim>\<open>false\<close> when the call failed.
\<close>

definition isAlreadyVerified ::
  "pg_error option \<Rightarrow> js_string \<Rightarrow> string \<Rightarrow> verification_state \<times> ('s, 'r) world
     \<Rightarrow> bool \<times> verification_state \<times> ('s, 'r) world" where
  "isAlreadyVerified fault matricNum course sw =
     (case sw of (st, w) \<Rightarrow>
        let st1 = st\<lparr>verification_state.loading := True\<rparr>;
            r = select_rows fault
                  (\<lambda>a. attendance.matricNumber a = matricNum \<and> courseCode a = course)
                  (course_attendance (db w));
            w1 = issue (Select ''course_attendance''
                         [(''matricNumber'', matricNum), (''courseCode'', code_points course)]) w;
            st2 = st1\<lparr>verification_state.loading := False\<rparr>
        in (case response.error r of
              Some e \<Rightarrow> (False, st2, console_error (LogError ''Error checking attendance:'' e) w1)
            | None \<Rightarrow>
                ((case data r of Some rows \<Rightarrow> length rows > 0 | None \<Rightarrow> False), st2, w1)))"

text \<open>
  What \<^verbatim>\<open>handleMarkAttendance\<close> takes from its environment: whether the two remote calls
  fail, the clock, and the \<^verbatim>\<open>id\<close> the store gives the inserted row (the screen sends the
  row without one).
\<close>

record mark_env =
  check_fault :: "pg_error option"
  insert_fault :: "pg_error option"
  now_iso :: string
  new_id :: string

definition handleMarkAttendance ::
  "mark_env \<Rightarrow> verification_state \<times> ('s, 'r) world \<Rightarrow> verification_state \<times> ('s, 'r) world" where
  "handleMarkAttendance env sw =
     (case sw of (st, w) \<Rightarrow>
        (case selectedStudent st of
           None \<Rightarrow>
             (st\<lparr>verification_state.message :=
                   Some \<lparr>type = error, text = ''Please select a course and enter invigilator name.''\<rparr>\<rparr>, w)
         | Some stu \<Rightarrow>
             if selectedCourse st = [] \<or> trim (invigilatorName st) = []
             then (st\<lparr>verification_state.message :=
                        Some \<lparr>type = error, text = ''Please select a course and enter invigilator name.''\<rparr>\<rparr>, w)
             else
               (case isAlreadyVerified (check_fault env) (student.matricNumber stu) (selectedCourse st)
                       (st\<lparr>verification_state.loading := True\<rparr>, w) of
                  (alreadyVerified, st1, w1) \<Rightarrow>
                    let st2 = st1\<lparr>verification_state.loading := False\<rparr> in
                    if alreadyVerified
                    then (st2\<lparr>verification_state.message :=
                               Some \<lparr>type = error,
                                     text = ''Student has already been verified for this course exam.''\<rparr>\<rparr>, w1)
                    else
                      let row = \<lparr>attendance.id = new_id env,
                                 matricNumber = student.matricNumber stu,
                                 courseCode = selectedCourse st,
                                 verificationDate = mark_env.now_iso env,
                                 invigilatorName = trim (invigilatorName st)\<rparr>
                      in (case insert_row (mark_env.insert_fault env) row (course_attendance (db w1)) of
                            (rows, err) \<Rightarrow>
                              let w2 = (issue (Insert ''course_attendance'') w1)
                                         \<lparr>db := (db w1)\<lparr>course_attendance := rows\<rparr>\<rparr>
                              in (case err of
                                    Some e \<Rightarrow>
                                      (st2\<lparr>verification_state.message :=
                                             Some \<lparr>type = error, text = ''Error marking attendance.''\<rparr>,
                                           verification_state.timers := verification_state.timers st2 + 1\<rparr>,
                                       console_error (LogError ''Error marking attendance:'' e) w2)
                                  | None \<Rightarrow>
                                      (st2\<lparr>verification_state.message :=
                                             Some \<lparr>type = success,
                                                   text = ''Student attendance marked successfully!''\<rparr>,
                                           selectedStudent := None,
                                           selectedCourse := [],
                                           verification_state.matricNumber := [],
                                           verification_state.timers := verification_state.timers st2 + 1\<rparr>,
                                       w2))))))"

section \<open>Attendance reports screen\<close>

record reports_state =
  selectedCourse :: string
  detailModalCourse :: "string option"
  students :: "student list"
  attendanceRecords :: "attendance list"
  loading :: bool
  error :: "string option"

text \<open>
  \<^verbatim>\<open>fetchData\<close> of the reports screen: \<^verbatim>\<open>students\<close>, then \<^verbatim>\<open>course_attendance\<close>, inside
  one \<^verbatim>\<open>try\<close>; the first failure is thrown to the \<^verbatim>\<open>catch\<close>.
\<close>

definition reports_fetchData ::
  "pg_error option \<Rightarrow> pg_error option \<Rightarrow> reports_state \<times> (student, 'r) world
     \<Rightarrow> reports_state \<times> (student, 'r) world" where
  "reports_fetchData students_fault attendance_fault sw =
     (case sw of (st, w) \<Rightarrow>
        let st1 = st\<lparr>reports_state.loading := True, reports_state.error := None\<rparr>;
            r1 = select_rows students_fault (\<lambda>_. True) (store.students (db w));
            w1 = issue (Select ''students'' []) w
        in (case response.error r1 of
              Some e \<Rightarrow>
                (st1\<lparr>reports_state.error := Some ''Failed to load data. Please try again.'',
                     reports_state.loading := False\<rparr>,
                 console_error (LogText ''Error fetching data:'' (pg_error.message e)) w1)
            | None \<Rightarrow>
                let st2 = st1\<lparr>reports_state.students := (case data r1 of Some d \<Rightarrow> d | None \<Rightarrow> [])\<rparr>;
                    r2 = select_rows attendance_fault (\<lambda>_. True) (course_attendance (db w1));
                    w2 = issue (Select ''course_attendance'' []) w1
                in (case response.error r2 of
                      Some e \<Rightarrow>
                        (st2\<lparr>reports_state.error := Some ''Failed to load data. Please try again.'',
                             reports_state.loading := False\<rparr>,
                         console_error (LogText ''Error fetching data:'' (pg_error.message e)) w2)
                    | None \<Rightarrow>
                        (st2\<lparr>reports_state.attendanceRecords :=
                               (case data r2 of Some d \<Rightarrow> d | None \<Rightarrow> []),
                             reports_state.loading := False\<rparr>, w2))))"

text \<open>
  \<^verbatim>\<open>Array.from(new Set(xs))\<close> keeps the first occurrence of every element, in the order
  of \<open>xs\<close>.
\<close>

fun Array_from_Set :: "'a list \<Rightarrow> 'a list" where
  "Array_from_Set [] = []"
| "Array_from_Set (x # xs) = x # filter (\<lambda>y. y \<noteq> x) (Array_from_Set xs)"

text \<open>
  \<^verbatim>\<open>allCourses\<close>: the courses of all students, \<^verbatim>\<open>flatMap\<close>ped, made distinct and sorted.
  The \<^verbatim>\<open>.sort()\<close> of an array of strings without a comparison function orders them by
  their code units, which is the lexicographic order of \<^typ>\<open>string\<close>.
\<close>

definition allCourses :: "student list \<Rightarrow> string list" where
  "allCourses studs = sort (Array_from_Set (concat (map student.courses studs)))"

definition getStudentsForCourse :: "student list \<Rightarrow> string \<Rightarrow> student list" where
  "getStudentsForCourse studs course = filter (\<lambda>s. course \<in> set (student.courses s)) studs"

definition getAttendanceForCourse :: "attendance list \<Rightarrow> string \<Rightarrow> attendance list" where
  "getAttendanceForCourse recs course = filter (\<lambda>r. courseCode r = course) recs"

record course_stats =
  registered :: nat
  attended :: nat
  percentage :: int

definition getCourseStats :: "student list \<Rightarrow> attendance list \<Rightarrow> string \<Rightarrow> course_stats" where
  "getCourseStats studs recs course =
     (let registeredStudents = getStudentsForCourse studs course;
          attendanceList = getAttendanceForCourse recs course
      in \<lparr>registered = length registeredStudents,
          attended = length attendanceList,
          percentage =
            (if length registeredStudents > 0
             then Math_round (js_mul (js_div (length attendanceList) (length registeredStudents)) 100)
             else 0)\<rparr>)"

section \<open>Attendance detail view\<close>

text \<open>
  The values \<^verbatim>\<open>AttendanceDetailModal\<close> computes from its properties \<^verbatim>\<open>course\<close>,
  \<^verbatim>\<open>students\<close> and \<^verbatim>\<open>attendanceRecords\<close>. The difference of two array lengths is a
  JavaScript number and may be negative, so it is an \<^typ>\<open>int\<close>.
\<close>

definition registeredStudents :: "string \<Rightarrow> student list \<Rightarrow> student list" where
  "registeredStudents course studs = filter (\<lambda>s. course \<in> set (student.courses s)) studs"

definition courseAttendance :: "string \<Rightarrow> attendance list \<Rightarrow> attendance list" where
  "courseAttendance course recs = filter (\<lambda>a. courseCode a = course) recs"

definition getAttendanceStatus :: "string \<Rightarrow> attendance list \<Rightarrow> js_string \<Rightarrow> attendance option" where
  "getAttendanceStatus course recs matric =
     find (\<lambda>a. attendance.matricNumber a = matric) (courseAttendance course recs)"

definition attendedCount :: "string \<Rightarrow> attendance list \<Rightarrow> nat" where
  "attendedCount course recs = length (courseAttendance course recs)"

definition absentCount :: "string \<Rightarrow> student list \<Rightarrow> attendance list \<Rightarrow> int" where
  "absentCount course studs recs =
     int (length (registeredStudents course studs)) - int (attendedCount course recs)"

definition attendancePercentage :: "string \<Rightarrow> student list \<Rightarrow> attendance list \<Rightarrow> int" where
  "attendancePercentage course studs recs =
     (if length (registeredStudents course studs) > 0
      then Math_round (js_mul (js_div (attendedCount course recs)
                                      (length (registeredStudents course studs))) 100)
      else 0)"

text \<open>
  The list of the view shows a registered student as present when
  \<^verbatim>\<open>getAttendanceStatus\<close> finds a row, and as absent otherwise.
\<close>

definition isPresent :: "string \<Rightarrow> attendance list \<Rightarrow> student \<Rightarrow> bool" where
  "isPresent course recs s = (getAttendanceStatus course recs (student.matricNumber s) \<noteq> None)"

section \<open>Student details screen\<close>

record details_state =
  students :: "student list"
  attendanceRecords :: "attendance list"
  loading :: bool
  error :: "string option"

text \<open>
  \<^verbatim>\<open>fetchData\<close> of the details screen: \<^verbatim>\<open>students\<close>, then \<^verbatim>\<open>attendance_records\<close>,
  whose rows it keeps as they come, as \<^verbatim>\<open>CourseAttendance\<close>.
\<close>

definition details_fetchData ::
  "pg_error option \<Rightarrow> pg_error option \<Rightarrow> details_state \<times> (student, attendance) world
     \<Rightarrow> details_state \<times> (student, attendance) world" where
  "details_fetchData students_fault attendance_fault sw =
     (case sw of (st, w) \<Rightarrow>
        let st1 = st\<lparr>details_state.loading := True, details_state.error := None\<rparr>;
            r1 = select_rows students_fault (\<lambda>_. True) (store.students (db w));
            w1 = issue (Select ''students'' []) w
        in (case response.error r1 of
              Some e \<Rightarrow>
                (st1\<lparr>details_state.error := Some (pg_error.message e),
                     details_state.loading := False\<rparr>,
                 console_error (LogError ''Error fetching data:'' e) w1)
            | None \<Rightarrow>
                let st2 = st1\<lparr>details_state.students := (case data r1 of Some d \<Rightarrow> d | None \<Rightarrow> [])\<rparr>;
                    r2 = select_rows attendance_fault (\<lambda>_. True) (attendance_records (db w1));
                    w2 = issue (Select ''attendance_records'' []) w1
                in (case response.error r2 of
                      Some e \<Rightarrow>
                        (st2\<lparr>details_state.error := Some (pg_error.message e),
                             details_state.loading := False\<rparr>,
                         console_error (LogError ''Error fetching data:'' e) w2)
                    | None \<Rightarrow>
                        (st2\<lparr>details_state.attendanceRecords :=
                               (case data r2 of Some d \<Rightarrow> d | None \<Rightarrow> []),
                             details_state.loading := False\<rparr>, w2))))"

definition getStudentAttendance :: "attendance list \<Rightarrow> js_string \<Rightarrow> attendance list" where
  "getStudentAttendance recs matric = filter (\<lambda>r. attendance.matricNumber r = matric) recs"

definition getAttendancePercentage :: "attendance list \<Rightarrow> student \<Rightarrow> int" where
  "getAttendancePercentage recs stu =
     (let att = length (getStudentAttendance recs (student.matricNumber stu));
          total = length (student.courses stu)
      in if total > 0 then Math_round (js_mul (js_div att total) 100) else 0)"

section \<open>Home screen\<close>

record home_state =
  students :: "student list"
  attendanceRecords :: "attendance list"
  loading :: bool
  error :: "string option"

text \<open>
  \<^verbatim>\<open>loadAttendance\<close>: all rows of \<^verbatim>\<open>attendance_records\<close>, renamed field by field. A
  failure is logged and thrown on to the caller: the first component of the result is the
  error thrown, if any. The select is issued when the function is called; what it does
  once the answer is there is \<open>loadAttendance_answered\<close>.
\<close>

definition loadAttendance_answered ::
  "pg_error option \<Rightarrow> home_state \<times> ('s, attendance_record_row) world
     \<Rightarrow> pg_error option \<times> home_state \<times> ('s, attendance_record_row) world" where
  "loadAttendance_answered fault sw =
     (case sw of (st, w) \<Rightarrow>
        let r = select_rows fault (\<lambda>_. True) (attendance_records (db w))
        in (case response.error r of
              Some e \<Rightarrow> (Some e, st, console_error (LogError ''Error loading attendance:'' e) w)
            | None \<Rightarrow>
                (case data r of
                   Some d \<Rightarrow>
                     (None,
                      st\<lparr>home_state.attendanceRecords :=
                           map (\<lambda>rec. \<lparr>attendance.id = attendance_record_row.id rec,
                                       matricNumber = attendance_record_row.matric_number rec,
                                       courseCode = attendance_record_row.course_code rec,
                                       verificationDate = verification_date rec,
                                       invigilatorName = invigilator_name rec\<rparr>) d\<rparr>, w)
                 | None \<Rightarrow> (None, st, w))))"

definition loadAttendance ::
  "pg_error option \<Rightarrow> home_state \<times> ('s, attendance_record_row) world
     \<Rightarrow> pg_error option \<times> home_state \<times> ('s, attendance_record_row) world" where
  "loadAttendance fault sw =
     (case sw of (st, w) \<Rightarrow>
        loadAttendance_answered fault (st, issue (Select ''attendance_records'' []) w))"

text \<open>
  \<^verbatim>\<open>loadStudents\<close> has two awaits. When the rows of \<^verbatim>\<open>students\<close> are there it asks for
  all of \<^verbatim>\<open>student_courses\<close>; when these are there it gives every student the course
  codes of the rows with the student's \<^verbatim>\<open>id\<close>. Either failure is logged and thrown.
\<close>

datatype 'a outcome = Thrown pg_error | Returned | Awaiting 'a

definition loadStudents_answered ::
  "pg_error option \<Rightarrow> home_state \<times> (student_row, 'r) world
     \<Rightarrow> student_row list outcome \<times> home_state \<times> (student_row, 'r) world" where
  "loadStudents_answered fault sw =
     (case sw of (st, w) \<Rightarrow>
        let r = select_rows fault (\<lambda>_. True) (store.students (db w))
        in (case response.error r of
              Some e \<Rightarrow> (Thrown e, st, console_error (LogError ''Error loading students:'' e) w)
            | None \<Rightarrow>
                (case data r of
                   Some studentsData \<Rightarrow>
                     (Awaiting studentsData, st, issue (Select ''student_courses'' []) w)
                 | None \<Rightarrow> (Returned, st, w))))"

definition loadStudents_courses_answered ::
  "pg_error option \<Rightarrow> student_row list \<Rightarrow> home_state \<times> (student_row, 'r) world
     \<Rightarrow> student_row list outcome \<times> home_state \<times> (student_row, 'r) world" where
  "loadStudents_courses_answered fault studentsData sw =
     (case sw of (st, w) \<Rightarrow>
        let r = select_rows fault (\<lambda>_. True) (student_courses (db w))
        in (case response.error r of
              Some e \<Rightarrow>
                (Thrown e, st, console_error (LogError ''Error loading student courses:'' e) w)
            | None \<Rightarrow>
                (Returned,
                 st\<lparr>home_state.students :=
                      map (\<lambda>row.
                             \<lparr>student.id = student_row.id row,
                              fullName = full_name row,
                              matricNumber = student_row.matric_number row,
                              image = student_row.image row,
                              session = student_row.session row,
                              semester = student_row.semester row,
                              courses =
                                map student_course_row.course_code
                                  (filter (\<lambda>c. student_id c = student_row.id row)
                                     (case data r of Some coursesData \<Rightarrow> coursesData | None \<Rightarrow> [])),
                              registrationDate = registration_date row\<rparr>) studentsData\<rparr>,
                 w)))"

text \<open>
  \<^verbatim>\<open>loadData\<close> starts \<^verbatim>\<open>loadStudents\<close> and \<^verbatim>\<open>loadAttendance\<close> one after the other, so
  that both first selects are issued at once, and waits for the two with
  \<^verbatim>\<open>Promise.all\<close>. The answers arrive one at a time, the one for \<^verbatim>\<open>student_courses\<close>
  after the one for \<^verbatim>\<open>students\<close> and the one for \<^verbatim>\<open>attendance_records\<close> whenever the
  environment wants. \<^verbatim>\<open>Promise.all\<close> is rejected by the first function that throws and
  fulfilled when both have returned; then \<^verbatim>\<open>loadData\<close> resumes, with its \<^verbatim>\<open>catch\<close> in the
  first case and with its \<^verbatim>\<open>finally\<close> in both. The function that has not finished by then
  still runs to its end.
\<close>

datatype arrival = Attendance_first | Attendance_second | Attendance_last

record home_env =
  students_fault :: "pg_error option"
  courses_fault :: "pg_error option"
  attendance_fault :: "pg_error option"
  attendance_arrives :: arrival

datatype answer = Students_answer | Courses_answer | Attendance_answer

datatype promise = Pending | Fulfilled | Rejected pg_error

text \<open>
  \<^verbatim>\<open>loadData\<close> in flight: the screen and the world, the rows \<^verbatim>\<open>loadStudents\<close> holds
  between its two awaits, the promises of the two functions, and whether \<^verbatim>\<open>loadData\<close>
  is still waiting for them.
\<close>

record load =
  screen :: home_state
  outside :: "(student_row, attendance_record_row) world"
  held :: "student_row list option"
  loadStudents_promise :: promise
  loadAttendance_promise :: promise
  waiting :: bool

definition settled :: "'a outcome \<Rightarrow> promise" where
  "settled out = (case out of Thrown e \<Rightarrow> Rejected e | Returned \<Rightarrow> Fulfilled | Awaiting d \<Rightarrow> Pending)"

definition answered :: "home_env \<Rightarrow> answer \<Rightarrow> load \<Rightarrow> load" where
  "answered env a l =
     (case a of
        Students_answer \<Rightarrow>
          (case loadStudents_answered (students_fault env) (screen l, outside l) of
             (out, st, w) \<Rightarrow>
               l\<lparr>screen := st, outside := w,
                  held := (case out of Awaiting d \<Rightarrow> Some d | _ \<Rightarrow> None),
                  loadStudents_promise := settled out\<rparr>)
      | Courses_answer \<Rightarrow>
          (case held l of
             None \<Rightarrow> l
           | Some studentsData \<Rightarrow>
               (case loadStudents_courses_answered (courses_fault env) studentsData
                       (screen l, outside l) of
                  (out, st, w) \<Rightarrow>
                    l\<lparr>screen := st, outside := w, held := None,
                       loadStudents_promise := settled out\<rparr>))
      | Attendance_answer \<Rightarrow>
          (case loadAttendance_answered (attendance_fault env) (screen l, outside l) of
             (thrown, st, w) \<Rightarrow>
               l\<lparr>screen := st, outside := w,
                  loadAttendance_promise :=
                    (case thrown of Some e \<Rightarrow> Rejected e | None \<Rightarrow> Fulfilled)\<rparr>))"

definition caught :: "pg_error \<Rightarrow> load \<Rightarrow> load" where
  "caught e l =
     l\<lparr>screen := (screen l)\<lparr>home_state.error := Some ''Failed to load data.'',
                              home_state.loading := False\<rparr>,
       outside := console_error (LogError ''Error loading data:'' e) (outside l),
       waiting := False\<rparr>"

definition resumed :: "load \<Rightarrow> load" where
  "resumed l =
     (if \<not> waiting l then l
      else
        (case loadStudents_promise l of
           Rejected e \<Rightarrow> caught e l
         | Pending \<Rightarrow>
             (case loadAttendance_promise l of Rejected e \<Rightarrow> caught e l | _ \<Rightarrow> l)
         | Fulfilled \<Rightarrow>
             (case loadAttendance_promise l of
                Rejected e \<Rightarrow> caught e l
              | Pending \<Rightarrow> l
              | Fulfilled \<Rightarrow>
                  l\<lparr>screen := (screen l)\<lparr>home_state.loading := False\<rparr>, waiting := False\<rparr>)))"

definition answers :: "arrival \<Rightarrow> answer list" where
  "answers a =
     (case a of
        Attendance_first \<Rightarrow> [Attendance_answer, Students_answer, Courses_answer]
      | Attendance_second \<Rightarrow> [Students_answer, Attendance_answer, Courses_answer]
      | Attendance_last \<Rightarrow> [Students_answer, Courses_answer, Attendance_answer])"

definition loadData ::
  "home_env \<Rightarrow> home_state \<times> (student_row, attendance_record_row) world
     \<Rightarrow> home_state \<times> (student_row, attendance_record_row) world" where
  "loadData env sw =
     (case sw of (st, w) \<Rightarrow>
        let l0 = \<lparr>screen = st\<lparr>home_state.loading := True, home_state.error := None\<rparr>,
                  outside = issue (Select ''attendance_records'' []) (issue (Select ''students'' []) w),
                  held = None, loadStudents_promise = Pending, loadAttendance_promise = Pending,
                  waiting = True\<rparr>;
            l = fold (\<lambda>a l. resumed (answered env a l)) (answers (attendance_arrives env)) l0
        in (screen l, outside l))"

section \<open>The percentages as the specification words them\<close>

text \<open>
  The specification gives every percentage as \<open>round(a / b \<times> 100)\<close>. This is that number
  over the rationals, a half rounded up as \<^verbatim>\<open>Math.round\<close> does; \<open>halfway a b\<close> says that
  \<open>a / b \<times> 100\<close> lies exactly in the middle between two integers.
\<close>

definition round_percentage :: "nat \<Rightarrow> nat \<Rightarrow> int" where
  "round_percentage a b = \<lfloor>(of_nat a / of_nat b :: rat) * 100 + 1 / 2\<rfloor>"

definition halfway :: "nat \<Rightarrow> nat \<Rightarrow> bool" where
  "halfway a b = ((200 * int a + int b) mod (2 * int b) = 0)"

text \<open>
  The specification's testable property for the per-student percentage counts only the
  attendance rows whose course code occurs in the student's enrolment list. This is that
  reading, written down to be compared with \<open>getAttendancePercentage\<close>.
\<close>

definition enrolled_attendance_percentage :: "attendance list \<Rightarrow> student \<Rightarrow> int" where
  "enrolled_attendance_percentage recs stu =
     (let att = length (filter (\<lambda>r. attendance.matricNumber r = student.matricNumber stu
                                  \<and> courseCode r \<in> set (student.courses stu)) recs);
          total = length (student.courses stu)
      in if total = 0 then 0 else round_percentage att total)"

section \<open>Letter case\<close>

text \<open>
  Two strings differ only in letter case when they have the same length and, position by
  position, hold the same character or a letter and its capital.
\<close>

definition differ_only_in_case :: "case_mapping \<Rightarrow> js_string \<Rightarrow> js_string \<Rightarrow> bool" where
  "differ_only_in_case uc s t =
     list_all2 (\<lambda>a b. a = b \<or> uc a = [b] \<or> uc b = [a]) s t"

section \<open>Runs of the two screens that write\<close>

text \<open>
  The registration screen and the verification screen hold the only two inserts of the
  application. A run is a sequence of their actions on one shared world: editing a field
  (any change of the screen's own state), submitting the form, searching, and marking
  attendance. The case mapping of the runtime is the same throughout a run.
\<close>

type_synonym 'r app = "registration_state \<times> verification_state \<times> (student, 'r) world"

datatype action =
    Edit_registration "registration_state \<Rightarrow> registration_state"
  | Submit submit_env
  | Edit_verification "verification_state \<Rightarrow> verification_state"
  | Search "pg_error option"
  | Mark mark_env

fun perform :: "case_mapping \<Rightarrow> action \<Rightarrow> 'r app \<Rightarrow> 'r app" where
  "perform uc (Edit_registration f) (rst, vst, w) = (f rst, vst, w)"
| "perform uc (Submit env) (rst, vst, w) =
     (case handleSubmit env (rst, w) of (rst', w') \<Rightarrow> (rst', vst, w'))"
| "perform uc (Edit_verification f) (rst, vst, w) = (rst, f vst, w)"
| "perform uc (Search fault) (rst, vst, w) =
     (case handleSearch uc fault (vst, w) of (vst', w') \<Rightarrow> (rst, vst', w'))"
| "perform uc (Mark env) (rst, vst, w) =
     (case handleMarkAttendance env (vst, w) of (vst', w') \<Rightarrow> (rst, vst', w'))"

definition run :: "case_mapping \<Rightarrow> action list \<Rightarrow> 'r app \<Rightarrow> 'r app" where
  "run uc acts a = fold (perform uc) acts a"

definition world_of :: "'r app \<Rightarrow> (student, 'r) world" where
  "world_of a = snd (snd a)"

section \<open>Example data\<close>

text \<open>
  The upper-case mappings of the code points below 256, which have been the same in
  every version of the Unicode character database: the letters \<^verbatim>\<open>a\<close> to \<^verbatim>\<open>z\<close> and the
  accented small letters have their capital 32 places before them, except that the micro
  sign and the y with diaeresis have theirs outside this range and the sharp s becomes
  two capital S; the division sign is no letter. The examples run on a runtime that knows
  these mappings and no others.
\<close>

definition Latin1_Uppercase :: case_mapping where
  "Latin1_Uppercase c =
     (if 0x61 \<le> c \<and> c \<le> 0x7A then [c - 0x20]
      else if c = 0xB5 then [0x39C]
      else if c = 0xDF then [0x53, 0x53]
      else if 0xE0 \<le> c \<and> c \<le> 0xFE \<and> c \<noteq> 0xF7 then [c - 0x20]
      else if c = 0xFF then [0x178]
      else [c])"

text \<open>
  The scenarios of the specification, as concrete values: a student on file under
  \<^verbatim>\<open>CSC/2020/002\<close> for two courses, a registration form that asks for one of them again,
  and a verification screen with that student selected.
\<close>

definition stored_student :: student where
  "stored_student =
     \<lparr>student.id = ''1700000000000'', fullName = ''Ada Obi'', matricNumber = code_points ''CSC/2020/002'',
      image = ''https://via.placeholder.com/150'', session = ''2024/2025'',
      semester = ''First Semester'', courses = [''CSC301'', ''MTH301''],
      registrationDate = ''2024-10-01T08:00:00.000Z''\<rparr>"

definition stored_attendance :: attendance where
  "stored_attendance =
     \<lparr>attendance.id = ''1'', matricNumber = code_points ''CSC/2020/002'', courseCode = ''CSC301'',
      verificationDate = ''2024-11-05T09:00:00.000Z'', invigilatorName = code_points ''B. Musa''\<rparr>"

definition empty_world :: "(student, 'r) world" where
  "empty_world =
     \<lparr>db = \<lparr>store.students = [], student_courses = [], course_attendance = [], attendance_records = []\<rparr>,
      console = [], requests = []\<rparr>"

definition registered_world :: "(student, 'r) world" where
  "registered_world =
     \<lparr>db = \<lparr>store.students = [stored_student], student_courses = [], course_attendance = [], attendance_records = []\<rparr>,
      console = [], requests = []\<rparr>"

definition attended_world :: "(student, 'r) world" where
  "attended_world =
     \<lparr>db = \<lparr>store.students = [stored_student], student_courses = [], course_attendance = [stored_attendance],
            attendance_records = []\<rparr>,
      console = [], requests = []\<rparr>"

definition repeat_form :: registration_state where
  "repeat_form =
     \<lparr>formData = \<lparr>fullName = ''Ada Obi'', matricNumber = code_points ''CSC/2020/002'',
                   image = ''https://via.placeholder.com/150'', session = ''2024/2025'',
                   semester = ''First Semester'', courses = [''CSC301'']\<rparr>,
      message = None, loading = False, timers = 0\<rparr>"

definition calm_submit :: submit_env where
  "calm_submit =
     \<lparr>lookup_fault = None, insert_fault = None,
      now_millis = ''1700000000001'', now_iso = ''2024-10-02T08:00:00.000Z''\<rparr>"

definition network_down :: pg_error where
  "network_down = \<lparr>code = ''0'', message = ''TypeError: Network request failed''\<rparr>"

definition lookup_down_submit :: submit_env where
  "lookup_down_submit =
     \<lparr>lookup_fault = Some network_down, insert_fault = None,
      now_millis = ''1700000000001'', now_iso = ''2024-10-02T08:00:00.000Z''\<rparr>"

definition selected_screen :: verification_state where
  "selected_screen =
     \<lparr>matricNumber = code_points ''CSC/2020/002'', selectedStudent = Some stored_student,
      selectedCourse = ''CSC301'', invigilatorName = code_points ''B. Musa'',
      message = None, loading = False, timers = 0\<rparr>"

definition calm_mark :: mark_env where
  "calm_mark =
     \<lparr>check_fault = None, insert_fault = None,
      now_iso = ''2024-11-05T09:30:00.000Z'', new_id = ''2''\<rparr>"

definition check_down_mark :: mark_env where
  "check_down_mark =
     \<lparr>check_fault = Some network_down, insert_fault = None,
      now_iso = ''2024-11-05T09:30:00.000Z'', new_id = ''2''\<rparr>"

text \<open>
  The student \<^verbatim>\<open>CSC/2020/001\<close> of the specification's other scenario, enrolled in
  \<^verbatim>\<open>CSC301\<close> and \<^verbatim>\<open>CSC302\<close>, with a row for \<^verbatim>\<open>CSC301\<close>, and a row under the same
  number for a course outside the enrolment.
\<close>

definition two_course_student :: student where
  "two_course_student =
     \<lparr>student.id = ''1700000000002'', fullName = ''Chidi Eze'', matricNumber = code_points ''CSC/2020/001'',
      image = ''https://via.placeholder.com/150'', session = ''2024/2025'',
      semester = ''First Semester'', courses = [''CSC301'', ''CSC302''],
      registrationDate = ''2024-10-01T08:05:00.000Z''\<rparr>"

definition row_CSC301 :: attendance where
  "row_CSC301 =
     \<lparr>attendance.id = ''10'', matricNumber = code_points ''CSC/2020/001'', courseCode = ''CSC301'',
      verificationDate = ''2024-11-05T09:00:00.000Z'', invigilatorName = code_points ''B. Musa''\<rparr>"

definition row_outside :: attendance where
  "row_outside =
     \<lparr>attendance.id = ''11'', matricNumber = code_points ''CSC/2020/001'', courseCode = ''PHY301'',
      verificationDate = ''2024-11-06T09:00:00.000Z'', invigilatorName = code_points ''B. Musa''\<rparr>"

text \<open>
  A row for \<^verbatim>\<open>CSC301\<close> under a matriculation number that no student has.
\<close>

definition row_stranger :: attendance where
  "row_stranger =
     \<lparr>attendance.id = ''12'', matricNumber = code_points ''CSC/2019/777'', courseCode = ''CSC301'',
      verificationDate = ''2024-11-05T09:10:00.000Z'', invigilatorName = code_points ''B. Musa''\<rparr>"

text \<open>A fresh start: empty forms on an empty store.\<close>

definition blank_registration :: registration_state where
  "blank_registration =
     \<lparr>formData = initial_formData, message = None, loading = False, timers = 0\<rparr>"

definition blank_verification :: verification_state where
  "blank_verification =
     \<lparr>matricNumber = [], selectedStudent = None, selectedCourse = [],
      invigilatorName = [], message = None, loading = False, timers = 0\<rparr>"

definition blank_home :: home_state where
  "blank_home =
     \<lparr>home_state.students = [], attendanceRecords = [], loading = True, error = None\<rparr>"

definition blank_details :: details_state where
  "blank_details =
     \<lparr>details_state.students = [], attendanceRecords = [], loading = True, error = None\<rparr>"

definition blank_reports :: reports_state where
  "blank_reports =
     \<lparr>reports_state.selectedCourse = [], detailModalCourse = None, students = [],
      attendanceRecords = [],
      loading = True, error = None\<rparr>"

text \<open>
  A day at the desk: the form is filled in for the student of the example and submitted,
  the invigilator searches the number, picks \<^verbatim>\<open>CSC301\<close>, and marks attendance.
\<close>

definition desk_run :: "action list" where
  "desk_run =
     [Edit_registration (\<lambda>st. st\<lparr>formData :=
         \<lparr>fullName = ''Ada Obi'', matricNumber = code_points ''CSC/2020/002'',
          image = ''https://via.placeholder.com/150'', session = ''2024/2025'',
          semester = ''First Semester'', courses = [''CSC301'', ''MTH301'']\<rparr>\<rparr>),
      Submit calm_submit,
      Edit_verification (verification_onChangeText_matricNumber Latin1_Uppercase (code_points ''csc/2020/002'')),
      Search None,
      Edit_verification (\<lambda>st. st\<lparr>verification_state.selectedCourse := ''CSC301'',
                                    verification_state.invigilatorName := code_points ''B. Musa''\<rparr>),
      Mark calm_mark]"

text \<open>The attendance row that this run creates.\<close>

definition desk_row :: attendance where
  "desk_row =
     \<lparr>attendance.id = ''2'', matricNumber = code_points ''CSC/2020/002'', courseCode = ''CSC301'',
      verificationDate = ''2024-11-05T09:30:00.000Z'', invigilatorName = code_points ''B. Musa''\<rparr>"

text \<open>Environments in which the lookup is answered and the insert fails.\<close>

definition insert_down_submit :: submit_env where
  "insert_down_submit =
     \<lparr>lookup_fault = None, insert_fault = Some network_down,
      now_millis = ''1700000000001'', now_iso = ''2024-10-02T08:00:00.000Z''\<rparr>"

definition insert_down_mark :: mark_env where
  "insert_down_mark =
     \<lparr>check_fault = None, insert_fault = Some network_down,
      now_iso = ''2024-11-05T09:30:00.000Z'', new_id = ''2''\<rparr>"

text \<open>
  The same student registering in two steps: first for \<^verbatim>\<open>CSC301\<close>, later for
  \<^verbatim>\<open>MTH301\<close>. The two submissions leave two rows under the one matriculation number.
\<close>

definition first_form :: registration_state where
  "first_form =
     \<lparr>formData = \<lparr>fullName = ''Ada Obi'', matricNumber = code_points ''CSC/2020/002'',
                   image = ''https://via.placeholder.com/150'', session = ''2024/2025'',
                   semester = ''First Semester'', courses = [''CSC301'']\<rparr>,
      message = None, loading = False, timers = 0\<rparr>"

definition second_form :: registration_state where
  "second_form =
     \<lparr>formData = \<lparr>fullName = ''Ada Obi'', matricNumber = code_points ''CSC/2020/002'',
                   image = ''https://via.placeholder.com/150'', session = ''2024/2025'',
                   semester = ''First Semester'', courses = [''MTH301'']\<rparr>,
      message = None, loading = False, timers = 0\<rparr>"

definition later_submit :: submit_env where
  "later_submit =
     \<lparr>lookup_fault = None, insert_fault = None,
      now_millis = ''1700000600000'', now_iso = ''2024-10-02T08:10:00.000Z''\<rparr>"

definition last_submit :: submit_env where
  "last_submit =
     \<lparr>lookup_fault = None, insert_fault = None,
      now_millis = ''1700001200000'', now_iso = ''2024-10-02T08:20:00.000Z''\<rparr>"

definition registered_in_two_steps :: "(student, 'r) world" where
  "registered_in_two_steps =
     snd (handleSubmit later_submit
            (second_form, snd (handleSubmit calm_submit (first_form, empty_world))))"

text \<open>An environment in which the lookup and the insert of the verification screen fail.\<close>

definition all_down_mark :: mark_env where
  "all_down_mark =
     \<lparr>check_fault = Some network_down, insert_fault = Some network_down,
      now_iso = ''2024-11-05T09:30:00.000Z'', new_id = ''2''\<rparr>"

text \<open>
  A third student of \<^verbatim>\<open>CSC301\<close>, and a student enrolled in three courses with two
  attendance rows.
\<close>

definition third_student :: student where
  "third_student =
     \<lparr>student.id = ''1700000000003'', fullName = ''Bola Sani'',
      matricNumber = code_points ''CSC/2020/003'',
      image = ''https://via.placeholder.com/150'', session = ''2024/2025'',
      semester = ''First Semester'', courses = [''CSC301'', ''CSC302'', ''MTH301''],
      registrationDate = ''2024-10-01T08:10:00.000Z''\<rparr>"

definition third_row :: "string \<Rightarrow> attendance" where
  "third_row course =
     \<lparr>attendance.id = ''20'', matricNumber = code_points ''CSC/2020/003'', courseCode = course,
      verificationDate = ''2024-11-05T09:05:00.000Z'', invigilatorName = code_points ''B. Musa''\<rparr>"

text \<open>
  A class of forty students registered for \<^verbatim>\<open>CSC301\<close>, numbered from 0, of whom the
  first twenty-three have an attendance row.
\<close>

definition two_digits :: "nat \<Rightarrow> string" where
  "two_digits n = [char_of (48 + n div 10), char_of (48 + n mod 10)]"

definition class_member :: "nat \<Rightarrow> student" where
  "class_member n =
     \<lparr>student.id = ''17000001000'' @ two_digits n, fullName = ''Student '' @ two_digits n,
      matricNumber = code_points (''CSC/2021/0'' @ two_digits n),
      image = ''https://via.placeholder.com/150'', session = ''2024/2025'',
      semester = ''First Semester'', courses = [''CSC301''],
      registrationDate = ''2024-10-03T08:00:00.000Z''\<rparr>"

definition class_row :: "nat \<Rightarrow> attendance" where
  "class_row n =
     \<lparr>attendance.id = ''1'' @ two_digits n,
      matricNumber = code_points (''CSC/2021/0'' @ two_digits n), courseCode = ''CSC301'',
      verificationDate = ''2024-11-05T09:00:00.000Z'', invigilatorName = code_points ''B. Musa''\<rparr>"

definition class_of_forty :: "student list" where
  "class_of_forty = map class_member [0..<40]"

definition class_rows :: "attendance list" where
  "class_rows = map class_row [0..<23]"

text \<open>
  A student enrolled in forty courses, with a row for each of the first twenty-three of
  them; and with a row for each of the forty and one more for a course outside the
  enrolment.
\<close>

definition forty_courses :: "string list" where
  "forty_courses = map (\<lambda>n. ''CRS1'' @ two_digits n) [0..<40]"

definition busy_student :: student where
  "busy_student =
     \<lparr>student.id = ''1700000000040'', fullName = ''Dayo Alabi'',
      matricNumber = code_points ''CSC/2020/040'',
      image = ''https://via.placeholder.com/150'', session = ''2024/2025'',
      semester = ''First Semester'', courses = forty_courses,
      registrationDate = ''2024-10-01T08:15:00.000Z''\<rparr>"

definition busy_row :: "string \<Rightarrow> attendance" where
  "busy_row course =
     \<lparr>attendance.id = ''4'' @ course, matricNumber = code_points ''CSC/2020/040'',
      courseCode = course, verificationDate = ''2024-11-07T09:00:00.000Z'',
      invigilatorName = code_points ''B. Musa''\<rparr>"

definition busy_rows :: "attendance list" where
  "busy_rows = map busy_row (take 23 forty_courses)"

definition crowded_rows :: "attendance list" where
  "crowded_rows = map busy_row (forty_courses @ [''PHY301''])"

text \<open>
  The number of the example as a hurried hand types it: in small letters, after a space
  and before a no-break space.
\<close>

definition typed_number :: js_string where
  "typed_number = [0x20] @ code_points ''csc/2020/002'' @ [0xA0]"

text \<open>
  A store whose table \<^verbatim>\<open>attendance_records\<close> holds one row, put there by other hands
  than the application's: as the home screen reads it, and as the details screen does.
\<close>

definition archived_record :: attendance_record_row where
  "archived_record =
     \<lparr>attendance_record_row.id = ''900'', matric_number = code_points ''CSC/2018/014'',
      course_code = ''CSC201'', verification_date = ''2023-11-02T09:00:00.000Z'',
      invigilator_name = code_points ''K. Bello''\<rparr>"

definition archived_attendance :: attendance where
  "archived_attendance =
     \<lparr>attendance.id = ''900'', matricNumber = code_points ''CSC/2018/014'',
      courseCode = ''CSC201'', verificationDate = ''2023-11-02T09:00:00.000Z'',
      invigilatorName = code_points ''K. Bello''\<rparr>"

definition archive_world :: "'r \<Rightarrow> (student, 'r) world" where
  "archive_world row =
     \<lparr>db = \<lparr>store.students = [], student_courses = [], course_attendance = [],
            attendance_records = [row]\<rparr>,
      console = [], requests = []\<rparr>"

text \<open>
  The home screen on a store with the older attendance row, while the select on
  \<^verbatim>\<open>students\<close> fails and the answer for \<^verbatim>\<open>attendance_records\<close> comes last.
\<close>

definition home_world :: "(student_row, attendance_record_row) world" where
  "home_world =
     \<lparr>db = \<lparr>store.students = [], student_courses = [], course_attendance = [],
            attendance_records = [archived_record]\<rparr>,
      console = [], requests = []\<rparr>"

definition students_down :: home_env where
  "students_down =
     \<lparr>students_fault = Some network_down, courses_fault = None, attendance_fault = None,
      attendance_arrives = Attendance_last\<rparr>"

text \<open>The details screen on an empty store.\<close>

definition details_world :: "(student, attendance) world" where
  "details_world =
     \<lparr>db = \<lparr>store.students = [], student_courses = [], course_attendance = [],
            attendance_records = []\<rparr>,
      console = [], requests = []\<rparr>"

text \<open>
  What the client answers when the number of the example is looked up as a single row in
  the store that holds two rows under it.
\<close>

definition two_rows_answer :: "student response" where
  "two_rows_answer =
     single (select_rows None (\<lambda>s. student.matricNumber s = code_points ''CSC/2020/002'')
               (store.students (db (registered_in_two_steps :: (student, unit) world))))"

text \<open>A student on file without any course.\<close>

definition idle_student :: student where
  "idle_student =
     \<lparr>student.id = ''1700000000004'', fullName = ''Efe Okoro'',
      matricNumber = code_points ''CSC/2020/001'',
      image = ''https://via.placeholder.com/150'', session = ''2024/2025'',
      semester = ''First Semester'', courses = [],
      registrationDate = ''2024-10-01T08:20:00.000Z''\<rparr>"

section \<open>The arithmetic of the percentages\<close>

text \<open>
  The model of the double operations is checked against the exact values: \<open>Math_round\<close>
  is \<open>\<lfloor>x + 1/2\<rfloor>\<close>, and \<open>nearest_double\<close> returns a 53-bit significand at the
  exponent of the fraction, at most half a unit in the last place away from it, and an
  even one when the fraction lies halfway. From this, the percentage of two array lengths
  is the exactly rounded percentage or one less, and one less only when the exact
  percentage lies halfway between two integers.
\<close>

lemma bit_length_nonneg: "0 \<le> bit_length n"
  by (induction n rule: bit_length.induct) (subst bit_length.simps, simp)

lemma bit_length_pos: "0 < n \<Longrightarrow> 0 < bit_length n"
  using bit_length_nonneg [of "n div 2"] by (subst bit_length.simps) simp

lemma bit_length_bounds:
  "0 < n \<Longrightarrow> 2 ^ nat (bit_length n - 1) \<le> n \<and> n < 2 ^ nat (bit_length n)"
proof (induction n rule: bit_length.induct)
  case (1 n)
  show ?case
  proof (cases "n div 2 = 0")
    case True
    with 1 have "n = 1" by linarith
    then show ?thesis
      by (simp add: bit_length.simps)
  next
    case False
    with 1 have pos: "0 < n div 2" by linarith
    from 1 have n: "\<not> n \<le> 0" by simp
    from 1(1) [OF n pos]
    have ih: "2 ^ nat (bit_length (n div 2) - 1) \<le> n div 2" "n div 2 < 2 ^ nat (bit_length (n div 2))"
      by simp_all
    have bl: "bit_length n = 1 + bit_length (n div 2)"
      using n by (subst bit_length.simps) simp
    have b1: "0 < bit_length (n div 2)" using pos by (rule bit_length_pos)
    have e1: "nat (bit_length n - 1) = Suc (nat (bit_length (n div 2) - 1))"
      using bl b1 by simp
    have e2: "nat (bit_length n) = Suc (nat (bit_length (n div 2)))"
      using bl b1 by simp
    have "2 * 2 ^ nat (bit_length (n div 2) - 1) \<le> 2 * (n div 2)" using ih by simp
    also have "\<dots> \<le> n" by simp
    finally have lo: "2 ^ nat (bit_length n - 1) \<le> n" by (simp add: e1)
    have "n < 2 * (n div 2) + 2" by linarith
    also have "\<dots> \<le> 2 * 2 ^ nat (bit_length (n div 2))" using ih by simp
    finally have hi: "n < 2 ^ nat (bit_length n)" by (simp add: e2)
    from lo hi show ?thesis by simp
  qed
qed

lemma Math_round_exact: "Math_round (m, e) = \<lfloor>double_val (m, e) + 1 / 2\<rfloor>"
proof (cases "0 \<le> e")
  case True
  then have "double_val (m, e) = of_int (m * 2 ^ nat e)"
    by (simp add: double_val_def power_int_def)
  then have "\<lfloor>double_val (m, e) + 1 / 2\<rfloor> = m * 2 ^ nat e"
    by (simp only: ) linarith
  with True show ?thesis
    by (simp add: Math_round_def)
next
  case False
  define k where "k = nat (- e)"
  from False have e: "e = - int k" and kpos: "0 < k"
    by (simp_all add: k_def)
  have "double_val (m, e) + 1 / 2 = of_int (2 * m + 2 ^ k) / of_int (2 ^ (k + 1))"
    by (simp add: double_val_def e power_int_minus field_simps)
  then have "\<lfloor>double_val (m, e) + 1 / 2\<rfloor> = (2 * m + 2 ^ k) div 2 ^ (k + 1)"
    by (simp only: floor_divide_of_int_eq)
  with False show ?thesis
    by (simp add: Math_round_def k_def)
qed

lemma pow2_le_iff:
  assumes "0 < q"
  shows "pow2_le d p q \<longleftrightarrow> (2::rat) powi d \<le> of_int p / of_int q"
proof (cases "0 \<le> d")
  case True
  have "(2 ^ nat d * q \<le> p) = ((of_int (2 ^ nat d * q) :: rat) \<le> of_int p)"
    by (simp only: of_int_le_iff)
  also have "\<dots> = ((2::rat) ^ nat d \<le> of_int p / of_int q)"
    using assms by (simp add: pos_le_divide_eq)
  finally show ?thesis
    using True by (simp add: pow2_le_def power_int_def)
next
  case False
  have "(q \<le> p * 2 ^ nat (- d)) = ((of_int q :: rat) \<le> of_int (p * 2 ^ nat (- d)))"
    by (simp only: of_int_le_iff)
  also have "\<dots> = (1 / (2::rat) ^ nat (- d) \<le> of_int p / of_int q)"
    using assms by (simp add: field_simps)
  finally show ?thesis
    using False by (simp add: pow2_le_def power_int_def inverse_eq_divide power_one_over)
qed

lemma floor_log2_bounds:
  assumes p: "0 < p" and q: "0 < q"
  defines "d \<equiv> bit_length p - bit_length q"
  defines "lg \<equiv> (if pow2_le d p q then d else d - 1)"
  shows "(2::rat) powi lg \<le> of_int p / of_int q
         \<and> of_int p / of_int q < (2::rat) powi (lg + 1)"
proof -
  let ?x = "of_int p / of_int q :: rat"
  from bit_length_bounds [OF p] bit_length_pos [OF p]
  have "rat_of_int (2 ^ nat (bit_length p - 1)) \<le> of_int p"
    and "rat_of_int p < of_int (2 ^ nat (bit_length p))" and bp: "0 < bit_length p"
    by (simp_all only: of_int_le_iff of_int_less_iff)
  then have plo: "(2::rat) powi (bit_length p - 1) \<le> of_int p"
    and phi: "of_int p < (2::rat) powi bit_length p"
    by (simp_all add: power_int_def)
  from bit_length_bounds [OF q] bit_length_pos [OF q]
  have "rat_of_int (2 ^ nat (bit_length q - 1)) \<le> of_int q"
    and "rat_of_int q < of_int (2 ^ nat (bit_length q))" and bq: "0 < bit_length q"
    by (simp_all only: of_int_le_iff of_int_less_iff)
  then have qlo: "(2::rat) powi (bit_length q - 1) \<le> of_int q"
    and qhi: "of_int q < (2::rat) powi bit_length q"
    by (simp_all add: power_int_def)
  have "?x < 2 powi bit_length p / 2 powi (bit_length q - 1)"
    using p phi qlo by (intro frac_less) simp_all
  also have "\<dots> = 2 powi (d + 1)"
    by (simp add: d_def power_int_diff [symmetric] algebra_simps)
  finally have upper: "?x < 2 powi (d + 1)" .
  have "(2::rat) powi (bit_length p - 1) / 2 powi bit_length q < ?x"
    using q plo qhi by (intro frac_less2) simp_all
  moreover have "(2::rat) powi (bit_length p - 1) / 2 powi bit_length q = 2 powi (d - 1)"
    by (simp add: d_def power_int_diff [symmetric] algebra_simps)
  ultimately have lower: "(2::rat) powi (d - 1) < ?x" by simp
  show ?thesis
  proof (cases "pow2_le d p q")
    case True
    then have "(2::rat) powi d \<le> ?x" using pow2_le_iff [OF q] by simp
    with True upper show ?thesis by (simp add: lg_def)
  next
    case False
    then have "?x < 2 powi d" using pow2_le_iff [OF q, of d p] by simp
    with False lower show ?thesis by (simp add: lg_def)
  qed
qed


lemma half_compare:
  fixes r dn :: int
  assumes dn: "0 < dn"
  shows "(rat_of_int r / of_int dn < 1 / 2) = (2 * r < dn)"
    and "(1 / 2 < rat_of_int r / of_int dn) = (dn < 2 * r)"
    and "(rat_of_int r / of_int dn = 1 / 2) = (2 * r = dn)"
proof -
  have dn': "0 < rat_of_int dn" using dn by simp
  have "(2 * r < dn) = (rat_of_int (2 * r) < of_int dn)"
    by (simp only: of_int_less_iff)
  also have "\<dots> = (rat_of_int r / of_int dn < 1 / 2)"
    using dn' by (simp add: pos_divide_less_eq mult.commute)
  finally show "(rat_of_int r / of_int dn < 1 / 2) = (2 * r < dn)" by simp
  have "(dn < 2 * r) = (rat_of_int dn < of_int (2 * r))"
    by (simp only: of_int_less_iff)
  also have "\<dots> = (1 / 2 < rat_of_int r / of_int dn)"
    using dn' by (simp add: pos_less_divide_eq mult.commute)
  finally show "(1 / 2 < rat_of_int r / of_int dn) = (dn < 2 * r)" by simp
  have "(2 * r = dn) = (rat_of_int (2 * r) = of_int dn)"
    by (simp only: of_int_eq_iff)
  also have "\<dots> = (rat_of_int r / of_int dn = 1 / 2)"
    using dn' by (auto simp add: divide_eq_eq mult.commute)
  finally show "(rat_of_int r / of_int dn = 1 / 2) = (2 * r = dn)" by simp
qed

lemma round_half_even_quotient:
  fixes n dn :: int
  assumes dn: "0 < dn"
  defines "k \<equiv> n div dn" and "r \<equiv> n mod dn"
  defines "m \<equiv> (if 2 * r < dn then k else if dn < 2 * r then k + 1
                  else if even k then k else k + 1)"
  shows "\<bar>rat_of_int n / of_int dn - of_int m\<bar> \<le> 1 / 2
         \<and> k \<le> m \<and> m \<le> k + 1
         \<and> (\<bar>rat_of_int n / of_int dn - of_int m\<bar> = 1 / 2 \<longrightarrow> even m)"
proof -
  define f where "f = rat_of_int r / of_int dn"
  define y where "y = rat_of_int n / of_int dn"
  have n: "n = k * dn + r" by (simp add: k_def r_def)
  have y: "y = of_int k + f"
  proof -
    have "rat_of_int n = of_int k * of_int dn + of_int r"
      by (subst n) simp
    then show ?thesis using dn by (simp add: y_def f_def add_divide_distrib)
  qed
  note frac = half_compare [OF dn, of r, folded f_def]
  have km: "k \<le> m" "m \<le> k + 1" by (simp_all add: m_def)
  consider (down) "2 * r < dn" | (up) "dn < 2 * r" | (tie) "2 * r = dn" by linarith
  then have cases: "(m = k \<and> f < 1 / 2) \<or> (m = k + 1 \<and> 1 / 2 < f)
                    \<or> (f = 1 / 2 \<and> even m \<and> (m = k \<or> m = k + 1))"
  proof cases
    case down
    then have "m = k" by (simp add: m_def)
    with down frac show ?thesis by simp
  next
    case up
    then have "m = k + 1" by (simp add: m_def)
    with up frac show ?thesis by simp
  next
    case tie
    then have "m = k \<or> m = k + 1" "even m" by (auto simp add: m_def)
    with tie frac show ?thesis by simp
  qed
  have f0: "0 \<le> f" using dn by (simp add: r_def f_def)
  have f1: "f < 1" using dn by (simp add: r_def f_def)
  have main: "\<bar>y - of_int m\<bar> \<le> 1 / 2 \<and> (\<bar>y - of_int m\<bar> = 1 / 2 \<longrightarrow> even m)"
    using cases
  proof (elim disjE conjE)
    assume "m = k" "f < 1 / 2"
    with f0 show ?thesis by (simp add: y)
  next
    assume "m = k + 1" "1 / 2 < f"
    with f1 show ?thesis by (simp add: y abs_if)
  next
    assume "f = 1 / 2" "even m" "m = k"
    then show ?thesis by (simp add: y)
  next
    assume "f = 1 / 2" "even m" "m = k + 1"
    then show ?thesis by (simp add: y)
  qed
  with km show ?thesis by (simp add: y_def)
qed

lemma nearest_double_nearest:
  assumes p: "0 < p" and q: "0 < q"
  shows "case nearest_double p q of (m, s) \<Rightarrow>
           2 ^ 52 \<le> m \<and> m \<le> 2 ^ 53
           \<and> \<bar>rat_of_int p / of_int q - double_val (m, s)\<bar> \<le> 2 powi s / 2
           \<and> (\<bar>rat_of_int p / of_int q - double_val (m, s)\<bar> = 2 powi s / 2 \<longrightarrow> even m)
           \<and> 2 ^ 52 * 2 powi s \<le> rat_of_int p / of_int q
           \<and> rat_of_int p / of_int q < 2 ^ 53 * 2 powi s"
proof -
  define d where "d = bit_length p - bit_length q"
  define lg where "lg = (if pow2_le d p q then d else d - 1)"
  define s where "s = lg - 52"
  define n where "n = (if 0 \<le> s then p else p * 2 ^ nat (- s))"
  define dn where "dn = (if 0 \<le> s then q * 2 ^ nat s else q)"
  define k where "k = n div dn"
  define r where "r = n mod dn"
  define m where "m = (if 2 * r < dn then k else if dn < 2 * r then k + 1
                       else if even k then k else k + 1)"
  define x where "x = rat_of_int p / of_int q"
  define y where "y = rat_of_int n / of_int dn"
  define u :: rat where "u = 2 powi s"
  have result: "nearest_double p q = (m, s)"
  proof -
    have "p \<noteq> 0" using p by simp
    then show ?thesis
      unfolding nearest_double_def Let_def m_def r_def k_def dn_def n_def s_def lg_def d_def
      by (simp only: if_False)
  qed
  have dn: "0 < dn"
    using q by (simp add: dn_def)
  have u: "0 < u" by (simp add: u_def)
  have scaled: "x = y * u"
  proof (cases "0 \<le> s")
    case True
    then have "u = 2 ^ nat s" by (simp add: u_def power_int_def)
    with True q show ?thesis by (simp add: x_def y_def n_def dn_def)
  next
    case False
    then have "u = 1 / 2 ^ nat (- s)"
      by (simp add: u_def power_int_def inverse_eq_divide power_one_over)
    with False q show ?thesis by (simp add: x_def y_def n_def dn_def)
  qed
  from floor_log2_bounds [OF p q]
  have lo: "2 powi lg \<le> x" and hi: "x < 2 powi (lg + 1)"
    unfolding lg_def d_def x_def by blast+
  have "(2::rat) powi lg = 2 ^ 52 * u"
    by (simp add: u_def s_def power_int_diff)
  with lo scaled u have ylo: "2 ^ 52 \<le> y" by simp
  have "(2::rat) powi (lg + 1) = 2 ^ 53 * u"
    by (simp add: u_def s_def power_int_diff power_int_add)
  with hi scaled u have yhi: "y < 2 ^ 53" by simp
  have kfloor: "k = \<lfloor>y\<rfloor>"
    by (simp add: k_def y_def floor_divide_of_int_eq)
  have "rat_of_int (2 ^ 52) \<le> y" using ylo by simp
  then have klo: "2 ^ 52 \<le> k"
    unfolding kfloor by (simp only: le_floor_iff)
  have "y < rat_of_int (2 ^ 53)" using yhi by simp
  then have khi: "k < 2 ^ 53"
    unfolding kfloor by (simp only: floor_less_iff)
  from round_half_even_quotient [OF dn, of n]
  have near: "\<bar>y - of_int m\<bar> \<le> 1 / 2" and km: "k \<le> m" "m \<le> k + 1"
    and tie: "\<bar>y - of_int m\<bar> = 1 / 2 \<longrightarrow> even m"
    unfolding y_def m_def k_def r_def by blast+
  have diff: "x - double_val (m, s) = (y - of_int m) * u"
    by (simp add: scaled double_val_def u_def algebra_simps)
  have absdiff: "\<bar>x - double_val (m, s)\<bar> = \<bar>y - of_int m\<bar> * u"
    using u by (simp add: diff abs_mult)
  have b1: "2 ^ 52 \<le> m" using klo km by linarith
  have b2: "m \<le> 2 ^ 53" using khi km by linarith
  have b3: "\<bar>x - double_val (m, s)\<bar> \<le> u / 2"
    using near u by (simp add: absdiff field_simps)
  have b4: "\<bar>x - double_val (m, s)\<bar> = u / 2 \<longrightarrow> even m"
    using tie u by (simp add: absdiff field_simps)
  have b5: "2 ^ 52 * u \<le> x" using ylo u by (simp add: scaled)
  have b6: "x < 2 ^ 53 * u" using yhi u by (simp add: scaled)
  from b1 b2 b3 b4 b5 b6 show ?thesis
    by (simp add: result x_def u_def)
qed

lemma js_mul_fraction:
  assumes m: "0 < m" and n: "0 < n"
  shows "\<exists>p q. 0 < p \<and> 0 < q \<and> js_mul (m, e) n = nearest_double p q
               \<and> rat_of_int p / of_int q = double_val (m, e) * of_int n"
proof (cases "0 \<le> e")
  case True
  have "0 < m * n * 2 ^ nat e" using m n by simp
  moreover have "js_mul (m, e) n = nearest_double (m * n * 2 ^ nat e) 1"
    using True by (simp add: js_mul_def)
  moreover have "rat_of_int (m * n * 2 ^ nat e) / of_int 1 = double_val (m, e) * of_int n"
    using True by (simp add: double_val_def power_int_def)
  ultimately show ?thesis by (metis zero_less_one)
next
  case False
  have "0 < m * n" using m n by simp
  moreover have "(0::int) < 2 ^ nat (- e)" by simp
  moreover have "js_mul (m, e) n = nearest_double (m * n) (2 ^ nat (- e))"
    using False by (simp add: js_mul_def)
  moreover have "rat_of_int (m * n) / of_int (2 ^ nat (- e)) = double_val (m, e) * of_int n"
    using False by (simp add: double_val_def power_int_def inverse_eq_divide power_one_over)
  ultimately show ?thesis by blast
qed


lemma floor_near_fraction:
  fixes v :: rat and n d :: int
  assumes d: "0 < d" and close: "\<bar>v * of_int d - of_int n\<bar> < 1"
  shows "n div d - 1 \<le> \<lfloor>v\<rfloor> \<and> \<lfloor>v\<rfloor> \<le> n div d \<and> (n mod d \<noteq> 0 \<longrightarrow> \<lfloor>v\<rfloor> = n div d)"
proof -
  define k where "k = n div d"
  define t where "t = n mod d"
  define dq where "dq = rat_of_int d"
  have dq: "0 < dq" "1 \<le> dq" using d by (simp_all add: dq_def)
  have n: "rat_of_int n = of_int k * dq + of_int t"
  proof -
    have "n = k * d + t" by (simp add: k_def t_def)
    then show ?thesis by (simp add: dq_def flip: of_int_mult of_int_add)
  qed
  have t: "0 \<le> rat_of_int t" "rat_of_int t \<le> dq - 1"
  proof -
    have "0 \<le> t" "t \<le> d - 1" using d by (simp_all add: t_def)
    then have "rat_of_int 0 \<le> of_int t" "rat_of_int t \<le> of_int (d - 1)"
      by (simp_all only: of_int_le_iff)
    then show "0 \<le> rat_of_int t" "rat_of_int t \<le> dq - 1" by (simp_all add: dq_def)
  qed
  from close have c: "v * dq < of_int k * dq + of_int t + 1" "of_int k * dq + of_int t - 1 < v * dq"
    by (simp_all add: n dq_def [symmetric] abs_less_iff)
  have "v * dq < (of_int k + 1) * dq"
    using c t by (simp add: algebra_simps)
  then have up: "v < of_int (k + 1)" using dq by simp
  have "(of_int k - 1) * dq < v * dq"
    using c t dq by (simp add: algebra_simps)
  then have low: "of_int (k - 1) < v" using dq by simp
  have tight: "of_int k < v" if "t \<noteq> 0"
  proof -
    have "0 \<le> t" using d by (simp add: t_def)
    with that have "1 \<le> t" by linarith
    then have "rat_of_int 1 \<le> of_int t" by (simp only: of_int_le_iff)
    then have "of_int k * dq < v * dq" using c by simp
    then show ?thesis using dq by simp
  qed
  have "\<lfloor>v\<rfloor> < k + 1" using up by (simp only: floor_less_iff)
  moreover have "k - 1 \<le> \<lfloor>v\<rfloor>" using low by (simp add: le_floor_iff)
  moreover have "k \<le> \<lfloor>v\<rfloor>" if "t \<noteq> 0"
    using tight [OF that] by (simp add: le_floor_iff)
  ultimately show ?thesis
    by (auto simp add: k_def t_def)
qed

lemma percentage_error:
  fixes a r :: nat
  assumes a0: "0 < a" and r: "0 < r" and a: "a < 2 ^ 32"
  shows "\<bar>double_val (js_mul (js_div a r) 100) * of_int (2 * int r) - of_int (200 * int a)\<bar> < 1"
proof -
  define x where "x = rat_of_int (int a) / of_int (int r)"
  obtain m1 s1 where d1: "nearest_double (int a) (int r) = (m1, s1)"
    by fastforce
  define q where "q = double_val (m1, s1)"
  define u1 :: rat where "u1 = 2 powi s1"
  from nearest_double_nearest [of "int a" "int r"] a0 r
  have m1: "2 ^ 52 \<le> m1" and e1: "\<bar>x - q\<bar> \<le> u1 / 2" and g1: "2 ^ 52 * u1 \<le> x"
    by (simp_all add: d1 x_def q_def u1_def)
  have "(0::int) < 2 ^ 52" by simp
  with m1 have m1pos: "0 < m1" by linarith
  from js_mul_fraction [OF m1pos, of 100 s1] obtain p2 q2 where
    p2: "0 < p2" and q2: "0 < q2"
    and mul: "js_mul (m1, s1) 100 = nearest_double p2 q2"
    and frac: "rat_of_int p2 / of_int q2 = q * 100"
    by (auto simp add: q_def)
  obtain m2 s2 where d2: "nearest_double p2 q2 = (m2, s2)"
    by fastforce
  define pv where "pv = double_val (m2, s2)"
  define u2 :: rat where "u2 = 2 powi s2"
  from nearest_double_nearest [OF p2 q2]
  have e2: "\<bar>q * 100 - pv\<bar> \<le> u2 / 2" and g2: "2 ^ 52 * u2 \<le> q * 100"
    by (simp_all add: d2 frac pv_def u2_def)
  have res: "double_val (js_mul (js_div a r) 100) = pv"
    by (simp add: js_div_def d1 mul d2 pv_def)
  have xpos: "0 \<le> x" by (simp add: x_def)
  have u1pos: "0 < u1" and u2pos: "0 < u2" by (simp_all add: u1_def u2_def)
  have err: "2 ^ 52 * \<bar>pv - 100 * x\<bar> \<le> 150 * x"
  proof -
    from e1 have a1: "x - q \<le> u1 / 2" "q - x \<le> u1 / 2" by linarith+
    from e2 have a2: "q * 100 - pv \<le> u2 / 2" "pv - q * 100 \<le> u2 / 2" by linarith+
    from g1 have b1: "4503599627370496 * u1 \<le> x" by simp
    from g2 have b2: "4503599627370496 * u2 \<le> q * 100" by simp
    have q2x: "q \<le> 2 * x" using a1 b1 xpos u1pos by linarith
    have "4503599627370496 * (pv - q * 100) \<le> 4503599627370496 * (u2 / 2)"
      using a2 by (intro mult_left_mono) simp_all
    then have s1: "4503599627370496 * pv - 4503599627370496 * (q * 100) \<le> 50 * q"
      using b2 by (simp add: algebra_simps)
    have "4503599627370496 * (q * 100 - pv) \<le> 4503599627370496 * (u2 / 2)"
      using a2 by (intro mult_left_mono) simp_all
    then have s1': "4503599627370496 * (q * 100) - 4503599627370496 * pv \<le> 50 * q"
      using b2 by (simp add: algebra_simps)
    have "4503599627370496 * (q - x) \<le> 4503599627370496 * (u1 / 2)"
      using a1 by (intro mult_left_mono) simp_all
    then have s2: "4503599627370496 * q - 4503599627370496 * x \<le> x / 2"
      using b1 by (simp add: algebra_simps)
    have "4503599627370496 * (x - q) \<le> 4503599627370496 * (u1 / 2)"
      using a1 by (intro mult_left_mono) simp_all
    then have s2': "4503599627370496 * x - 4503599627370496 * q \<le> x / 2"
      using b1 by (simp add: algebra_simps)
    have "4503599627370496 * (pv - 100 * x) \<le> 150 * x"
      using s1 s2 q2x xpos by (simp add: algebra_simps)
    moreover have "4503599627370496 * (100 * x - pv) \<le> 150 * x"
      using s1' s2' q2x xpos by (simp add: algebra_simps)
    ultimately have "4503599627370496 * \<bar>pv - 100 * x\<bar> \<le> 150 * x"
      by (simp add: abs_if)
    then show ?thesis by simp
  qed
  define rr where "rr = rat_of_int (int r)"
  define ar where "ar = rat_of_int (int a)"
  have rq: "0 < rr" using r by (simp add: rr_def)
  have xr: "x * rr = ar"
    using r by (simp add: x_def rr_def ar_def)
  have "2 ^ 52 * \<bar>pv - 100 * x\<bar> * rr \<le> 150 * x * rr"
    using err rq by (intro mult_right_mono) simp_all
  also have "150 * x * rr = 150 * ar"
    by (simp only: mult.assoc xr)
  finally have scaled: "4503599627370496 * (\<bar>pv - 100 * x\<bar> * rr) \<le> 150 * ar"
    by (simp add: mult.assoc)
  from a have "int a < int (2 ^ 32)" by (simp only: of_nat_less_iff)
  then have "int a < 4294967296" by simp
  then have "rat_of_int (int a) < of_int 4294967296" by (simp only: of_int_less_iff)
  then have abound: "ar < 4294967296" by (simp add: ar_def)
  from scaled abound have small: "\<bar>pv - 100 * x\<bar> * rr < 1 / 2"
    by linarith
  have "pv * (2 * rr) - 200 * ar = 2 * ((pv - 100 * x) * rr)"
    by (simp add: algebra_simps xr [symmetric])
  then have "\<bar>pv * (2 * rr) - 200 * ar\<bar> = 2 * (\<bar>pv - 100 * x\<bar> * rr)"
    using rq by (simp add: abs_mult)
  with small have "\<bar>pv * (2 * rr) - 200 * ar\<bar> < 1"
    by simp
  then show ?thesis
    by (simp add: res rr_def ar_def)
qed

lemma round_percent_exact:
  fixes a r :: nat
  assumes r: "0 < r"
  shows "\<lfloor>100 * rat_of_nat a / of_nat r + 1 / 2\<rfloor> = (200 * int a + int r) div (2 * int r)"
proof -
  have "100 * rat_of_nat a / of_nat r + 1 / 2
        = rat_of_int (200 * int a + int r) / of_int (2 * int r)"
    using r by (simp add: field_simps)
  then show ?thesis
    by (simp only: floor_divide_of_int_eq)
qed

lemma percentage_error_all:
  fixes a r :: nat
  assumes r: "0 < r" and a: "a < 2 ^ 32"
  shows "\<bar>double_val (js_mul (js_div a r) 100) * of_int (2 * int r) - of_int (200 * int a)\<bar> < 1"
proof (cases "a = 0")
  case True
  then show ?thesis
    by (simp add: js_div_def js_mul_def nearest_double_def double_val_def)
next
  case False
  then have "0 < a" by simp
  then show ?thesis using r a by (rule percentage_error)
qed

lemma percentage_close_to_exact:
  fixes a r :: nat
  assumes r: "0 < r" and a: "a < 2 ^ 32"
  defines "pct \<equiv> Math_round (js_mul (js_div a r) 100)"
  defines "exact \<equiv> \<lfloor>100 * rat_of_nat a / of_nat r + 1 / 2\<rfloor>"
  shows "exact - 1 \<le> pct \<and> pct \<le> exact
         \<and> ((200 * int a + int r) mod (2 * int r) \<noteq> 0 \<longrightarrow> pct = exact)"
proof -
  define pv where "pv = double_val (js_mul (js_div a r) 100)"
  have pct: "pct = \<lfloor>pv + 1 / 2\<rfloor>"
    unfolding pct_def pv_def by (cases "js_mul (js_div a r) 100") (simp add: Math_round_exact)
  have d: "0 < 2 * int r" using r by simp
  have "(pv + 1 / 2) * of_int (2 * int r) - of_int (200 * int a + int r)
        = pv * of_int (2 * int r) - of_int (200 * int a)"
    by (simp add: algebra_simps)
  with percentage_error_all [OF r a]
  have close: "\<bar>(pv + 1 / 2) * of_int (2 * int r) - of_int (200 * int a + int r)\<bar> < 1"
    by (simp only: pv_def)
  from floor_near_fraction [OF d close]
  show ?thesis
    by (simp add: pct exact_def round_percent_exact [OF r])
qed

text \<open>
  The same in the words of the specification: the percentage of the code is the rounded
  percentage or one less, and the rounded percentage itself unless the exact percentage
  lies halfway between two integers.
\<close>

lemma round_percentage_div:
  "0 < r \<Longrightarrow> round_percentage a r = (200 * int a + int r) div (2 * int r)"
  using round_percent_exact [of r a] by (simp add: round_percentage_def mult.commute)

lemma percentage_rounding:
  fixes a r :: nat
  assumes r: "0 < r" and a: "a < 2 ^ 32"
  shows "round_percentage a r - 1 \<le> Math_round (js_mul (js_div a r) 100)"
    and "Math_round (js_mul (js_div a r) 100) \<le> round_percentage a r"
    and "\<not> halfway a r \<Longrightarrow> Math_round (js_mul (js_div a r) 100) = round_percentage a r"
proof -
  have "round_percentage a r = \<lfloor>100 * rat_of_nat a / of_nat r + 1 / 2\<rfloor>"
    by (simp add: round_percentage_def mult.commute)
  with percentage_close_to_exact [OF r a]
  show "round_percentage a r - 1 \<le> Math_round (js_mul (js_div a r) 100)"
    and "Math_round (js_mul (js_div a r) 100) \<le> round_percentage a r"
    and "\<not> halfway a r \<Longrightarrow> Math_round (js_mul (js_div a r) 100) = round_percentage a r"
    by (simp_all add: halfway_def)
qed

text \<open>
  One less does occur: 23 of 40 is 57.5 exactly, the double product is just below it and
  is rounded to 57.
\<close>

lemma percentage_tie_example:
  "Math_round (js_mul (js_div 23 40) 100) = 57
   \<and> \<lfloor>100 * rat_of_nat 23 / of_nat 40 + 1 / 2\<rfloor> = 58"
  by (simp add: js_mul_def js_div_def Math_round_def nearest_double_def pow2_le_def
        bit_length.simps Let_def)

section \<open>The remote calls, case by case\<close>

lemma single_select_one:
  "filter p rows = [row] \<Longrightarrow>
     single (select_rows None p rows) = \<lparr>data = Some row, error = None\<rparr>"
  by (simp add: single_def select_rows_def)

lemma single_select_none:
  "filter p rows = [] \<Longrightarrow>
     single (select_rows None p rows) = \<lparr>data = None, error = Some PGRST116\<rparr>"
  by (simp add: single_def select_rows_def)

lemma single_select_fault:
  "single (select_rows (Some e) p rows) = \<lparr>data = None, error = Some e\<rparr>"
  by (simp add: single_def select_rows_def)

lemma no_rows_not_failed [simp]: "\<not> failed_other_than_no_rows (Some PGRST116)"
  by (simp add: failed_other_than_no_rows_def PGRST116_def)

lemma none_not_failed [simp]: "\<not> failed_other_than_no_rows None"
  by (simp add: failed_other_than_no_rows_def)

section \<open>Registration: the duplicate check and the insert it guards\<close>

lemma checkDuplicateRegistration_found:
  assumes "filter (\<lambda>s. student.matricNumber s = m) (store.students (db w)) = [row]"
  shows "checkDuplicateRegistration None m cs (st, w) =
           (filter (\<lambda>c. c \<in> set (student.courses row)) cs,
            st\<lparr>registration_state.loading := False\<rparr>,
            issue (Select ''students'' [(''matricNumber'', m)]) w)"
  using assms by (simp add: checkDuplicateRegistration_def single_select_one Let_def)

lemma checkDuplicateRegistration_no_row:
  assumes "filter (\<lambda>s. student.matricNumber s = m) (store.students (db w)) = []"
  shows "checkDuplicateRegistration None m cs (st, w) =
           ([], st\<lparr>registration_state.loading := False\<rparr>,
            issue (Select ''students'' [(''matricNumber'', m)]) w)"
  using assms by (simp add: checkDuplicateRegistration_def single_select_none Let_def)

lemma checkDuplicateRegistration_failed:
  assumes "code e \<noteq> ''PGRST116''"
  shows "checkDuplicateRegistration (Some e) m cs (st, w) =
           ([], st\<lparr>registration_state.loading := False\<rparr>,
            console_error (LogError ''Error checking duplicate registration:'' e)
              (issue (Select ''students'' [(''matricNumber'', m)]) w))"
  using assms
  by (simp add: checkDuplicateRegistration_def single_select_fault Let_def
        failed_other_than_no_rows_def)

lemma checkDuplicateRegistration_not_found:
  assumes "code e = ''PGRST116''"
  shows "checkDuplicateRegistration (Some e) m cs (st, w) =
           ([], st\<lparr>registration_state.loading := False\<rparr>,
            issue (Select ''students'' [(''matricNumber'', m)]) w)"
  using assms
  by (simp add: checkDuplicateRegistration_def single_select_fault Let_def
        failed_other_than_no_rows_def)

lemma handleCourseToggle_distinct:
  assumes "distinct (form_data.courses (formData st))"
  shows "distinct (form_data.courses (formData (handleCourseToggle c st)))"
  using assms by (simp add: handleCourseToggle_def)

lemma handleSubmit_incomplete:
  assumes "form_incomplete (formData st)"
  shows "handleSubmit env (st, w) =
           (st\<lparr>registration_state.message := Some \<lparr>type = message_type.error,
                   text = ''Please fill in all fields and select at least one course.''\<rparr>,
               registration_state.loading := False\<rparr>, w)"
  using assms by (simp add: handleSubmit_def Let_def)

lemma handleSubmit_checked:
  assumes "\<not> form_incomplete (formData st)"
    and "checkDuplicateRegistration (lookup_fault env) (form_data.matricNumber (formData st))
           (form_data.courses (formData st)) (st\<lparr>registration_state.loading := True\<rparr>, w)
         = (dup, st1, w1)"
  shows "handleSubmit env (st, w) =
     (if dup \<noteq> []
      then (st1\<lparr>registration_state.message := Some \<lparr>type = message_type.error,
                     text = ''Student is already registered for: '' @ join '', '' dup\<rparr>,
                registration_state.loading := False\<rparr>, w1)
      else
        (case submit_env.insert_fault env of
           Some e \<Rightarrow>
             (st1\<lparr>registration_state.loading := False,
                  registration_state.message :=
                    Some \<lparr>type = message_type.error, text = ''Error registering student.''\<rparr>,
                  registration_state.timers := registration_state.timers st1 + 1\<rparr>,
              console_error (LogError ''Error registering student:'' e)
                (issue (Insert ''students'') w1))
         | None \<Rightarrow>
             (st1\<lparr>registration_state.loading := False,
                  registration_state.message :=
                    Some \<lparr>type = success, text = ''Student registered successfully!''\<rparr>,
                  formData := initial_formData,
                  registration_state.timers := registration_state.timers st1 + 1\<rparr>,
              (issue (Insert ''students'') w1)
                \<lparr>db := (db w1)\<lparr>store.students :=
                   store.students (db w1) @ [newStudent env (formData st1)]\<rparr>\<rparr>)))"
  using assms
  by (simp add: handleSubmit_def Let_def insert_row_def issue_def console_error_def
        split: option.splits)

text \<open>
  What a submission does once the form is complete and the duplicate check has found
  nothing: the select of the check, then the insert.
\<close>

lemma handleSubmit_proceeds:
  assumes ready: "\<not> form_incomplete (formData st)"
    and chk: "checkDuplicateRegistration (lookup_fault env) (form_data.matricNumber (formData st))
           (form_data.courses (formData st)) (st\<lparr>registration_state.loading := True\<rparr>, w)
         = ([], st\<lparr>registration_state.loading := False\<rparr>, w1)"
    and w1: "requests w1 = requests w @ [rq]" "db w1 = db w"
  shows "case handleSubmit env (st, w) of (st', w') \<Rightarrow>
           requests w' = requests w @ [rq, Insert ''students'']
           \<and> store.students (db w') =
               (case submit_env.insert_fault env of
                  None \<Rightarrow> store.students (db w) @ [newStudent env (formData st)]
                | Some e \<Rightarrow> store.students (db w))
           \<and> console w' =
               console w1 @ (case submit_env.insert_fault env of
                               None \<Rightarrow> []
                             | Some e \<Rightarrow> [LogError ''Error registering student:'' e])"
  using w1
  by (simp add: handleSubmit_checked [OF ready chk] issue_def console_error_def
        split: option.splits)

text \<open>
  Claim C1, as stated, lets the check find the overlap whenever a row of the number
  exists. Two cases escape it. The same student registers in two steps, for \<^verbatim>\<open>CSC301\<close>
  and later for \<^verbatim>\<open>MTH301\<close>, which the check allows, and then for \<^verbatim>\<open>CSC301\<close> again: the
  lookup for a single row now meets two and answers with no row, the check returns the
  empty list, and a third row is inserted. And with one row on file and the lookup
  failing, the check returns the empty list as well, and the student is inserted for a
  course the stored row lists.
\<close>

theorem repeated_registration_counterexample:
  "store.students (db (registered_in_two_steps :: (student, unit) world))
     = [newStudent calm_submit (formData first_form), newStudent later_submit (formData second_form)]
   \<and> student.matricNumber (newStudent calm_submit (formData first_form))
       = form_data.matricNumber (formData first_form)
   \<and> form_data.courses (formData first_form) = [''CSC301'']
   \<and> ''CSC301'' \<in> set (student.courses (newStudent calm_submit (formData first_form)))
   \<and> fst (checkDuplicateRegistration None (form_data.matricNumber (formData first_form))
             (form_data.courses (formData first_form))
             (first_form, registered_in_two_steps :: (student, unit) world)) = []
   \<and> store.students
        (db (snd (handleSubmit last_submit (first_form, registered_in_two_steps :: (student, unit) world))))
     = [newStudent calm_submit (formData first_form), newStudent later_submit (formData second_form),
        newStudent last_submit (formData first_form)]
   \<and> registration_state.message
        (fst (handleSubmit last_submit (first_form, registered_in_two_steps :: (student, unit) world)))
     = Some \<lparr>type = success, text = ''Student registered successfully!''\<rparr>
   \<and> store.students (db (registered_world :: (student, unit) world)) = [stored_student]
   \<and> student.matricNumber stored_student = form_data.matricNumber (formData repeat_form)
   \<and> form_data.courses (formData repeat_form) = [''CSC301'']
   \<and> ''CSC301'' \<in> set (student.courses stored_student)
   \<and> fst (checkDuplicateRegistration (Some network_down)
             (form_data.matricNumber (formData repeat_form))
             (form_data.courses (formData repeat_form))
             (repeat_form, registered_world :: (student, unit) world)) = []
   \<and> store.students
        (db (snd (handleSubmit lookup_down_submit (repeat_form, registered_world :: (student, unit) world))))
     = [stored_student, newStudent lookup_down_submit (formData repeat_form)]"
  by (simp add: registered_in_two_steps_def handleSubmit_def checkDuplicateRegistration_def
        first_form_def second_form_def repeat_form_def calm_submit_def later_submit_def
        last_submit_def lookup_down_submit_def empty_world_def registered_world_def
        stored_student_def network_down_def newStudent_def form_incomplete_def
        single_def select_rows_def failed_other_than_no_rows_def PGRST116_def insert_row_def
        issue_def console_error_def code_points_def Let_def)

text \<open>
  Claim C1, amended. A registration is submitted for the matriculation number \<open>m\<close> and the
  courses \<open>cs\<close> of the form. If the lookup is answered and the store holds exactly one
  student row under \<open>m\<close>, the duplicate check returns the courses of \<open>cs\<close> that the row
  lists, in the order of \<open>cs\<close>; when that list is not empty the submission ends after the
  lookup with the error message that names these courses, and the store is as before; the
  insert into \<^verbatim>\<open>students\<close> is issued only when the list is empty. If the lookup is
  answered and the store holds no row under \<open>m\<close>, the check returns the empty list and the
  insert is issued. If the lookup fails, with another code than \<^verbatim>\<open>PGRST116\<close>, the failure
  is logged, the check returns the empty list and the insert is issued. (A form that fails
  the validation never reaches the check: it issues no call at all.)
\<close>

theorem registration_duplicate_check:
  assumes "form_data.matricNumber (formData st) = m"
    and "form_data.courses (formData st) = cs"
  shows
    "(lookup_fault env = None
        \<and> filter (\<lambda>s. student.matricNumber s = m) (store.students (db w)) = [row] \<longrightarrow>
        fst (checkDuplicateRegistration (lookup_fault env) m cs (st, w))
          = filter (\<lambda>c. c \<in> set (student.courses row)) cs
        \<and> (case handleSubmit env (st, w) of (st', w') \<Rightarrow>
             if form_incomplete (formData st)
             then requests w' = requests w \<and> db w' = db w
             else if filter (\<lambda>c. c \<in> set (student.courses row)) cs \<noteq> []
             then requests w' = requests w @ [Select ''students'' [(''matricNumber'', m)]]
                  \<and> db w' = db w
                  \<and> registration_state.message st' = Some \<lparr>type = message_type.error,
                        text = ''Student is already registered for: ''
                          @ join '', '' (filter (\<lambda>c. c \<in> set (student.courses row)) cs)\<rparr>
             else requests w' = requests w
                      @ [Select ''students'' [(''matricNumber'', m)], Insert ''students'']
                  \<and> store.students (db w') =
                      (case submit_env.insert_fault env of
                         None \<Rightarrow> store.students (db w) @ [newStudent env (formData st)]
                       | Some e \<Rightarrow> store.students (db w))))
     \<and> (lookup_fault env = None
        \<and> filter (\<lambda>s. student.matricNumber s = m) (store.students (db w)) = [] \<longrightarrow>
        fst (checkDuplicateRegistration (lookup_fault env) m cs (st, w)) = []
        \<and> (case handleSubmit env (st, w) of (st', w') \<Rightarrow>
             if form_incomplete (formData st)
             then requests w' = requests w \<and> db w' = db w
             else requests w' = requests w
                      @ [Select ''students'' [(''matricNumber'', m)], Insert ''students'']
                  \<and> store.students (db w') =
                      (case submit_env.insert_fault env of
                         None \<Rightarrow> store.students (db w) @ [newStudent env (formData st)]
                       | Some e \<Rightarrow> store.students (db w))))
     \<and> (lookup_fault env = Some e \<and> code e \<noteq> ''PGRST116'' \<longrightarrow>
        fst (checkDuplicateRegistration (lookup_fault env) m cs (st, w)) = []
        \<and> (case handleSubmit env (st, w) of (st', w') \<Rightarrow>
             if form_incomplete (formData st)
             then requests w' = requests w \<and> db w' = db w \<and> console w' = console w
             else requests w' = requests w
                      @ [Select ''students'' [(''matricNumber'', m)], Insert ''students'']
                  \<and> store.students (db w') =
                      (case submit_env.insert_fault env of
                         None \<Rightarrow> store.students (db w) @ [newStudent env (formData st)]
                       | Some e \<Rightarrow> store.students (db w))
                  \<and> console w' =
                      console w @ [LogError ''Error checking duplicate registration:'' e]
                        @ (case submit_env.insert_fault env of
                             None \<Rightarrow> []
                           | Some e' \<Rightarrow> [LogError ''Error registering student:'' e'])))"
  (is "(?one \<longrightarrow> ?check1 \<and> ?submit1) \<and> (?none \<longrightarrow> ?check0 \<and> ?submit0)
       \<and> (?down \<longrightarrow> ?check2 \<and> ?submit2)")
proof (intro conjI impI)
  assume "?one"
  then have answered: "lookup_fault env = None"
    and one: "filter (\<lambda>s. student.matricNumber s = m) (store.students (db w)) = [row]"
    by simp_all
  show ?check1
    by (simp add: answered checkDuplicateRegistration_found [OF one])
  show ?submit1
  proof (cases "form_incomplete (formData st)")
    case True
    then show ?thesis by (simp add: handleSubmit_incomplete)
  next
    case False
    have chk: "checkDuplicateRegistration (lookup_fault env) (form_data.matricNumber (formData st))
           (form_data.courses (formData st)) (st\<lparr>registration_state.loading := True\<rparr>, w)
         = (filter (\<lambda>c. c \<in> set (student.courses row)) cs,
            st\<lparr>registration_state.loading := False\<rparr>,
            issue (Select ''students'' [(''matricNumber'', m)]) w)"
      using assms answered by (simp add: checkDuplicateRegistration_found [OF one])
    show ?thesis
      using False
      by (simp add: handleSubmit_checked [OF False chk] issue_def console_error_def
            split: option.splits)
  qed
next
  assume "?none"
  then have answered: "lookup_fault env = None"
    and none: "filter (\<lambda>s. student.matricNumber s = m) (store.students (db w)) = []"
    by simp_all
  show ?check0
    by (simp add: answered checkDuplicateRegistration_no_row [OF none])
  show ?submit0
  proof (cases "form_incomplete (formData st)")
    case True
    then show ?thesis by (simp add: handleSubmit_incomplete)
  next
    case False
    have chk: "checkDuplicateRegistration (lookup_fault env) (form_data.matricNumber (formData st))
           (form_data.courses (formData st)) (st\<lparr>registration_state.loading := True\<rparr>, w)
         = ([], st\<lparr>registration_state.loading := False\<rparr>,
            issue (Select ''students'' [(''matricNumber'', m)]) w)"
      using assms answered by (simp add: checkDuplicateRegistration_no_row [OF none])
    show ?thesis
      using False handleSubmit_proceeds [OF False chk]
      by (simp add: issue_def case_prod_unfold)
  qed
next
  assume "?down"
  then have down: "lookup_fault env = Some e" and other: "code e \<noteq> ''PGRST116''"
    by simp_all
  show ?check2
    by (simp add: down checkDuplicateRegistration_failed [OF other])
  show ?submit2
  proof (cases "form_incomplete (formData st)")
    case True
    then show ?thesis by (simp add: handleSubmit_incomplete)
  next
    case False
    have chk: "checkDuplicateRegistration (lookup_fault env) (form_data.matricNumber (formData st))
           (form_data.courses (formData st)) (st\<lparr>registration_state.loading := True\<rparr>, w)
         = ([], st\<lparr>registration_state.loading := False\<rparr>,
            console_error (LogError ''Error checking duplicate registration:'' e)
              (issue (Select ''students'' [(''matricNumber'', m)]) w))"
      using assms down by (simp add: checkDuplicateRegistration_failed [OF other])
    show ?thesis
      using False handleSubmit_proceeds [OF False chk]
      by (simp add: issue_def console_error_def case_prod_unfold)
  qed
qed

text \<open>
  The scenario of the specification: \<^verbatim>\<open>CSC/2020/002\<close> is on file for \<^verbatim>\<open>CSC301\<close> and
  \<^verbatim>\<open>MTH301\<close> and is submitted again for \<^verbatim>\<open>CSC301\<close>; the same form on an empty store; and
  the same form on an empty store while the lookup fails.
\<close>

theorem registration_duplicate_check_witness:
  "lookup_fault calm_submit = None
   \<and> filter (\<lambda>s. student.matricNumber s = code_points ''CSC/2020/002'')
        (store.students (db (registered_world :: (student, unit) world))) = [stored_student]
   \<and> fst (checkDuplicateRegistration None (code_points ''CSC/2020/002'') [''CSC301'']
         (repeat_form, registered_world :: (student, unit) world)) = [''CSC301'']
   \<and> requests (snd (handleSubmit calm_submit (repeat_form, registered_world :: (student, unit) world)))
       = [Select ''students'' [(''matricNumber'', code_points ''CSC/2020/002'')]]
   \<and> db (snd (handleSubmit calm_submit (repeat_form, registered_world :: (student, unit) world)))
       = db registered_world
   \<and> registration_state.message
         (fst (handleSubmit calm_submit (repeat_form, registered_world :: (student, unit) world)))
       = Some \<lparr>type = message_type.error, text = ''Student is already registered for: CSC301''\<rparr>
   \<and> filter (\<lambda>s. student.matricNumber s = code_points ''CSC/2020/002'')
        (store.students (db (empty_world :: (student, unit) world))) = []
   \<and> fst (checkDuplicateRegistration None (code_points ''CSC/2020/002'') [''CSC301'']
         (repeat_form, empty_world :: (student, unit) world)) = []
   \<and> requests (snd (handleSubmit calm_submit (repeat_form, empty_world :: (student, unit) world)))
       = [Select ''students'' [(''matricNumber'', code_points ''CSC/2020/002'')], Insert ''students'']
   \<and> store.students (db (snd (handleSubmit calm_submit (repeat_form, empty_world :: (student, unit) world))))
       = [newStudent calm_submit (formData repeat_form)]
   \<and> lookup_fault lookup_down_submit = Some network_down
   \<and> code network_down \<noteq> ''PGRST116''
   \<and> console (snd (handleSubmit lookup_down_submit (repeat_form, empty_world :: (student, unit) world)))
       = [LogError ''Error checking duplicate registration:'' network_down]
   \<and> store.students
        (db (snd (handleSubmit lookup_down_submit (repeat_form, empty_world :: (student, unit) world))))
       = [newStudent lookup_down_submit (formData repeat_form)]"
proof -
  have answered: "lookup_fault calm_submit = None"
    by (simp add: calm_submit_def)
  have down: "lookup_fault lookup_down_submit = Some network_down"
    and other: "code network_down \<noteq> ''PGRST116''"
    by (simp_all add: lookup_down_submit_def network_down_def)
  have number: "form_data.matricNumber (formData repeat_form) = code_points ''CSC/2020/002''"
    and asked: "form_data.courses (formData repeat_form) = [''CSC301'']"
    and complete: "\<not> form_incomplete (formData repeat_form)"
    by (simp_all add: repeat_form_def form_incomplete_def code_points_def)
  have on_file: "filter (\<lambda>s. student.matricNumber s = code_points ''CSC/2020/002'')
        (store.students (db (registered_world :: (student, unit) world))) = [stored_student]"
    by (simp add: registered_world_def stored_student_def)
  have nobody: "filter (\<lambda>s. student.matricNumber s = code_points ''CSC/2020/002'')
        (store.students (db (empty_world :: (student, unit) world))) = []"
    by (simp add: empty_world_def)
  have overlap: "filter (\<lambda>c. c \<in> set (student.courses stored_student)) [''CSC301''] = [''CSC301'']"
    by (simp add: stored_student_def)
  note known = registration_duplicate_check [OF number asked,
      where w = "registered_world :: (student, unit) world" and row = stored_student
        and env = calm_submit,
      THEN conjunct1, THEN mp, OF conjI [OF answered on_file], unfolded overlap answered]
  note fresh = registration_duplicate_check [OF number asked,
      where w = "empty_world :: (student, unit) world" and env = calm_submit,
      THEN conjunct2, THEN conjunct1, THEN mp, OF conjI [OF answered nobody], unfolded answered]
  note failed = registration_duplicate_check [OF number asked,
      where w = "empty_world :: (student, unit) world" and env = lookup_down_submit
        and e = network_down,
      THEN conjunct2, THEN conjunct2, THEN mp, OF conjI [OF down other]]
  from known have k1: "fst (checkDuplicateRegistration None (code_points ''CSC/2020/002'') [''CSC301'']
         (repeat_form, registered_world :: (student, unit) world)) = [''CSC301'']"
    by (rule conjunct1)
  from known have k2:
    "requests (snd (handleSubmit calm_submit (repeat_form, registered_world :: (student, unit) world)))
       = [Select ''students'' [(''matricNumber'', code_points ''CSC/2020/002'')]]"
    "db (snd (handleSubmit calm_submit (repeat_form, registered_world :: (student, unit) world)))
       = db registered_world"
    "registration_state.message
         (fst (handleSubmit calm_submit (repeat_form, registered_world :: (student, unit) world)))
       = Some \<lparr>type = message_type.error, text = ''Student is already registered for: CSC301''\<rparr>"
    using complete
    by (simp_all add: case_prod_unfold) (simp_all add: registered_world_def)
  from fresh have f1: "fst (checkDuplicateRegistration None (code_points ''CSC/2020/002'') [''CSC301'']
         (repeat_form, empty_world :: (student, unit) world)) = []"
    by simp
  from fresh have f2:
    "requests (snd (handleSubmit calm_submit (repeat_form, empty_world :: (student, unit) world)))
       = [Select ''students'' [(''matricNumber'', code_points ''CSC/2020/002'')], Insert ''students'']"
    "store.students (db (snd (handleSubmit calm_submit (repeat_form, empty_world :: (student, unit) world))))
       = [newStudent calm_submit (formData repeat_form)]"
    using complete
    by (simp_all add: case_prod_unfold) (simp_all add: empty_world_def calm_submit_def)
  from failed have d1:
    "console (snd (handleSubmit lookup_down_submit (repeat_form, empty_world :: (student, unit) world)))
       = [LogError ''Error checking duplicate registration:'' network_down]"
    "store.students
        (db (snd (handleSubmit lookup_down_submit (repeat_form, empty_world :: (student, unit) world))))
       = [newStudent lookup_down_submit (formData repeat_form)]"
    using complete
    by (simp_all add: case_prod_unfold) (simp_all add: empty_world_def lookup_down_submit_def)
  from answered on_file k1 k2 nobody f1 f2 down other d1 show ?thesis
    by (intro conjI)
qed

section \<open>Verification: the attendance check and the insert it guards\<close>

lemma isAlreadyVerified_answered:
  "isAlreadyVerified None m c (st, w) =
     (filter (\<lambda>a. attendance.matricNumber a = m \<and> courseCode a = c) (course_attendance (db w)) \<noteq> [],
      st\<lparr>verification_state.loading := False\<rparr>,
      issue (Select ''course_attendance'' [(''matricNumber'', m), (''courseCode'', code_points c)]) w)"
  by (simp add: isAlreadyVerified_def select_rows_def Let_def)

lemma isAlreadyVerified_failed:
  "isAlreadyVerified (Some e) m c (st, w) =
     (False, st\<lparr>verification_state.loading := False\<rparr>,
      console_error (LogError ''Error checking attendance:'' e)
        (issue (Select ''course_attendance'' [(''matricNumber'', m), (''courseCode'', code_points c)]) w))"
  by (simp add: isAlreadyVerified_def select_rows_def Let_def)

lemma handleMarkAttendance_not_ready:
  assumes "selectedStudent st = None \<or> verification_state.selectedCourse st = [] \<or> trim (verification_state.invigilatorName st) = []"
  shows "handleMarkAttendance env (st, w) =
           (st\<lparr>verification_state.message :=
                 Some \<lparr>type = message_type.error,
                       text = ''Please select a course and enter invigilator name.''\<rparr>\<rparr>, w)"
  using assms by (auto simp add: handleMarkAttendance_def split: option.splits)

lemma handleMarkAttendance_checked:
  assumes "selectedStudent st = Some stu"
    and "verification_state.selectedCourse st \<noteq> []" and "trim (verification_state.invigilatorName st) \<noteq> []"
    and "isAlreadyVerified (check_fault env) (student.matricNumber stu) (verification_state.selectedCourse st)
           (st\<lparr>verification_state.loading := True\<rparr>, w) = (verified, st1, w1)"
  shows "handleMarkAttendance env (st, w) =
     (if verified
      then (st1\<lparr>verification_state.loading := False,
                verification_state.message :=
                  Some \<lparr>type = message_type.error,
                        text = ''Student has already been verified for this course exam.''\<rparr>\<rparr>, w1)
      else
        (case mark_env.insert_fault env of
           Some e \<Rightarrow>
             (st1\<lparr>verification_state.loading := False,
                  verification_state.message :=
                    Some \<lparr>type = message_type.error, text = ''Error marking attendance.''\<rparr>,
                  verification_state.timers := verification_state.timers st1 + 1\<rparr>,
              console_error (LogError ''Error marking attendance:'' e)
                (issue (Insert ''course_attendance'') w1))
         | None \<Rightarrow>
             (st1\<lparr>verification_state.loading := False,
                  verification_state.message :=
                    Some \<lparr>type = success, text = ''Student attendance marked successfully!''\<rparr>,
                  selectedStudent := None,
                  verification_state.selectedCourse := [],
                  verification_state.matricNumber := [],
                  verification_state.timers := verification_state.timers st1 + 1\<rparr>,
              (issue (Insert ''course_attendance'') w1)
                \<lparr>db := (db w1)\<lparr>course_attendance := course_attendance (db w1) @
                   [\<lparr>attendance.id = new_id env,
                     matricNumber = student.matricNumber stu,
                     courseCode = verification_state.selectedCourse st,
                     verificationDate = mark_env.now_iso env,
                     invigilatorName = trim (verification_state.invigilatorName st)\<rparr>]\<rparr>\<rparr>)))"
  using assms
  by (simp add: handleMarkAttendance_def Let_def insert_row_def issue_def console_error_def
        split: option.splits)

text \<open>
  Claim C2, as stated, rejects every action for a pair that has a row. It does not when
  the lookup fails: the student of the example has a row for \<^verbatim>\<open>CSC301\<close> and is marked for
  it again while the lookup is down; the failure is logged, a second row for the same pair
  is inserted, and the screen reports success.
\<close>

theorem failed_check_counterexample:
  "stored_attendance \<in> set (course_attendance (db (attended_world :: (student, unit) world)))
   \<and> selectedStudent selected_screen = Some stored_student
   \<and> attendance.matricNumber stored_attendance = student.matricNumber stored_student
   \<and> courseCode stored_attendance = verification_state.selectedCourse selected_screen
   \<and> console (snd (handleMarkAttendance check_down_mark
                     (selected_screen, attended_world :: (student, unit) world)))
     = [LogError ''Error checking attendance:'' network_down]
   \<and> requests (snd (handleMarkAttendance check_down_mark
                      (selected_screen, attended_world :: (student, unit) world)))
     = [Select ''course_attendance''
          [(''matricNumber'', code_points ''CSC/2020/002''), (''courseCode'', code_points ''CSC301'')],
        Insert ''course_attendance'']
   \<and> verification_state.message
       (fst (handleMarkAttendance check_down_mark
               (selected_screen, attended_world :: (student, unit) world)))
     = Some \<lparr>type = success, text = ''Student attendance marked successfully!''\<rparr>
   \<and> course_attendance
       (db (snd (handleMarkAttendance check_down_mark
                   (selected_screen, attended_world :: (student, unit) world))))
     = [stored_attendance, desk_row]"
  by (simp add: handleMarkAttendance_def isAlreadyVerified_def check_down_mark_def
        selected_screen_def attended_world_def network_down_def stored_student_def
        stored_attendance_def desk_row_def
        select_rows_def insert_row_def issue_def console_error_def trim_def isWhiteSpace_def
        code_points_def Let_def)

text \<open>
  Claim C2, amended. Attendance is marked for the selected student, of matriculation
  number \<open>m\<close>, and the selected course \<open>c\<close>, and \<^verbatim>\<open>course_attendance\<close> already holds a row
  with exactly this matriculation number and this course code. If the lookup is answered,
  the action ends with an error message, issues no insert, and leaves the store as it was.
  If the lookup fails, the failure is logged and the action goes on as if there were no
  such row: it issues the insert. (Without a course or an invigilator's name the action
  ends with a message before any call.)
\<close>

theorem mark_attendance_rejects_existing:
  assumes "selectedStudent st = Some stu"
    and "\<exists>a \<in> set (course_attendance (db w)).
           attendance.matricNumber a = student.matricNumber stu
           \<and> courseCode a = verification_state.selectedCourse st"
  shows
    "(check_fault env = None \<longrightarrow>
       (case handleMarkAttendance env (st, w) of (st', w') \<Rightarrow>
          db w' = db w
          \<and> (if verification_state.selectedCourse st = []
                \<or> trim (verification_state.invigilatorName st) = []
             then requests w' = requests w
                  \<and> verification_state.message st' =
                      Some \<lparr>type = message_type.error,
                            text = ''Please select a course and enter invigilator name.''\<rparr>
             else requests w' = requests w
                      @ [Select ''course_attendance''
                           [(''matricNumber'', student.matricNumber stu),
                            (''courseCode'', code_points (verification_state.selectedCourse st))]]
                  \<and> verification_state.message st' =
                      Some \<lparr>type = message_type.error,
                            text = ''Student has already been verified for this course exam.''\<rparr>)))
     \<and> (check_fault env = Some e \<longrightarrow>
       (case handleMarkAttendance env (st, w) of (st', w') \<Rightarrow>
          if verification_state.selectedCourse st = []
             \<or> trim (verification_state.invigilatorName st) = []
          then requests w' = requests w \<and> db w' = db w \<and> console w' = console w
               \<and> verification_state.message st' =
                   Some \<lparr>type = message_type.error,
                         text = ''Please select a course and enter invigilator name.''\<rparr>
          else requests w' = requests w
                   @ [Select ''course_attendance''
                        [(''matricNumber'', student.matricNumber stu),
                         (''courseCode'', code_points (verification_state.selectedCourse st))],
                      Insert ''course_attendance'']
               \<and> console w' =
                   console w @ [LogError ''Error checking attendance:'' e]
                     @ (case mark_env.insert_fault env of
                          None \<Rightarrow> []
                        | Some e' \<Rightarrow> [LogError ''Error marking attendance:'' e'])
               \<and> course_attendance (db w') =
                   (case mark_env.insert_fault env of
                      None \<Rightarrow> course_attendance (db w) @
                        [\<lparr>attendance.id = new_id env,
                          matricNumber = student.matricNumber stu,
                          courseCode = verification_state.selectedCourse st,
                          verificationDate = mark_env.now_iso env,
                          invigilatorName = trim (verification_state.invigilatorName st)\<rparr>]
                    | Some e' \<Rightarrow> course_attendance (db w))))"
  (is "(?answered \<longrightarrow> ?rejected) \<and> (?down \<longrightarrow> ?goes_on)")
proof (intro conjI impI)
  assume answered: ?answered
  show ?rejected
  proof (cases "verification_state.selectedCourse st = []
                \<or> trim (verification_state.invigilatorName st) = []")
    case True
    then show ?thesis
      by (simp add: handleMarkAttendance_not_ready)
  next
    case False
    have found: "filter (\<lambda>a. attendance.matricNumber a = student.matricNumber stu
                      \<and> courseCode a = verification_state.selectedCourse st)
                   (course_attendance (db w)) \<noteq> []"
      using assms(2) by (auto simp add: filter_empty_conv)
    have chk: "isAlreadyVerified (check_fault env) (student.matricNumber stu)
                 (verification_state.selectedCourse st)
                 (st\<lparr>verification_state.loading := True\<rparr>, w)
               = (True, st\<lparr>verification_state.loading := False\<rparr>,
                  issue (Select ''course_attendance''
                           [(''matricNumber'', student.matricNumber stu),
                            (''courseCode'', code_points (verification_state.selectedCourse st))]) w)"
      using found answered by (simp add: isAlreadyVerified_answered)
    from False have c: "verification_state.selectedCourse st \<noteq> []"
      and i: "trim (verification_state.invigilatorName st) \<noteq> []" by simp_all
    show ?thesis
      using False
      by (simp add: handleMarkAttendance_checked [OF assms(1) c i chk] issue_def)
  qed
next
  assume down: ?down
  show ?goes_on
  proof (cases "verification_state.selectedCourse st = []
                \<or> trim (verification_state.invigilatorName st) = []")
    case True
    then show ?thesis
      by (simp add: handleMarkAttendance_not_ready)
  next
    case False
    have chk: "isAlreadyVerified (check_fault env) (student.matricNumber stu)
                 (verification_state.selectedCourse st)
                 (st\<lparr>verification_state.loading := True\<rparr>, w)
               = (False, st\<lparr>verification_state.loading := False\<rparr>,
                  console_error (LogError ''Error checking attendance:'' e)
                    (issue (Select ''course_attendance''
                           [(''matricNumber'', student.matricNumber stu),
                            (''courseCode'', code_points (verification_state.selectedCourse st))]) w))"
      using down by (simp add: isAlreadyVerified_failed)
    from False have c: "verification_state.selectedCourse st \<noteq> []"
      and i: "trim (verification_state.invigilatorName st) \<noteq> []" by simp_all
    show ?thesis
      using False
      by (simp add: handleMarkAttendance_checked [OF assms(1) c i chk] issue_def
            console_error_def split: option.splits)
  qed
qed

text \<open>
  The student of the example already has a row for \<^verbatim>\<open>CSC301\<close> and is marked for it
  again: with the lookup answered, and with the lookup and the insert both failing.
\<close>

theorem mark_attendance_rejects_existing_witness:
  "check_fault calm_mark = None
   \<and> selectedStudent selected_screen = Some stored_student
   \<and> stored_attendance \<in> set (course_attendance (db (attended_world :: (student, unit) world)))
   \<and> attendance.matricNumber stored_attendance = student.matricNumber stored_student
   \<and> courseCode stored_attendance = verification_state.selectedCourse selected_screen
   \<and> db (snd (handleMarkAttendance calm_mark (selected_screen, attended_world :: (student, unit) world)))
     = db attended_world
   \<and> requests (snd (handleMarkAttendance calm_mark (selected_screen, attended_world :: (student, unit) world)))
     = [Select ''course_attendance''
          [(''matricNumber'', code_points ''CSC/2020/002''), (''courseCode'', code_points ''CSC301'')]]
   \<and> verification_state.message
        (fst (handleMarkAttendance calm_mark (selected_screen, attended_world :: (student, unit) world)))
     = Some \<lparr>type = message_type.error,
             text = ''Student has already been verified for this course exam.''\<rparr>
   \<and> check_fault all_down_mark = Some network_down
   \<and> console (snd (handleMarkAttendance all_down_mark
                     (selected_screen, attended_world :: (student, unit) world)))
     = [LogError ''Error checking attendance:'' network_down,
        LogError ''Error marking attendance:'' network_down]
   \<and> course_attendance
       (db (snd (handleMarkAttendance all_down_mark
                   (selected_screen, attended_world :: (student, unit) world))))
     = [stored_attendance]"
proof -
  have answered: "check_fault calm_mark = None"
    and down: "check_fault all_down_mark = Some network_down"
    by (simp_all add: calm_mark_def all_down_mark_def)
  have chosen: "selectedStudent selected_screen = Some stored_student"
    by (simp add: selected_screen_def)
  have there: "stored_attendance \<in> set (course_attendance (db (attended_world :: (student, unit) world)))"
    and same_number: "attendance.matricNumber stored_attendance = student.matricNumber stored_student"
    and same_course: "courseCode stored_attendance = verification_state.selectedCourse selected_screen"
    by (simp_all add: attended_world_def stored_attendance_def stored_student_def
          selected_screen_def)
  from there same_number same_course
  have marked: "\<exists>a \<in> set (course_attendance (db (attended_world :: (student, unit) world))).
           attendance.matricNumber a = student.matricNumber stored_student
           \<and> courseCode a = verification_state.selectedCourse selected_screen"
    by blast
  have filled: "\<not> (verification_state.selectedCourse selected_screen = []
                  \<or> trim (verification_state.invigilatorName selected_screen) = [])"
    by (simp add: selected_screen_def trim_def isWhiteSpace_def code_points_def)
  note rejected = mark_attendance_rejects_existing [OF chosen marked, where env = calm_mark,
      THEN conjunct1, THEN mp, OF answered]
  note goes_on = mark_attendance_rejects_existing [OF chosen marked, where env = all_down_mark
      and e = network_down, THEN conjunct2, THEN mp, OF down]
  from rejected filled have r:
    "db (snd (handleMarkAttendance calm_mark (selected_screen, attended_world :: (student, unit) world)))
     = db attended_world"
    "requests (snd (handleMarkAttendance calm_mark (selected_screen, attended_world :: (student, unit) world)))
     = [Select ''course_attendance''
          [(''matricNumber'', code_points ''CSC/2020/002''), (''courseCode'', code_points ''CSC301'')]]"
    "verification_state.message
        (fst (handleMarkAttendance calm_mark (selected_screen, attended_world :: (student, unit) world)))
     = Some \<lparr>type = message_type.error,
             text = ''Student has already been verified for this course exam.''\<rparr>"
    by (simp_all add: case_prod_unfold)
       (simp_all add: attended_world_def selected_screen_def stored_student_def)
  from goes_on filled have g:
    "console (snd (handleMarkAttendance all_down_mark
                     (selected_screen, attended_world :: (student, unit) world)))
     = [LogError ''Error checking attendance:'' network_down,
        LogError ''Error marking attendance:'' network_down]"
    "course_attendance
       (db (snd (handleMarkAttendance all_down_mark
                   (selected_screen, attended_world :: (student, unit) world))))
     = [stored_attendance]"
    by (simp_all add: case_prod_unfold)
       (simp_all add: attended_world_def all_down_mark_def)
  from answered chosen there same_number same_course r down g show ?thesis
    by (intro conjI)
qed

section \<open>Reports: statistics per course\<close>

lemmas double_eval =
  js_mul_def js_div_def Math_round_def nearest_double_def pow2_le_def bit_length.simps Let_def

text \<open>
  Claim C3, as stated, takes the percentage to be the rounded quotient. In a class of
  forty students registered for \<^verbatim>\<open>CSC301\<close> with twenty-three attendance rows the
  percentage is 57.5 and rounds to 58; the quotient of the code is a double just below
  0.575, its product with 100 is just below 57.5, and the code reports 57.
\<close>

theorem course_percentage_counterexample:
  "registered (getCourseStats class_of_forty class_rows ''CSC301'') = 40
   \<and> attended (getCourseStats class_of_forty class_rows ''CSC301'') = 23
   \<and> percentage (getCourseStats class_of_forty class_rows ''CSC301'') = 57
   \<and> round_percentage 23 40 = 58"
  by (simp add: getCourseStats_def getStudentsForCourse_def getAttendanceForCourse_def
        class_of_forty_def class_rows_def class_member_def class_row_def filter_map comp_def
        round_percentage_div double_eval)

text \<open>
  Claim C3, amended. For a course \<open>c\<close>, the statistics of the reports screen are:
  \<open>registered\<close>, the number of students whose enrolment list contains \<open>c\<close>; \<open>attended\<close>,
  the number of attendance rows whose course code is \<open>c\<close>; and \<open>percentage\<close>, which is 0
  when \<open>registered\<close> is 0 and otherwise \<^verbatim>\<open>Math.round((attended / registered) * 100)\<close> in
  the arithmetic of JavaScript numbers. That number is the rounded percentage of the
  specification or one less, and it is the rounded percentage whenever the exact
  percentage does not lie halfway between two integers. The detail view computes the same
  three numbers. (The lengths of arrays are below \<open>2 ^ 32\<close>.)
\<close>

theorem course_stats_formula:
  assumes "length studs < 2 ^ 32" and "length recs < 2 ^ 32"
  shows
    "registered (getCourseStats studs recs c) = length (filter (\<lambda>s. c \<in> set (student.courses s)) studs)
     \<and> attended (getCourseStats studs recs c) = length (filter (\<lambda>r. courseCode r = c) recs)
     \<and> (registered (getCourseStats studs recs c) = 0 \<longrightarrow>
          percentage (getCourseStats studs recs c) = 0)
     \<and> (registered (getCourseStats studs recs c) > 0 \<longrightarrow>
          percentage (getCourseStats studs recs c) =
            Math_round (js_mul (js_div (attended (getCourseStats studs recs c))
                                       (registered (getCourseStats studs recs c))) 100)
          \<and> round_percentage (attended (getCourseStats studs recs c))
                (registered (getCourseStats studs recs c)) - 1
              \<le> percentage (getCourseStats studs recs c)
          \<and> percentage (getCourseStats studs recs c)
              \<le> round_percentage (attended (getCourseStats studs recs c))
                   (registered (getCourseStats studs recs c))
          \<and> (\<not> halfway (attended (getCourseStats studs recs c))
                  (registered (getCourseStats studs recs c)) \<longrightarrow>
               percentage (getCourseStats studs recs c)
                 = round_percentage (attended (getCourseStats studs recs c))
                     (registered (getCourseStats studs recs c))))
     \<and> length (registeredStudents c studs) = registered (getCourseStats studs recs c)
     \<and> attendedCount c recs = attended (getCourseStats studs recs c)
     \<and> attendancePercentage c studs recs = percentage (getCourseStats studs recs c)"
proof -
  define a where "a = length (filter (\<lambda>r. courseCode r = c) recs)"
  define r where "r = length (filter (\<lambda>s. c \<in> set (student.courses s)) studs)"
  have "a \<le> length recs"
    unfolding a_def by (rule length_filter_le)
  with assms(2) have a: "a < 2 ^ 32" by simp
  have reg: "registered (getCourseStats studs recs c) = r"
    and att: "attended (getCourseStats studs recs c) = a"
    and pct: "percentage (getCourseStats studs recs c)
                = (if r > 0 then Math_round (js_mul (js_div a r) 100) else 0)"
    by (simp_all add: getCourseStats_def getStudentsForCourse_def getAttendanceForCourse_def
          a_def r_def Let_def)
  have view: "length (registeredStudents c studs) = r" "attendedCount c recs = a"
    "attendancePercentage c studs recs = (if r > 0 then Math_round (js_mul (js_div a r) 100) else 0)"
    by (simp_all add: registeredStudents_def attendedCount_def courseAttendance_def
          attendancePercentage_def a_def r_def)
  show ?thesis
    unfolding reg att pct view
    using percentage_rounding [OF _ a, of r]
    by (simp add: a_def r_def)
qed

text \<open>
  Three students of \<^verbatim>\<open>CSC301\<close>: one row gives 33, two rows give 67, and a course nobody
  takes gives 0. Neither percentage lies halfway.
\<close>

theorem course_stats_formula_witness:
  "length [stored_student, two_course_student, third_student] < (2 :: nat) ^ 32
   \<and> length [row_CSC301, row_stranger] < (2 :: nat) ^ 32
   \<and> registered (getCourseStats [stored_student, two_course_student, third_student]
        [row_CSC301, row_stranger] ''CSC301'') = 3
   \<and> attended (getCourseStats [stored_student, two_course_student, third_student]
        [row_CSC301, row_stranger] ''CSC301'') = 2
   \<and> \<not> halfway 2 3
   \<and> round_percentage 2 3 = 67
   \<and> percentage (getCourseStats [stored_student, two_course_student, third_student]
        [row_CSC301, row_stranger] ''CSC301'') = 67
   \<and> percentage (getCourseStats [stored_student, two_course_student, third_student]
        [row_CSC301] ''CSC301'') = 33
   \<and> percentage (getCourseStats [stored_student, two_course_student, third_student]
        [row_CSC301, row_stranger] ''ENG301'') = 0"
proof -
  let ?studs = "[stored_student, two_course_student, third_student]"
  have few: "length ?studs < (2 :: nat) ^ 32" "length [row_CSC301, row_stranger] < (2 :: nat) ^ 32"
    "length [row_CSC301] < (2 :: nat) ^ 32"
    by simp_all
  note two = course_stats_formula [OF few(1) few(2), of "''CSC301''"]
  note one = course_stats_formula [OF few(1) few(3), of "''CSC301''"]
  note none = course_stats_formula [OF few(1) few(2), of "''ENG301''"]
  have counts: "length (filter (\<lambda>s. ''CSC301'' \<in> set (student.courses s)) ?studs) = 3"
    "length (filter (\<lambda>r. courseCode r = ''CSC301'') [row_CSC301, row_stranger]) = 2"
    "length (filter (\<lambda>r. courseCode r = ''CSC301'') [row_CSC301]) = 1"
    "length (filter (\<lambda>s. ''ENG301'' \<in> set (student.courses s)) ?studs) = 0"
    by (simp_all add: stored_student_def two_course_student_def third_student_def
          row_CSC301_def row_stranger_def)
  have mid: "\<not> halfway 2 3" "\<not> halfway 1 3"
    by (simp_all add: halfway_def)
  have rounded: "round_percentage 2 3 = 67" "round_percentage 1 3 = 33"
    by (simp_all add: round_percentage_div)
  from two [THEN conjunct1] counts(1)
  have r2: "registered (getCourseStats ?studs [row_CSC301, row_stranger] ''CSC301'') = 3"
    by (simp only:)
  from two [THEN conjunct2, THEN conjunct1] counts(2)
  have a2: "attended (getCourseStats ?studs [row_CSC301, row_stranger] ''CSC301'') = 2"
    by (simp only:)
  have pos: "(0 :: nat) < 3"
    by simp
  from two [THEN conjunct2, THEN conjunct2, THEN conjunct2, THEN conjunct1, unfolded r2 a2,
      THEN mp, OF pos, THEN conjunct2, THEN conjunct2, THEN conjunct2, THEN mp, OF mid(1)]
    rounded(1)
  have p2: "percentage (getCourseStats ?studs [row_CSC301, row_stranger] ''CSC301'') = 67"
    by (simp only:)
  from one [THEN conjunct1] counts(1)
  have r1: "registered (getCourseStats ?studs [row_CSC301] ''CSC301'') = 3"
    by (simp only:)
  from one [THEN conjunct2, THEN conjunct1] counts(3)
  have a1: "attended (getCourseStats ?studs [row_CSC301] ''CSC301'') = 1"
    by (simp only:)
  from one [THEN conjunct2, THEN conjunct2, THEN conjunct2, THEN conjunct1, unfolded r1 a1,
      THEN mp, OF pos, THEN conjunct2, THEN conjunct2, THEN conjunct2, THEN mp, OF mid(2)]
    rounded(2)
  have p1: "percentage (getCourseStats ?studs [row_CSC301] ''CSC301'') = 33"
    by (simp only:)
  from none [THEN conjunct1] counts(4)
  have "registered (getCourseStats ?studs [row_CSC301, row_stranger] ''ENG301'') = 0"
    by (simp only:)
  with none [THEN conjunct2, THEN conjunct2, THEN conjunct1]
  have p0: "percentage (getCourseStats ?studs [row_CSC301, row_stranger] ''ENG301'') = 0"
    by (simp only:)
  from few(1) few(2) r2 a2 mid(1) rounded(1) p2 p1 p0 show ?thesis
    by (intro conjI)
qed

section \<open>Student details: the percentage per student\<close>

lemma getAttendancePercentage_eq:
  "getAttendancePercentage recs stu =
     (if length (student.courses stu) > 0
      then Math_round (js_mul (js_div
             (length (filter (\<lambda>r. attendance.matricNumber r = student.matricNumber stu) recs))
             (length (student.courses stu))) 100)
      else 0)"
  by (simp add: getStudentAttendance_def getAttendancePercentage_def Let_def)

lemma forty_courses_length [simp]: "length forty_courses = 40"
  by (simp add: forty_courses_def)

lemma busy_student_courses: "length (student.courses busy_student) = 40"
  by (simp add: busy_student_def)

lemma busy_rows_count:
  "length (filter (\<lambda>r. attendance.matricNumber r = student.matricNumber busy_student) busy_rows) = 23"
  "length (filter (\<lambda>r. attendance.matricNumber r = student.matricNumber busy_student
                       \<and> courseCode r \<in> set (student.courses busy_student)) busy_rows) = 23"
  "length (filter (\<lambda>r. attendance.matricNumber r = student.matricNumber busy_student) crowded_rows) = 41"
proof -
  have inside: "filter (\<lambda>c. c \<in> set forty_courses) (take 23 forty_courses) = take 23 forty_courses"
    by (rule filter_True) (auto dest: in_set_takeD)
  show "length (filter (\<lambda>r. attendance.matricNumber r = student.matricNumber busy_student) busy_rows) = 23"
    by (simp add: busy_rows_def busy_row_def busy_student_def filter_map comp_def)
  show "length (filter (\<lambda>r. attendance.matricNumber r = student.matricNumber busy_student
                       \<and> courseCode r \<in> set (student.courses busy_student)) busy_rows) = 23"
    by (simp add: busy_rows_def busy_row_def busy_student_def filter_map comp_def inside)
  show "length (filter (\<lambda>r. attendance.matricNumber r = student.matricNumber busy_student) crowded_rows) = 41"
    by (simp add: crowded_rows_def busy_row_def busy_student_def filter_map comp_def)
qed

text \<open>
  Claim C5, as stated, takes the percentage to be the rounded quotient. A student enrolled
  in forty courses has a row for each of them and one more, for a course outside the
  enrolment: forty-one rows. The percentage is 102.5 and rounds to 103; the code reports
  102.
\<close>

theorem student_percentage_counterexample:
  "length (student.courses busy_student) = 40
   \<and> length (getStudentAttendance crowded_rows (student.matricNumber busy_student)) = 41
   \<and> getAttendancePercentage crowded_rows busy_student = 102
   \<and> round_percentage 41 40 = 103"
  unfolding getAttendancePercentage_eq getStudentAttendance_def busy_rows_count
    busy_student_courses
  by (simp add: round_percentage_div double_eval)

text \<open>
  Claim C5, amended. For a student, the attended count is the number of attendance rows
  with the student's matriculation number, whatever their course code. The percentage is
  0 when the student is enrolled in no course and otherwise
  \<^verbatim>\<open>Math.round((attended / total) * 100)\<close>, for the number \<open>total\<close> of enrolled courses, in
  the arithmetic of JavaScript numbers. That number is the rounded percentage of the
  specification or one less, and it is the rounded percentage whenever the exact
  percentage does not lie halfway between two integers. (The lengths of arrays are below
  \<open>2 ^ 32\<close>.)
\<close>

theorem student_percentage_formula:
  assumes "length recs < 2 ^ 32" and "length (student.courses stu) < 2 ^ 32"
  shows
    "length (getStudentAttendance recs (student.matricNumber stu))
       = length (filter (\<lambda>r. attendance.matricNumber r = student.matricNumber stu) recs)
     \<and> (length (student.courses stu) = 0 \<longrightarrow> getAttendancePercentage recs stu = 0)
     \<and> (length (student.courses stu) > 0 \<longrightarrow>
          getAttendancePercentage recs stu =
            Math_round (js_mul (js_div (length (getStudentAttendance recs (student.matricNumber stu)))
                                       (length (student.courses stu))) 100)
          \<and> round_percentage (length (getStudentAttendance recs (student.matricNumber stu)))
                (length (student.courses stu)) - 1
              \<le> getAttendancePercentage recs stu
          \<and> getAttendancePercentage recs stu
              \<le> round_percentage (length (getStudentAttendance recs (student.matricNumber stu)))
                   (length (student.courses stu))
          \<and> (\<not> halfway (length (getStudentAttendance recs (student.matricNumber stu)))
                  (length (student.courses stu)) \<longrightarrow>
               getAttendancePercentage recs stu
                 = round_percentage (length (getStudentAttendance recs (student.matricNumber stu)))
                     (length (student.courses stu))))"
proof -
  define a where "a = length (filter (\<lambda>r. attendance.matricNumber r = student.matricNumber stu) recs)"
  define t where "t = length (student.courses stu)"
  have "a \<le> length recs"
    unfolding a_def by (rule length_filter_le)
  with assms(1) have a: "a < 2 ^ 32" by simp
  have att: "length (getStudentAttendance recs (student.matricNumber stu)) = a"
    by (simp add: getStudentAttendance_def a_def)
  have pct: "getAttendancePercentage recs stu
               = (if t > 0 then Math_round (js_mul (js_div a t) 100) else 0)"
    by (simp add: getAttendancePercentage_eq a_def t_def)
  show ?thesis
    unfolding att pct t_def [symmetric]
    using percentage_rounding [OF _ a, of t]
    by (simp add: a_def)
qed

text \<open>
  The scenario of the specification: no rows give 0, one row for \<^verbatim>\<open>CSC301\<close> gives 50; a
  second row, for a course outside the enrolment, gives 100. Two rows of a student in
  three courses give 67, and a student without courses has 0.
\<close>

theorem student_percentage_formula_witness:
  "length [third_row ''CSC301'', third_row ''PHY301''] < (2 :: nat) ^ 32
   \<and> length (student.courses third_student) < 2 ^ 32
   \<and> length (getStudentAttendance [third_row ''CSC301'', third_row ''PHY301'']
               (student.matricNumber third_student)) = 2
   \<and> length (student.courses third_student) = 3
   \<and> \<not> halfway 2 3
   \<and> getAttendancePercentage [third_row ''CSC301'', third_row ''PHY301''] third_student = 67
   \<and> getAttendancePercentage [] two_course_student = 0
   \<and> getAttendancePercentage [row_CSC301] two_course_student = 50
   \<and> getAttendancePercentage [row_CSC301, row_outside] two_course_student = 100
   \<and> length (student.courses idle_student) = 0
   \<and> getAttendancePercentage [row_CSC301] idle_student = 0"
proof -
  let ?rows = "[third_row ''CSC301'', third_row ''PHY301'']"
  have few: "length ?rows < (2 :: nat) ^ 32" "length (student.courses third_student) < 2 ^ 32"
    by (simp_all add: third_student_def)
  note two = student_percentage_formula [OF few]
  have total: "length (student.courses third_student) = 3"
    by (simp add: third_student_def)
  have count: "length (filter (\<lambda>r. attendance.matricNumber r = student.matricNumber third_student)
                  ?rows) = 2"
    by (simp add: third_row_def third_student_def)
  from two [THEN conjunct1] count
  have a2: "length (getStudentAttendance ?rows (student.matricNumber third_student)) = 2"
    by (simp only:)
  have pos: "(0 :: nat) < 3"
    by simp
  have mid: "\<not> halfway 2 3"
    by (simp add: halfway_def)
  have rounded: "round_percentage 2 3 = 67"
    by (simp add: round_percentage_div)
  from two [THEN conjunct2, THEN conjunct2, unfolded a2 total, THEN mp, OF pos,
      THEN conjunct2, THEN conjunct2, THEN conjunct2, THEN mp, OF mid] rounded
  have p2: "getAttendancePercentage ?rows third_student = 67"
    by (simp only:)
  have scenario: "getAttendancePercentage [] two_course_student = 0"
    "getAttendancePercentage [row_CSC301] two_course_student = 50"
    "getAttendancePercentage [row_CSC301, row_outside] two_course_student = 100"
    by (simp_all add: getAttendancePercentage_eq two_course_student_def row_CSC301_def
          row_outside_def double_eval)
  have idle: "length (student.courses idle_student) = 0"
    by (simp add: idle_student_def)
  have few': "length [row_CSC301] < (2 :: nat) ^ 32" "length (student.courses idle_student) < 2 ^ 32"
    by (simp_all add: idle_student_def)
  from student_percentage_formula [OF few', THEN conjunct2, THEN conjunct1, THEN mp, OF idle]
  have p0: "getAttendancePercentage [row_CSC301] idle_student = 0" .
  from few a2 total mid p2 scenario idle p0 show ?thesis
    by (intro conjI)
qed

text \<open>
  Claim C4, as stated, counts only the rows whose course code occurs in the enrolment
  list, and rounds the quotient. The code does not look at the course code: with one row
  for an enrolled course and one for a course outside the enrolment, it reports 100 where
  the claim says 50. And it rounds the product of two doubles: for twenty-three rows, all
  of enrolled courses, of a student in forty courses, it reports 57 where the claim says
  58.
\<close>

theorem enrolled_percentage_counterexample:
  "getAttendancePercentage [row_CSC301, row_outside] two_course_student = 100
   \<and> enrolled_attendance_percentage [row_CSC301, row_outside] two_course_student = 50
   \<and> getAttendancePercentage busy_rows busy_student = 57
   \<and> enrolled_attendance_percentage busy_rows busy_student = 58"
proof (intro conjI)
  show "getAttendancePercentage [row_CSC301, row_outside] two_course_student = 100"
    by (simp add: getAttendancePercentage_eq two_course_student_def row_CSC301_def
          row_outside_def double_eval)
  show "enrolled_attendance_percentage [row_CSC301, row_outside] two_course_student = 50"
    by (simp add: enrolled_attendance_percentage_def two_course_student_def row_CSC301_def
          row_outside_def round_percentage_div)
  show "getAttendancePercentage busy_rows busy_student = 57"
    unfolding getAttendancePercentage_eq busy_rows_count busy_student_courses
    by (simp add: double_eval)
  show "enrolled_attendance_percentage busy_rows busy_student = 58"
    unfolding enrolled_attendance_percentage_def Let_def busy_rows_count busy_student_courses
    by (simp add: round_percentage_div)
qed

text \<open>
  Claim C4, amended. The percentage of a student counts every attendance row with the
  student's matriculation number, whatever its course code. It is 0 for an empty
  enrolment list; otherwise it is the rounded percentage of these rows over the enrolled
  courses or one less, and the rounded percentage itself whenever the exact percentage
  does not lie halfway between two integers. In that case it is the percentage of the
  specification's property as soon as every such row names an enrolled course. (The
  lengths of arrays are below \<open>2 ^ 32\<close>.)
\<close>

theorem student_percentage_counts_all_rows:
  assumes "length recs < 2 ^ 32" and "length (student.courses stu) < 2 ^ 32"
  shows
    "(length (student.courses stu) = 0 \<longrightarrow> getAttendancePercentage recs stu = 0)
     \<and> (length (student.courses stu) > 0 \<longrightarrow>
          round_percentage
              (length (filter (\<lambda>r. attendance.matricNumber r = student.matricNumber stu) recs))
              (length (student.courses stu)) - 1
            \<le> getAttendancePercentage recs stu
          \<and> getAttendancePercentage recs stu
            \<le> round_percentage
                (length (filter (\<lambda>r. attendance.matricNumber r = student.matricNumber stu) recs))
                (length (student.courses stu))
          \<and> (\<not> halfway
                  (length (filter (\<lambda>r. attendance.matricNumber r = student.matricNumber stu) recs))
                  (length (student.courses stu)) \<longrightarrow>
               getAttendancePercentage recs stu
                 = round_percentage
                     (length (filter (\<lambda>r. attendance.matricNumber r = student.matricNumber stu) recs))
                     (length (student.courses stu))))
     \<and> ((\<forall>r \<in> set recs. attendance.matricNumber r = student.matricNumber stu
             \<longrightarrow> courseCode r \<in> set (student.courses stu))
          \<and> \<not> halfway
                (length (filter (\<lambda>r. attendance.matricNumber r = student.matricNumber stu) recs))
                (length (student.courses stu))
          \<longrightarrow> getAttendancePercentage recs stu = enrolled_attendance_percentage recs stu)"
proof -
  define a where "a = length (filter (\<lambda>r. attendance.matricNumber r = student.matricNumber stu) recs)"
  define t where "t = length (student.courses stu)"
  have "a \<le> length recs"
    unfolding a_def by (rule length_filter_le)
  with assms(1) have a: "a < 2 ^ 32" by simp
  have pct: "getAttendancePercentage recs stu
               = (if t > 0 then Math_round (js_mul (js_div a t) 100) else 0)"
    by (simp add: getAttendancePercentage_eq a_def t_def)
  have same: "enrolled_attendance_percentage recs stu = (if t = 0 then 0 else round_percentage a t)"
    if inside: "\<forall>r \<in> set recs. attendance.matricNumber r = student.matricNumber stu
           \<longrightarrow> courseCode r \<in> set (student.courses stu)"
  proof -
    have "filter (\<lambda>r. attendance.matricNumber r = student.matricNumber stu
                     \<and> courseCode r \<in> set (student.courses stu)) recs
          = filter (\<lambda>r. attendance.matricNumber r = student.matricNumber stu) recs"
      using inside by (intro filter_cong) auto
    then show ?thesis
      by (simp add: enrolled_attendance_percentage_def a_def t_def Let_def)
  qed
  show ?thesis
    unfolding a_def [symmetric] t_def [symmetric] pct
    using percentage_rounding [OF _ a, of t] same
    by (auto simp add: a_def t_def)
qed

text \<open>
  The student in three courses with two rows, both of enrolled courses: 67 either way.
  A student without courses has 0.
\<close>

theorem student_percentage_counts_all_rows_witness:
  "length [third_row ''CSC301'', third_row ''MTH301''] < (2 :: nat) ^ 32
   \<and> length (student.courses third_student) < 2 ^ 32
   \<and> length (student.courses third_student) = 3
   \<and> length (filter (\<lambda>r. attendance.matricNumber r = student.matricNumber third_student)
        [third_row ''CSC301'', third_row ''MTH301'']) = 2
   \<and> list_all (\<lambda>r. courseCode r \<in> set (student.courses third_student))
        [third_row ''CSC301'', third_row ''MTH301'']
   \<and> \<not> halfway 2 3
   \<and> getAttendancePercentage [third_row ''CSC301'', third_row ''MTH301''] third_student = 67
   \<and> enrolled_attendance_percentage [third_row ''CSC301'', third_row ''MTH301''] third_student = 67
   \<and> length (student.courses idle_student) = 0
   \<and> getAttendancePercentage [row_CSC301] idle_student = 0"
proof -
  let ?rows = "[third_row ''CSC301'', third_row ''MTH301'']"
  have few: "length ?rows < (2 :: nat) ^ 32" "length (student.courses third_student) < 2 ^ 32"
    by (simp_all add: third_student_def)
  note claim = student_percentage_counts_all_rows [OF few]
  have total: "length (student.courses third_student) = 3"
    by (simp add: third_student_def)
  have count: "length (filter (\<lambda>r. attendance.matricNumber r = student.matricNumber third_student)
                  ?rows) = 2"
    by (simp add: third_row_def third_student_def)
  have enrolled: "list_all (\<lambda>r. courseCode r \<in> set (student.courses third_student)) ?rows"
    by (simp add: third_row_def third_student_def)
  then have inside: "\<forall>r \<in> set ?rows.
      attendance.matricNumber r = student.matricNumber third_student
        \<longrightarrow> courseCode r \<in> set (student.courses third_student)"
    by simp
  have pos: "(0 :: nat) < 3"
    by simp
  have mid: "\<not> halfway 2 3"
    by (simp add: halfway_def)
  have rounded: "round_percentage 2 3 = 67"
    by (simp add: round_percentage_div)
  from claim [THEN conjunct2, THEN conjunct1, unfolded count total, THEN mp, OF pos,
      THEN conjunct2, THEN conjunct2, THEN mp, OF mid] rounded
  have code: "getAttendancePercentage ?rows third_student = 67"
    by (simp only:)
  from claim [THEN conjunct2, THEN conjunct2, unfolded count total, THEN mp,
      OF conjI [OF inside mid]] code
  have spec: "enrolled_attendance_percentage ?rows third_student = 67"
    by (simp only:)
  have idle: "length (student.courses idle_student) = 0"
    by (simp add: idle_student_def)
  have few': "length [row_CSC301] < (2 :: nat) ^ 32" "length (student.courses idle_student) < 2 ^ 32"
    by (simp_all add: idle_student_def)
  from student_percentage_counts_all_rows [OF few', THEN conjunct1, THEN mp, OF idle]
  have p0: "getAttendancePercentage [row_CSC301] idle_student = 0" .
  from few total count enrolled mid code spec idle p0 show ?thesis
    by (intro conjI)
qed

section \<open>Reports: the list of courses\<close>

lemma set_Array_from_Set [simp]: "set (Array_from_Set xs) = set xs"
  by (induction xs) auto

lemma distinct_Array_from_Set [simp]: "distinct (Array_from_Set xs)"
  by (induction xs) auto

lemma count_list_distinct:
  "distinct xs \<Longrightarrow> count_list xs c = (if c \<in> set xs then 1 else 0)"
  by (induction xs) auto

lemma string_less_lexord:
  "(a < b) = ((a, b) \<in> lexord {(u, v). (of_char u :: nat) < of_char v})" for a b :: string
proof -
  have "{(u :: char, v). u < v} = {(u, v). (of_char u :: nat) < of_char v}"
    by (simp add: less_char_def)
  then show ?thesis
    by (simp add: list_less_def)
qed

text \<open>
  Claim C7. The course list of the reports screen holds exactly the courses that occur in
  some student's enrolment list, each of them once, in ascending lexicographic order of
  their character codes.
\<close>

theorem allCourses_distinct_sorted:
  "set (allCourses studs) = (\<Union>s \<in> set studs. set (student.courses s))
   \<and> distinct (allCourses studs)
   \<and> sorted_wrt (\<lambda>a b. (a, b) \<in> lexord {(u, v). (of_char u :: nat) < of_char v})
        (allCourses studs)
   \<and> count_list (allCourses studs) c =
       (if \<exists>s \<in> set studs. c \<in> set (student.courses s) then 1 else 0)"
proof (intro conjI)
  show elems: "set (allCourses studs) = (\<Union>s \<in> set studs. set (student.courses s))"
    by (simp add: allCourses_def)
  show dist: "distinct (allCourses studs)"
    by (simp add: allCourses_def)
  have "sorted (allCourses studs)"
    by (simp add: allCourses_def)
  with dist have "sorted_wrt (<) (allCourses studs)"
    by (simp add: strict_sorted_iff)
  moreover have "((<) :: string \<Rightarrow> string \<Rightarrow> bool)
      = (\<lambda>a b. (a, b) \<in> lexord {(u, v). (of_char u :: nat) < of_char v})"
    by (intro ext) (rule string_less_lexord)
  ultimately show "sorted_wrt (\<lambda>a b. (a, b) \<in> lexord {(u, v). (of_char u :: nat) < of_char v})
        (allCourses studs)"
    by simp
  show "count_list (allCourses studs) c =
       (if \<exists>s \<in> set studs. c \<in> set (student.courses s) then 1 else 0)"
    using elems by (simp add: count_list_distinct [OF dist])
qed

theorem allCourses_distinct_sorted_witness:
  "allCourses [stored_student, two_course_student] = [''CSC301'', ''CSC302'', ''MTH301'']"
  using allCourses_distinct_sorted [of "[stored_student, two_course_student]" "''CSC301''"]
  by (simp add: allCourses_def stored_student_def two_course_student_def
        list_le_def)

section \<open>Detail view: the absent count\<close>

text \<open>
  Claim C9. The absent count of the detail view is the number of students registered for
  the course minus the number of attendance rows of the course. The rows are neither
  restricted to registered students nor counted once per student: a row of a
  matriculation number that no registered student has, and two rows of one student, each
  make the count negative, while no registered student lacks a row.
\<close>

theorem absentCount_difference:
  "absentCount c studs recs =
     int (length (filter (\<lambda>s. c \<in> set (student.courses s)) studs))
       - int (length (filter (\<lambda>a. courseCode a = c) recs))
   \<and> absentCount ''CSC301'' [] [row_stranger] = - 1
   \<and> length (filter (\<lambda>s. \<not> isPresent ''CSC301'' [row_stranger] s)
         (registeredStudents ''CSC301'' [])) = 0
   \<and> absentCount ''CSC301'' [two_course_student] [row_CSC301, row_CSC301] = - 1
   \<and> length (filter (\<lambda>s. \<not> isPresent ''CSC301'' [row_CSC301, row_CSC301] s)
         (registeredStudents ''CSC301'' [two_course_student])) = 0"
  by (simp add: absentCount_def registeredStudents_def attendedCount_def courseAttendance_def
        isPresent_def getAttendanceStatus_def row_stranger_def row_CSC301_def
        two_course_student_def code_points_def)

section \<open>Letter case of the matriculation number\<close>

lemma toUpperCase_append:
  "toUpperCase uc (s @ t) = toUpperCase uc s @ toUpperCase uc t"
  by (simp add: toUpperCase_def)

lemma toUpperCase_idem:
  assumes "\<And>c. concat (map uc (uc c)) = uc c"
  shows "toUpperCase uc (toUpperCase uc s) = toUpperCase uc s"
proof (induction s)
  case Nil
  show ?case by (simp add: toUpperCase_def)
next
  case (Cons c s)
  have "toUpperCase uc (toUpperCase uc (c # s))
        = toUpperCase uc (uc c) @ toUpperCase uc (toUpperCase uc s)"
    by (simp add: toUpperCase_def)
  also have "toUpperCase uc (uc c) = uc c"
    using assms by (simp add: toUpperCase_def)
  finally show ?case
    by (simp add: Cons.IH) (simp add: toUpperCase_def)
qed

lemma differ_only_in_case_toUpperCase:
  assumes idem: "\<And>c. concat (map uc (uc c)) = uc c"
    and d: "differ_only_in_case uc s t"
  shows "toUpperCase uc s = toUpperCase uc t"
proof -
  have capital: "uc b = [b]" if "uc a = [b]" for a b
    using idem [of a] that by simp
  from d show ?thesis
    unfolding differ_only_in_case_def toUpperCase_def
  proof (induction s t rule: list_all2_induct)
    case Nil
    show ?case by simp
  next
    case (Cons a s b t)
    from Cons.hyps(1) have "uc a = uc b"
      using capital by auto
    with Cons.IH show ?case by simp
  qed
qed

lemma Latin1_Uppercase_idem: "concat (map Latin1_Uppercase (Latin1_Uppercase c)) = Latin1_Uppercase c"
  by (auto simp add: Latin1_Uppercase_def)

lemma handleSearch_blank:
  assumes "trim (verification_state.matricNumber st) = []"
  shows "handleSearch uc fault (st, w) =
           (st\<lparr>verification_state.message :=
                 Some \<lparr>type = message_type.error, text = ''Please enter a matric number.''\<rparr>\<rparr>, w)"
  using assms by (simp add: handleSearch_def)

lemma handleSearch_answered:
  assumes "trim (verification_state.matricNumber st) \<noteq> []"
  shows "handleSearch uc None (st, w) =
     (case filter (\<lambda>s. student.matricNumber s
                          = toUpperCase uc (trim (verification_state.matricNumber st)))
             (store.students (db w)) of
        [found] \<Rightarrow>
          (st\<lparr>verification_state.loading := False, selectedStudent := Some found,
              verification_state.message := None\<rparr>,
           issue (Select ''students''
                    [(''matricNumber'', toUpperCase uc (trim (verification_state.matricNumber st)))]) w)
      | _ \<Rightarrow>
          (st\<lparr>verification_state.loading := False, selectedStudent := None,
              verification_state.message :=
                Some \<lparr>type = message_type.error,
                      text = ''Student not found. Please check the matric number.''\<rparr>\<rparr>,
           issue (Select ''students''
                    [(''matricNumber'', toUpperCase uc (trim (verification_state.matricNumber st)))]) w))"
  using assms
  by (simp add: handleSearch_def single_def select_rows_def Let_def PGRST116_def
        failed_other_than_no_rows_def split: list.splits)

lemma handleSearch_requests:
  "requests (snd (handleSearch uc fault (st, w))) =
     (if trim (verification_state.matricNumber st) = [] then requests w
      else requests w
             @ [Select ''students''
                  [(''matricNumber'', toUpperCase uc (trim (verification_state.matricNumber st)))]])"
  by (simp add: handleSearch_def Let_def issue_def console_error_def split: option.splits)

lemma checkDuplicateRegistration_requests:
  "requests (snd (snd (checkDuplicateRegistration f m cs (st, w))))
     = requests w @ [Select ''students'' [(''matricNumber'', m)]]"
  by (simp add: checkDuplicateRegistration_def Let_def issue_def console_error_def
        split: option.splits)

lemma handleSubmit_first_request:
  assumes "\<not> form_incomplete (formData st)"
  shows "take 1 (drop (length (requests w)) (requests (snd (handleSubmit env (st, w)))))
           = [Select ''students'' [(''matricNumber'', form_data.matricNumber (formData st))]]"
proof -
  obtain d st1 w1 where chk:
    "checkDuplicateRegistration (lookup_fault env) (form_data.matricNumber (formData st))
       (form_data.courses (formData st)) (st\<lparr>registration_state.loading := True\<rparr>, w) = (d, st1, w1)"
    by (metis prod_cases3)
  from checkDuplicateRegistration_requests
    [of "lookup_fault env" "form_data.matricNumber (formData st)" "form_data.courses (formData st)"
       "st\<lparr>registration_state.loading := True\<rparr>" w]
  have "requests w1 = requests w @ [Select ''students'' [(''matricNumber'', form_data.matricNumber (formData st))]]"
    by (simp add: chk)
  then show ?thesis
    by (simp add: handleSubmit_checked [OF assms chk] issue_def console_error_def
          split: option.splits)
qed

text \<open>
  Claim C10. Both screens put the typed matriculation number in upper case: each field
  stores the upper-cased text, the registration looks the stored text up as it is, and
  the search looks up the field trimmed and upper-cased once more, in a select on
  \<^verbatim>\<open>students\<close> by that key, and selects the one row it finds. So a search for \<open>s\<close> and a
  search for the upper-cased \<open>s\<close> are the same search; and two numbers that differ only in
  letter case leave the same form, are submitted alike, and are looked up under the same
  key. Of the case mapping of the runtime this uses that the capital of a letter is its
  own capital.
\<close>

theorem matric_number_upper_cased:
  assumes capitals: "\<And>c. concat (map uc (uc c)) = uc c"
  shows
    "form_data.matricNumber (formData (registration_onChangeText_matricNumber uc s rst))
       = toUpperCase uc s
     \<and> verification_state.matricNumber (verification_onChangeText_matricNumber uc s vst)
       = toUpperCase uc s
     \<and> requests (snd (handleSearch uc fault (vst, w))) =
         (if trim (verification_state.matricNumber vst) = [] then requests w
          else requests w
                 @ [Select ''students''
                      [(''matricNumber'',
                        toUpperCase uc (trim (verification_state.matricNumber vst)))]])
     \<and> selectedStudent (fst (handleSearch uc None (vst, w))) =
         (if trim (verification_state.matricNumber vst) = [] then selectedStudent vst
          else (case filter (\<lambda>r. student.matricNumber r
                                    = toUpperCase uc (trim (verification_state.matricNumber vst)))
                       (store.students (db w)) of
                  [found] \<Rightarrow> Some found
                | _ \<Rightarrow> None))
     \<and> handleSearch uc fault (verification_onChangeText_matricNumber uc s vst, w)
       = handleSearch uc fault (verification_onChangeText_matricNumber uc (toUpperCase uc s) vst, w)
     \<and> (\<not> form_incomplete (formData (registration_onChangeText_matricNumber uc s rst)) \<longrightarrow>
          take 1 (drop (length (requests w))
                    (requests (snd (handleSubmit env
                       (registration_onChangeText_matricNumber uc s rst, w)))))
            = [Select ''students'' [(''matricNumber'', toUpperCase uc s)]])
     \<and> (differ_only_in_case uc s t \<longrightarrow>
          registration_onChangeText_matricNumber uc s rst
            = registration_onChangeText_matricNumber uc t rst
          \<and> handleSubmit env (registration_onChangeText_matricNumber uc s rst, w)
            = handleSubmit env (registration_onChangeText_matricNumber uc t rst, w)
          \<and> handleSearch uc fault (verification_onChangeText_matricNumber uc s vst, w)
            = handleSearch uc fault (verification_onChangeText_matricNumber uc t vst, w))"
proof (intro conjI impI)
  show "form_data.matricNumber (formData (registration_onChangeText_matricNumber uc s rst))
       = toUpperCase uc s"
    by (simp add: registration_onChangeText_matricNumber_def)
  show "verification_state.matricNumber (verification_onChangeText_matricNumber uc s vst)
       = toUpperCase uc s"
    by (simp add: verification_onChangeText_matricNumber_def)
  show "requests (snd (handleSearch uc fault (vst, w))) =
         (if trim (verification_state.matricNumber vst) = [] then requests w
          else requests w
                 @ [Select ''students''
                      [(''matricNumber'',
                        toUpperCase uc (trim (verification_state.matricNumber vst)))]])"
    by (rule handleSearch_requests)
  show "selectedStudent (fst (handleSearch uc None (vst, w))) =
         (if trim (verification_state.matricNumber vst) = [] then selectedStudent vst
          else (case filter (\<lambda>r. student.matricNumber r
                                    = toUpperCase uc (trim (verification_state.matricNumber vst)))
                       (store.students (db w)) of
                  [found] \<Rightarrow> Some found
                | _ \<Rightarrow> None))"
    by (simp add: handleSearch_blank handleSearch_answered split: list.splits)
  show "handleSearch uc fault (verification_onChangeText_matricNumber uc s vst, w)
       = handleSearch uc fault (verification_onChangeText_matricNumber uc (toUpperCase uc s) vst, w)"
    by (simp add: verification_onChangeText_matricNumber_def toUpperCase_idem [OF capitals])
next
  assume "\<not> form_incomplete (formData (registration_onChangeText_matricNumber uc s rst))"
  from handleSubmit_first_request [OF this, of w env]
  show "take 1 (drop (length (requests w))
                    (requests (snd (handleSubmit env
                       (registration_onChangeText_matricNumber uc s rst, w)))))
            = [Select ''students'' [(''matricNumber'', toUpperCase uc s)]]"
    by (simp add: registration_onChangeText_matricNumber_def)
next
  assume d: "differ_only_in_case uc s t"
  note same = differ_only_in_case_toUpperCase [OF capitals d]
  show form: "registration_onChangeText_matricNumber uc s rst
            = registration_onChangeText_matricNumber uc t rst"
    by (simp add: registration_onChangeText_matricNumber_def same)
  show "handleSubmit env (registration_onChangeText_matricNumber uc s rst, w)
            = handleSubmit env (registration_onChangeText_matricNumber uc t rst, w)"
    by (simp add: form)
  show "handleSearch uc fault (verification_onChangeText_matricNumber uc s vst, w)
            = handleSearch uc fault (verification_onChangeText_matricNumber uc t vst, w)"
    by (simp add: verification_onChangeText_matricNumber_def same)
qed

lemma example_upper_cased:
  "toUpperCase Latin1_Uppercase typed_number = [0x20] @ code_points ''CSC/2020/002'' @ [0xA0]"
  "trim (toUpperCase Latin1_Uppercase typed_number) = code_points ''CSC/2020/002''"
  "toUpperCase Latin1_Uppercase (code_points ''CSC/2020/002'') = code_points ''CSC/2020/002''"
  "differ_only_in_case Latin1_Uppercase (code_points ''csc/2020/002'') (code_points ''CSC/2020/002'')"
  "differ_only_in_case Latin1_Uppercase [0x63, 0x61, 0x66, 0xE9] [0x43, 0x41, 0x46, 0xC9]"
  "toUpperCase Latin1_Uppercase [0x73, 0x74, 0x72, 0x61, 0xDF, 0x65] = code_points ''STRASSE''"
  by (simp_all add: typed_number_def toUpperCase_def Latin1_Uppercase_def trim_def
        isWhiteSpace_def code_points_def differ_only_in_case_def)

text \<open>
  The number of the example typed in small letters between two spaces: the registration
  form holds it in capitals with its spaces, the search trims it, asks for the number in
  capitals and finds the stored student. Typed in small letters and in capitals, the
  number leaves the same form. And with an accent: \<^verbatim>\<open>caf\<close> and e acute differs only in
  letter case from its capitals.
\<close>

theorem matric_number_upper_cased_witness:
  "form_data.matricNumber (formData (registration_onChangeText_matricNumber Latin1_Uppercase
       typed_number repeat_form))
     = [0x20] @ code_points ''CSC/2020/002'' @ [0xA0]
   \<and> requests (snd (handleSearch Latin1_Uppercase None
         (verification_onChangeText_matricNumber Latin1_Uppercase typed_number blank_verification,
          registered_world :: (student, unit) world)))
     = [Select ''students'' [(''matricNumber'', code_points ''CSC/2020/002'')]]
   \<and> selectedStudent (fst (handleSearch Latin1_Uppercase None
         (verification_onChangeText_matricNumber Latin1_Uppercase typed_number blank_verification,
          registered_world :: (student, unit) world)))
     = Some stored_student
   \<and> \<not> form_incomplete (formData (registration_onChangeText_matricNumber Latin1_Uppercase
         (code_points ''csc/2020/002'') repeat_form))
   \<and> take 1 (drop (length (requests (registered_world :: (student, unit) world)))
        (requests (snd (handleSubmit calm_submit
           (registration_onChangeText_matricNumber Latin1_Uppercase
              (code_points ''csc/2020/002'') repeat_form,
            registered_world :: (student, unit) world)))))
     = [Select ''students'' [(''matricNumber'', code_points ''CSC/2020/002'')]]
   \<and> differ_only_in_case Latin1_Uppercase (code_points ''csc/2020/002'') (code_points ''CSC/2020/002'')
   \<and> registration_onChangeText_matricNumber Latin1_Uppercase (code_points ''csc/2020/002'') repeat_form
     = registration_onChangeText_matricNumber Latin1_Uppercase (code_points ''CSC/2020/002'') repeat_form
   \<and> differ_only_in_case Latin1_Uppercase [0x63, 0x61, 0x66, 0xE9] [0x43, 0x41, 0x46, 0xC9]
   \<and> registration_onChangeText_matricNumber Latin1_Uppercase [0x63, 0x61, 0x66, 0xE9] repeat_form
     = registration_onChangeText_matricNumber Latin1_Uppercase [0x43, 0x41, 0x46, 0xC9] repeat_form"
proof -
  let ?typed = "verification_onChangeText_matricNumber Latin1_Uppercase typed_number blank_verification"
  note claim = matric_number_upper_cased [of Latin1_Uppercase, OF Latin1_Uppercase_idem]
  have field: "verification_state.matricNumber ?typed = toUpperCase Latin1_Uppercase typed_number"
    using claim [of typed_number] by blast
  have key: "toUpperCase Latin1_Uppercase (trim (verification_state.matricNumber ?typed))
               = code_points ''CSC/2020/002''"
    unfolding field example_upper_cased(2) by (rule example_upper_cased(3))
  have typed: "trim (verification_state.matricNumber ?typed) \<noteq> []"
    unfolding field example_upper_cased(2) by (simp add: code_points_def)
  have on_file: "filter (\<lambda>r. student.matricNumber r = code_points ''CSC/2020/002'')
        (store.students (db (registered_world :: (student, unit) world))) = [stored_student]"
    by (simp add: registered_world_def stored_student_def)
  from claim [of typed_number repeat_form]
  have "form_data.matricNumber (formData (registration_onChangeText_matricNumber Latin1_Uppercase
       typed_number repeat_form)) = toUpperCase Latin1_Uppercase typed_number"
    by (rule conjunct1)
  then have form: "form_data.matricNumber (formData (registration_onChangeText_matricNumber
       Latin1_Uppercase typed_number repeat_form)) = [0x20] @ code_points ''CSC/2020/002'' @ [0xA0]"
    by (simp only: example_upper_cased)
  from claim [where vst = ?typed and w = "registered_world :: (student, unit) world"
      and fault = None, THEN conjunct2, THEN conjunct2, THEN conjunct1]
  have asked: "requests (snd (handleSearch Latin1_Uppercase None
         (?typed, registered_world :: (student, unit) world)))
     = [Select ''students'' [(''matricNumber'', code_points ''CSC/2020/002'')]]"
    by (simp add: key typed) (simp add: registered_world_def)
  from claim [where vst = ?typed and w = "registered_world :: (student, unit) world",
      THEN conjunct2, THEN conjunct2, THEN conjunct2, THEN conjunct1]
  have found: "selectedStudent (fst (handleSearch Latin1_Uppercase None
         (?typed, registered_world :: (student, unit) world))) = Some stored_student"
    by (simp add: key typed on_file)
  have filled: "\<not> form_incomplete (formData (registration_onChangeText_matricNumber
      Latin1_Uppercase (code_points ''csc/2020/002'') repeat_form))"
    by (simp add: registration_onChangeText_matricNumber_def repeat_form_def form_incomplete_def
          toUpperCase_def Latin1_Uppercase_def code_points_def)
  have capitals: "toUpperCase Latin1_Uppercase (code_points ''csc/2020/002'')
      = code_points ''CSC/2020/002''"
    by (simp add: toUpperCase_def Latin1_Uppercase_def code_points_def)
  from claim [where s = "code_points ''csc/2020/002''" and rst = repeat_form
      and w = "registered_world :: (student, unit) world" and env = calm_submit,
      THEN conjunct2, THEN conjunct2, THEN conjunct2, THEN conjunct2, THEN conjunct2,
      THEN conjunct1, THEN mp, OF filled]
  have looked_up: "take 1 (drop (length (requests (registered_world :: (student, unit) world)))
        (requests (snd (handleSubmit calm_submit
           (registration_onChangeText_matricNumber Latin1_Uppercase
              (code_points ''csc/2020/002'') repeat_form,
            registered_world :: (student, unit) world)))))
     = [Select ''students'' [(''matricNumber'', code_points ''CSC/2020/002'')]]"
    by (simp only: capitals)
  have small: "differ_only_in_case Latin1_Uppercase (code_points ''csc/2020/002'')
      (code_points ''CSC/2020/002'')"
    and accent: "differ_only_in_case Latin1_Uppercase [0x63, 0x61, 0x66, 0xE9] [0x43, 0x41, 0x46, 0xC9]"
    by (rule example_upper_cased)+
  from claim [where s = "code_points ''csc/2020/002''" and t = "code_points ''CSC/2020/002''"
      and rst = repeat_form] small
  have same: "registration_onChangeText_matricNumber Latin1_Uppercase (code_points ''csc/2020/002'') repeat_form
     = registration_onChangeText_matricNumber Latin1_Uppercase (code_points ''CSC/2020/002'') repeat_form"
    by blast
  from claim [where s = "[0x63, 0x61, 0x66, 0xE9]" and t = "[0x43, 0x41, 0x46, 0xC9]"
      and rst = repeat_form] accent
  have same': "registration_onChangeText_matricNumber Latin1_Uppercase [0x63, 0x61, 0x66, 0xE9] repeat_form
     = registration_onChangeText_matricNumber Latin1_Uppercase [0x43, 0x41, 0x46, 0xC9] repeat_form"
    by blast
  from form asked found filled looked_up small same accent same' show ?thesis
    by (intro conjI)
qed

section \<open>What the actions leave untouched\<close>

lemma checkDuplicateRegistration_frame:
  assumes "checkDuplicateRegistration f m cs (st, w) = (d, st1, w1)"
  shows "db w1 = db w \<and> formData st1 = formData st
         \<and> requests w1 = requests w @ [Select ''students'' [(''matricNumber'', m)]]"
  using assms
  by (auto simp add: checkDuplicateRegistration_def Let_def issue_def console_error_def
        split: option.splits if_splits)

lemma isAlreadyVerified_frame:
  assumes "isAlreadyVerified f m c (st, w) = (v, st1, w1)"
  shows "db w1 = db w
         \<and> requests w1 = requests w
             @ [Select ''course_attendance'' [(''matricNumber'', m), (''courseCode'', code_points c)]]
         \<and> selectedStudent st1 = selectedStudent st
         \<and> verification_state.selectedCourse st1 = verification_state.selectedCourse st
         \<and> verification_state.matricNumber st1 = verification_state.matricNumber st
         \<and> verification_state.invigilatorName st1 = verification_state.invigilatorName st"
  using assms
  by (auto simp add: isAlreadyVerified_def Let_def issue_def console_error_def
        split: option.splits)

lemma handleSubmit_frame:
  assumes "handleSubmit env (st, w) = (st', w')"
  shows "course_attendance (db w') = course_attendance (db w)
         \<and> attendance_records (db w') = attendance_records (db w)
         \<and> student_courses (db w') = student_courses (db w)
         \<and> (\<exists>rs. requests w' = requests w @ rs \<and> table_of ` set rs \<subseteq> {''students''})"
proof (cases "form_incomplete (formData st)")
  case True
  with assms show ?thesis by (simp add: handleSubmit_incomplete)
next
  case False
  obtain d st1 w1 where chk:
    "checkDuplicateRegistration (lookup_fault env) (form_data.matricNumber (formData st))
       (form_data.courses (formData st)) (st\<lparr>registration_state.loading := True\<rparr>, w) = (d, st1, w1)"
    by (metis prod_cases3)
  note fr = checkDuplicateRegistration_frame [OF chk]
  from assms show ?thesis
    unfolding handleSubmit_checked [OF False chk]
    using fr
    by (auto simp add: issue_def console_error_def split: if_splits option.splits)
qed

lemma handleSearch_frame:
  assumes "handleSearch uc f (st, w) = (st', w')"
  shows "db w' = db w
         \<and> (\<exists>rs. requests w' = requests w @ rs \<and> table_of ` set rs \<subseteq> {''students''})"
  using assms
  by (auto simp add: handleSearch_def Let_def issue_def console_error_def
        split: option.splits if_splits)

lemma handleMarkAttendance_frame:
  assumes "handleMarkAttendance env (st, w) = (st', w')"
  shows "store.students (db w') = store.students (db w)
         \<and> attendance_records (db w') = attendance_records (db w)
         \<and> student_courses (db w') = student_courses (db w)
         \<and> (course_attendance (db w') = course_attendance (db w)
             \<or> (\<exists>row. course_attendance (db w') = course_attendance (db w) @ [row]))
         \<and> (\<exists>rs. requests w' = requests w @ rs \<and> table_of ` set rs \<subseteq> {''course_attendance''})"
proof (cases "selectedStudent st = None \<or> verification_state.selectedCourse st = []
              \<or> trim (verification_state.invigilatorName st) = []")
  case True
  with assms show ?thesis by (simp add: handleMarkAttendance_not_ready)
next
  case False
  then obtain stu where stu: "selectedStudent st = Some stu"
    and c: "verification_state.selectedCourse st \<noteq> []"
    and i: "trim (verification_state.invigilatorName st) \<noteq> []"
    by auto
  obtain v st1 w1 where chk:
    "isAlreadyVerified (check_fault env) (student.matricNumber stu)
       (verification_state.selectedCourse st)
       (st\<lparr>verification_state.loading := True\<rparr>, w) = (v, st1, w1)"
    by (metis prod_cases3)
  note fr = isAlreadyVerified_frame [OF chk]
  from assms show ?thesis
    unfolding handleMarkAttendance_checked [OF stu c i chk]
    using fr
    by (auto simp add: issue_def console_error_def split: if_splits option.splits)
qed

lemma perform_frame:
  assumes "perform uc a (rst, vst, w) = (rst', vst', w')"
  shows "attendance_records (db w') = attendance_records (db w)
         \<and> (\<exists>rs. requests w' = requests w @ rs
                 \<and> table_of ` set rs \<subseteq> {''students'', ''course_attendance''})"
proof (cases a)
  case (Edit_registration f)
  with assms show ?thesis by simp
next
  case (Submit env)
  with assms obtain st' where "handleSubmit env (rst, w) = (st', w')"
    by (auto split: prod.splits)
  from handleSubmit_frame [OF this] show ?thesis by auto
next
  case (Edit_verification f)
  with assms show ?thesis by simp
next
  case (Search f)
  with assms obtain st' where "handleSearch uc f (vst, w) = (st', w')"
    by (auto split: prod.splits)
  from handleSearch_frame [OF this] show ?thesis by auto
next
  case (Mark env)
  with assms obtain st' where "handleMarkAttendance env (vst, w) = (st', w')"
    by (auto split: prod.splits)
  from handleMarkAttendance_frame [OF this] show ?thesis by auto
qed

lemma run_frame:
  "attendance_records (db (world_of (run uc acts (rst, vst, w)))) = attendance_records (db w)
   \<and> (\<exists>rs. requests (world_of (run uc acts (rst, vst, w))) = requests w @ rs
           \<and> table_of ` set rs \<subseteq> {''students'', ''course_attendance''})"
proof (induction acts arbitrary: rst vst w)
  case Nil
  show ?case by (simp add: run_def world_of_def)
next
  case (Cons a acts)
  obtain rst1 vst1 w1 where step: "perform uc a (rst, vst, w) = (rst1, vst1, w1)"
    by (metis prod_cases3)
  have unfold: "run uc (a # acts) (rst, vst, w) = run uc acts (rst1, vst1, w1)"
    by (simp add: run_def step)
  from perform_frame [OF step] obtain rs1 where
    one: "attendance_records (db w1) = attendance_records (db w)"
      "requests w1 = requests w @ rs1"
      "table_of ` set rs1 \<subseteq> {''students'', ''course_attendance''}"
    by blast
  from Cons.IH [of rst1 vst1 w1] obtain rs2 where
    rest: "attendance_records (db (world_of (run uc acts (rst1, vst1, w1)))) = attendance_records (db w1)"
      "requests (world_of (run uc acts (rst1, vst1, w1))) = requests w1 @ rs2"
      "table_of ` set rs2 \<subseteq> {''students'', ''course_attendance''}"
    by blast
  have "requests (world_of (run uc (a # acts) (rst, vst, w))) = requests w @ (rs1 @ rs2)"
    using one rest by (simp add: unfold)
  moreover have "table_of ` set (rs1 @ rs2) \<subseteq> {''students'', ''course_attendance''}"
    using one rest by (simp add: image_Un)
  moreover have "attendance_records (db (world_of (run uc (a # acts) (rst, vst, w))))
                 = attendance_records (db w)"
    using one rest by (simp add: unfold)
  ultimately show ?case by blast
qed

lemma loadAttendance_reads:
  "loadAttendance None (hst, w) =
     (None,
      hst\<lparr>home_state.attendanceRecords :=
            map (\<lambda>rec. \<lparr>attendance.id = attendance_record_row.id rec,
                        matricNumber = attendance_record_row.matric_number rec,
                        courseCode = attendance_record_row.course_code rec,
                        verificationDate = verification_date rec,
                        invigilatorName = invigilator_name rec\<rparr>) (attendance_records (db w))\<rparr>,
      issue (Select ''attendance_records'' []) w)"
  by (simp add: loadAttendance_def loadAttendance_answered_def select_rows_def Let_def issue_def)

lemma details_fetchData_reads:
  "details_fetchData None None (dst, w) =
     (dst\<lparr>details_state.loading := False, details_state.error := None,
          details_state.students := store.students (db w),
          details_state.attendanceRecords := attendance_records (db w)\<rparr>,
      issue (Select ''attendance_records'' []) (issue (Select ''students'' []) w))"
  by (simp add: details_fetchData_def select_rows_def Let_def issue_def)

lemma reports_fetchData_reads:
  "reports_fetchData None None (pst, w) =
     (pst\<lparr>reports_state.loading := False, reports_state.error := None,
          reports_state.students := store.students (db w),
          reports_state.attendanceRecords := course_attendance (db w)\<rparr>,
      issue (Select ''course_attendance'' []) (issue (Select ''students'' []) w))"
  by (simp add: reports_fetchData_def select_rows_def Let_def issue_def)

section \<open>Which table each screen reads and writes\<close>

lemma desk_run_world:
  "course_attendance (db (world_of (run Latin1_Uppercase desk_run
       (blank_registration, blank_verification, archive_world row))))
     = [desk_row]
   \<and> attendance_records (db (world_of (run Latin1_Uppercase desk_run
       (blank_registration, blank_verification, archive_world row))))
     = [row]
   \<and> requests (world_of (run Latin1_Uppercase desk_run
       (blank_registration, blank_verification, archive_world row)))
     = [Select ''students'' [(''matricNumber'', code_points ''CSC/2020/002'')],
        Insert ''students'',
        Select ''students'' [(''matricNumber'', code_points ''CSC/2020/002'')],
        Select ''course_attendance''
          [(''matricNumber'', code_points ''CSC/2020/002''), (''courseCode'', code_points ''CSC301'')],
        Insert ''course_attendance'']"
  by (simp add: run_def desk_run_def world_of_def blank_registration_def blank_verification_def
        archive_world_def calm_submit_def calm_mark_def desk_row_def
        handleSubmit_def checkDuplicateRegistration_def form_incomplete_def newStudent_def
        insert_row_def single_def select_rows_def issue_def console_error_def
        handleSearch_def verification_onChangeText_matricNumber_def
        handleMarkAttendance_def isAlreadyVerified_def initial_formData_def
        toUpperCase_def Latin1_Uppercase_def trim_def isWhiteSpace_def code_points_def Let_def)

text \<open>
  Claim C8. Marking attendance inserts into \<^verbatim>\<open>course_attendance\<close> only, and every call it
  makes names that table; the reports screen loads its attendance list from there. The
  home screen and the details screen load theirs by a select on \<^verbatim>\<open>attendance_records\<close>,
  a table that no run of the writing screens changes or so much as names in a call; the
  loads change no table. So whatever the application has done, these two screens show the
  rows that \<^verbatim>\<open>attendance_records\<close> held before, and none that the application created.
\<close>

theorem created_rows_not_shown:
  "(case handleMarkAttendance env (vst, w) of (vst', w') \<Rightarrow>
      store.students (db w') = store.students (db w)
      \<and> attendance_records (db w') = attendance_records (db w)
      \<and> (course_attendance (db w') = course_attendance (db w)
          \<or> (\<exists>row. course_attendance (db w') = course_attendance (db w) @ [row]))
      \<and> (\<exists>rs. requests w' = requests w @ rs \<and> table_of ` set rs \<subseteq> {''course_attendance''}))
   \<and> (case reports_fetchData None None (pst, w) of (pst', w') \<Rightarrow>
        reports_state.attendanceRecords pst' = course_attendance (db w)
        \<and> requests w' = requests w @ [Select ''students'' [], Select ''course_attendance'' []]
        \<and> db w' = db w)
   \<and> attendance_records (db (world_of (run uc acts (rst, vst, w)))) = attendance_records (db w)
   \<and> (\<exists>rs. requests (world_of (run uc acts (rst, vst, w))) = requests w @ rs
           \<and> table_of ` set rs \<subseteq> {''students'', ''course_attendance''})
   \<and> (case loadAttendance None (hst, world_of (run uc acts (rst, vst, wh))) of
         (thrown, hst', w') \<Rightarrow>
           home_state.attendanceRecords hst' =
             map (\<lambda>rec. \<lparr>attendance.id = attendance_record_row.id rec,
                         matricNumber = attendance_record_row.matric_number rec,
                         courseCode = attendance_record_row.course_code rec,
                         verificationDate = verification_date rec,
                         invigilatorName = invigilator_name rec\<rparr>) (attendance_records (db wh))
           \<and> requests w' = requests (world_of (run uc acts (rst, vst, wh)))
                             @ [Select ''attendance_records'' []]
           \<and> db w' = db (world_of (run uc acts (rst, vst, wh))))
   \<and> (case details_fetchData None None (dst, world_of (run uc acts (rst, vst, wd))) of
         (dst', w') \<Rightarrow>
           details_state.attendanceRecords dst' = attendance_records (db wd)
           \<and> requests w' = requests (world_of (run uc acts (rst, vst, wd)))
                             @ [Select ''students'' [], Select ''attendance_records'' []]
           \<and> db w' = db (world_of (run uc acts (rst, vst, wd))))"
proof (intro conjI)
  obtain vst' w' where m: "handleMarkAttendance env (vst, w) = (vst', w')"
    by (metis surj_pair)
  from handleMarkAttendance_frame [OF m]
  show "case handleMarkAttendance env (vst, w) of (vst', w') \<Rightarrow>
      store.students (db w') = store.students (db w)
      \<and> attendance_records (db w') = attendance_records (db w)
      \<and> (course_attendance (db w') = course_attendance (db w)
          \<or> (\<exists>row. course_attendance (db w') = course_attendance (db w) @ [row]))
      \<and> (\<exists>rs. requests w' = requests w @ rs \<and> table_of ` set rs \<subseteq> {''course_attendance''})"
    by (simp add: m)
  show "case reports_fetchData None None (pst, w) of (pst', w') \<Rightarrow>
        reports_state.attendanceRecords pst' = course_attendance (db w)
        \<and> requests w' = requests w @ [Select ''students'' [], Select ''course_attendance'' []]
        \<and> db w' = db w"
    by (simp add: reports_fetchData_reads issue_def)
  from run_frame [of uc acts rst vst w]
  show "attendance_records (db (world_of (run uc acts (rst, vst, w)))) = attendance_records (db w)"
    and "\<exists>rs. requests (world_of (run uc acts (rst, vst, w))) = requests w @ rs
           \<and> table_of ` set rs \<subseteq> {''students'', ''course_attendance''}"
    by blast+
  have "attendance_records (db (world_of (run uc acts (rst, vst, wh)))) = attendance_records (db wh)"
    using run_frame [of uc acts rst vst wh] by (rule conjunct1)
  then show "case loadAttendance None (hst, world_of (run uc acts (rst, vst, wh))) of
         (thrown, hst', w') \<Rightarrow>
           home_state.attendanceRecords hst' =
             map (\<lambda>rec. \<lparr>attendance.id = attendance_record_row.id rec,
                         matricNumber = attendance_record_row.matric_number rec,
                         courseCode = attendance_record_row.course_code rec,
                         verificationDate = verification_date rec,
                         invigilatorName = invigilator_name rec\<rparr>) (attendance_records (db wh))
           \<and> requests w' = requests (world_of (run uc acts (rst, vst, wh)))
                             @ [Select ''attendance_records'' []]
           \<and> db w' = db (world_of (run uc acts (rst, vst, wh)))"
    by (simp add: loadAttendance_reads issue_def)
  have "attendance_records (db (world_of (run uc acts (rst, vst, wd)))) = attendance_records (db wd)"
    using run_frame [of uc acts rst vst wd] by (rule conjunct1)
  then show "case details_fetchData None None (dst, world_of (run uc acts (rst, vst, wd))) of
         (dst', w') \<Rightarrow>
           details_state.attendanceRecords dst' = attendance_records (db wd)
           \<and> requests w' = requests (world_of (run uc acts (rst, vst, wd)))
                             @ [Select ''students'' [], Select ''attendance_records'' []]
           \<and> db w' = db (world_of (run uc acts (rst, vst, wd)))"
    by (simp add: details_fetchData_reads issue_def)
qed

text \<open>
  The run of the example on a store whose \<^verbatim>\<open>attendance_records\<close> holds one older row.
  Afterwards the reports screen loads the row that the run created; the home screen and
  the details screen load the older row and not the created one.
\<close>

theorem created_rows_not_shown_witness:
  "reports_state.attendanceRecords
     (fst (reports_fetchData None None
        (blank_reports,
         world_of (run Latin1_Uppercase desk_run
           (blank_registration, blank_verification, archive_world archived_record)))))
     = [desk_row]
   \<and> home_state.attendanceRecords
       (fst (snd (loadAttendance None
          (blank_home,
           world_of (run Latin1_Uppercase desk_run
             (blank_registration, blank_verification, archive_world archived_record))))))
     = [archived_attendance]
   \<and> details_state.attendanceRecords
       (fst (details_fetchData None None
          (blank_details,
           world_of (run Latin1_Uppercase desk_run
             (blank_registration, blank_verification, archive_world archived_attendance)))))
     = [archived_attendance]
   \<and> desk_row \<noteq> archived_attendance"
proof -
  let ?after = "\<lambda>w. world_of (run Latin1_Uppercase desk_run (blank_registration, blank_verification, w))"
  note reports = created_rows_not_shown [where w = "?after (archive_world archived_record)"
      and pst = blank_reports, THEN conjunct2, THEN conjunct1]
  note home = created_rows_not_shown [where uc = Latin1_Uppercase and acts = desk_run
      and rst = blank_registration and vst = blank_verification and hst = blank_home
      and wh = "archive_world archived_record",
      THEN conjunct2, THEN conjunct2, THEN conjunct2, THEN conjunct2, THEN conjunct1]
  note details = created_rows_not_shown [where uc = Latin1_Uppercase and acts = desk_run
      and rst = blank_registration and vst = blank_verification and dst = blank_details
      and wd = "archive_world archived_attendance",
      THEN conjunct2, THEN conjunct2, THEN conjunct2, THEN conjunct2, THEN conjunct2]
  from reports have shown: "reports_state.attendanceRecords
       (fst (reports_fetchData None None (blank_reports, ?after (archive_world archived_record))))
     = [desk_row]"
    by (simp add: case_prod_unfold desk_run_world)
  from home have at_home: "home_state.attendanceRecords
       (fst (snd (loadAttendance None (blank_home, ?after (archive_world archived_record)))))
     = [archived_attendance]"
    by (simp add: case_prod_unfold archive_world_def archived_record_def archived_attendance_def)
  from details have in_details: "details_state.attendanceRecords
       (fst (details_fetchData None None (blank_details, ?after (archive_world archived_attendance))))
     = [archived_attendance]"
    by (simp add: case_prod_unfold archive_world_def)
  have other: "desk_row \<noteq> archived_attendance"
    by (simp add: desk_row_def archived_attendance_def)
  from shown at_home in_details other show ?thesis
    by (intro conjI)
qed

section \<open>Failing remote calls\<close>

lemma handleSearch_failed:
  assumes "trim (verification_state.matricNumber st) \<noteq> []"
  shows "handleSearch uc (Some e) (st, w) =
           (st\<lparr>verification_state.loading := False,
               verification_state.message :=
                 Some \<lparr>type = message_type.error,
                       text = (if code e = ''PGRST116''
                               then ''Student not found. Please check the matric number.''
                               else ''Error searching student.'')\<rparr>,
               selectedStudent := None\<rparr>,
            if code e = ''PGRST116''
            then issue (Select ''students''
                   [(''matricNumber'', toUpperCase uc (trim (verification_state.matricNumber st)))]) w
            else console_error (LogError ''Error searching student:'' e)
                   (issue (Select ''students''
                      [(''matricNumber'', toUpperCase uc (trim (verification_state.matricNumber st)))]) w))"
  using assms
  by (simp add: handleSearch_def single_select_fault failed_other_than_no_rows_def Let_def)

lemma checkDuplicateRegistration_fault:
  "checkDuplicateRegistration (Some e) m cs (st, w) =
     ([], st\<lparr>registration_state.loading := False\<rparr>,
      if code e = ''PGRST116''
      then issue (Select ''students'' [(''matricNumber'', m)]) w
      else console_error (LogError ''Error checking duplicate registration:'' e)
             (issue (Select ''students'' [(''matricNumber'', m)]) w))"
  by (simp add: checkDuplicateRegistration_failed checkDuplicateRegistration_not_found)

lemma handleSubmit_goes_on:
  assumes ready: "\<not> form_incomplete (formData st)" and down: "lookup_fault env = Some e"
  shows "requests (snd (handleSubmit env (st, w))) =
           requests w @ [Select ''students'' [(''matricNumber'', form_data.matricNumber (formData st))],
                         Insert ''students'']"
proof -
  have chk: "checkDuplicateRegistration (lookup_fault env) (form_data.matricNumber (formData st))
           (form_data.courses (formData st)) (st\<lparr>registration_state.loading := True\<rparr>, w)
         = ([], st\<lparr>registration_state.loading := False\<rparr>,
            if code e = ''PGRST116''
            then issue (Select ''students'' [(''matricNumber'', form_data.matricNumber (formData st))]) w
            else console_error (LogError ''Error checking duplicate registration:'' e)
                   (issue (Select ''students'' [(''matricNumber'', form_data.matricNumber (formData st))]) w))"
    by (simp add: down checkDuplicateRegistration_fault)
  show ?thesis
    by (simp add: handleSubmit_checked [OF ready chk] issue_def console_error_def
          split: option.splits)
qed

lemma handleMarkAttendance_goes_on:
  assumes stu: "selectedStudent st = Some stu"
    and c: "verification_state.selectedCourse st \<noteq> []"
    and i: "trim (verification_state.invigilatorName st) \<noteq> []"
    and down: "check_fault env = Some e"
  shows "requests (snd (handleMarkAttendance env (st, w))) =
           requests w @ [Select ''course_attendance''
                           [(''matricNumber'', student.matricNumber stu),
                            (''courseCode'', code_points (verification_state.selectedCourse st))],
                         Insert ''course_attendance'']"
proof -
  have chk: "isAlreadyVerified (check_fault env) (student.matricNumber stu)
                 (verification_state.selectedCourse st)
                 (st\<lparr>verification_state.loading := True\<rparr>, w)
               = (False, st\<lparr>verification_state.loading := False\<rparr>,
                  console_error (LogError ''Error checking attendance:'' e)
                    (issue (Select ''course_attendance''
                           [(''matricNumber'', student.matricNumber stu),
                            (''courseCode'', code_points (verification_state.selectedCourse st))]) w))"
    using down by (simp add: isAlreadyVerified_failed)
  show ?thesis
    by (simp add: handleMarkAttendance_checked [OF stu c i chk] issue_def console_error_def
          split: option.splits)
qed

lemma handleSubmit_insert_failed:
  assumes ready: "\<not> form_incomplete (formData st)"
    and none: "fst (checkDuplicateRegistration (lookup_fault env)
                 (form_data.matricNumber (formData st)) (form_data.courses (formData st))
                 (st\<lparr>registration_state.loading := True\<rparr>, w)) = []"
    and fails: "submit_env.insert_fault env = Some e"
  shows "case handleSubmit env (st, w) of (st', w') \<Rightarrow>
           last (console w') = LogError ''Error registering student:'' e
           \<and> registration_state.message st' =
               Some \<lparr>type = message_type.error, text = ''Error registering student.''\<rparr>
           \<and> last (requests w') = Insert ''students''
           \<and> db w' = db w
           \<and> formData st' = formData st"
proof -
  obtain d st1 w1 where chk:
    "checkDuplicateRegistration (lookup_fault env) (form_data.matricNumber (formData st))
       (form_data.courses (formData st)) (st\<lparr>registration_state.loading := True\<rparr>, w) = (d, st1, w1)"
    by (metis prod_cases3)
  with none have d: "d = []" by simp
  from checkDuplicateRegistration_frame [OF chk]
  have fr: "db w1 = db w" "formData st1 = formData st" by simp_all
  show ?thesis
    unfolding handleSubmit_checked [OF ready chk]
    using d fails fr by (simp add: issue_def console_error_def)
qed

lemma handleMarkAttendance_insert_failed:
  assumes stu: "selectedStudent st = Some stu"
    and c: "verification_state.selectedCourse st \<noteq> []"
    and i: "trim (verification_state.invigilatorName st) \<noteq> []"
    and fresh: "\<not> fst (isAlreadyVerified (check_fault env) (student.matricNumber stu)
                   (verification_state.selectedCourse st)
                   (st\<lparr>verification_state.loading := True\<rparr>, w))"
    and fails: "mark_env.insert_fault env = Some e"
  shows "case handleMarkAttendance env (st, w) of (st', w') \<Rightarrow>
           last (console w') = LogError ''Error marking attendance:'' e
           \<and> verification_state.message st' =
               Some \<lparr>type = message_type.error, text = ''Error marking attendance.''\<rparr>
           \<and> last (requests w') = Insert ''course_attendance''
           \<and> db w' = db w
           \<and> selectedStudent st' = selectedStudent st
           \<and> verification_state.selectedCourse st' = verification_state.selectedCourse st
           \<and> verification_state.matricNumber st' = verification_state.matricNumber st
           \<and> verification_state.invigilatorName st' = verification_state.invigilatorName st"
proof -
  obtain v st1 w1 where chk:
    "isAlreadyVerified (check_fault env) (student.matricNumber stu)
       (verification_state.selectedCourse st)
       (st\<lparr>verification_state.loading := True\<rparr>, w) = (v, st1, w1)"
    by (metis prod_cases3)
  with fresh have v: "\<not> v" by simp
  note fr = isAlreadyVerified_frame [OF chk]
  show ?thesis
    unfolding handleMarkAttendance_checked [OF stu c i chk]
    using v fails fr by (simp add: issue_def console_error_def)
qed

lemma reports_fetchData_students_failed:
  "reports_fetchData (Some e) f2 (st, w) =
     (st\<lparr>reports_state.loading := False,
         reports_state.error := Some ''Failed to load data. Please try again.''\<rparr>,
      console_error (LogText ''Error fetching data:'' (pg_error.message e))
        (issue (Select ''students'' []) w))"
  by (simp add: reports_fetchData_def select_rows_def Let_def)

lemma reports_fetchData_attendance_failed:
  "reports_fetchData None (Some e) (st, w) =
     (st\<lparr>reports_state.loading := False,
         reports_state.error := Some ''Failed to load data. Please try again.'',
         reports_state.students := store.students (db w)\<rparr>,
      console_error (LogText ''Error fetching data:'' (pg_error.message e))
        (issue (Select ''course_attendance'' []) (issue (Select ''students'' []) w)))"
  by (simp add: reports_fetchData_def select_rows_def Let_def issue_def)

lemma details_fetchData_students_failed:
  "details_fetchData (Some e) f2 (st, w) =
     (st\<lparr>details_state.loading := False,
         details_state.error := Some (pg_error.message e)\<rparr>,
      console_error (LogError ''Error fetching data:'' e) (issue (Select ''students'' []) w))"
  by (simp add: details_fetchData_def select_rows_def Let_def)

lemma details_fetchData_attendance_failed:
  "details_fetchData None (Some e) (st, w) =
     (st\<lparr>details_state.loading := False,
         details_state.error := Some (pg_error.message e),
         details_state.students := store.students (db w)\<rparr>,
      console_error (LogError ''Error fetching data:'' e)
        (issue (Select ''attendance_records'' []) (issue (Select ''students'' []) w)))"
  by (simp add: details_fetchData_def select_rows_def Let_def issue_def)

text \<open>
  The home screen's load, whatever fails and in whatever order the answers arrive.
\<close>

lemma answered_students:
  "answered env Students_answer
     \<lparr>screen = s, outside = w, held = h, loadStudents_promise = p, loadAttendance_promise = q,
      waiting = b\<rparr> =
   (case students_fault env of
      Some e \<Rightarrow>
        \<lparr>screen = s, outside = console_error (LogError ''Error loading students:'' e) w,
         held = None, loadStudents_promise = Rejected e, loadAttendance_promise = q, waiting = b\<rparr>
    | None \<Rightarrow>
        \<lparr>screen = s, outside = issue (Select ''student_courses'' []) w,
         held = Some (store.students (db w)), loadStudents_promise = Pending,
         loadAttendance_promise = q, waiting = b\<rparr>)"
  by (simp add: answered_def loadStudents_answered_def select_rows_def settled_def Let_def
        split: option.splits)

lemma answered_courses:
  "answered env Courses_answer
     \<lparr>screen = s, outside = w, held = h, loadStudents_promise = p, loadAttendance_promise = q,
      waiting = b\<rparr> =
   (case h of
      None \<Rightarrow>
        \<lparr>screen = s, outside = w, held = h, loadStudents_promise = p, loadAttendance_promise = q,
         waiting = b\<rparr>
    | Some studentsData \<Rightarrow>
        (case courses_fault env of
           Some e \<Rightarrow>
             \<lparr>screen = s, outside = console_error (LogError ''Error loading student courses:'' e) w,
              held = None, loadStudents_promise = Rejected e, loadAttendance_promise = q,
              waiting = b\<rparr>
         | None \<Rightarrow>
             \<lparr>screen = fst (snd (loadStudents_courses_answered None studentsData (s, w))),
              outside = w, held = None, loadStudents_promise = Fulfilled,
              loadAttendance_promise = q, waiting = b\<rparr>))"
  by (simp add: answered_def loadStudents_courses_answered_def select_rows_def settled_def Let_def
        split: option.splits)

lemma answered_attendance:
  "answered env Attendance_answer
     \<lparr>screen = s, outside = w, held = h, loadStudents_promise = p, loadAttendance_promise = q,
      waiting = b\<rparr> =
   (case attendance_fault env of
      Some e \<Rightarrow>
        \<lparr>screen = s, outside = console_error (LogError ''Error loading attendance:'' e) w,
         held = h, loadStudents_promise = p, loadAttendance_promise = Rejected e, waiting = b\<rparr>
    | None \<Rightarrow>
        \<lparr>screen = fst (snd (loadAttendance_answered None (s, w))), outside = w, held = h,
         loadStudents_promise = p, loadAttendance_promise = Fulfilled, waiting = b\<rparr>)"
  by (simp add: answered_def loadAttendance_answered_def select_rows_def Let_def
        split: option.splits)

lemma resumed_record:
  "resumed
     \<lparr>screen = s, outside = w, held = h, loadStudents_promise = p, loadAttendance_promise = q,
      waiting = b\<rparr> =
   (if \<not> b
    then \<lparr>screen = s, outside = w, held = h, loadStudents_promise = p,
          loadAttendance_promise = q, waiting = b\<rparr>
    else
      (case (case p of Rejected e \<Rightarrow> Some e
                     | _ \<Rightarrow> (case q of Rejected e \<Rightarrow> Some e | _ \<Rightarrow> None)) of
         Some e \<Rightarrow>
           \<lparr>screen = s\<lparr>home_state.error := Some ''Failed to load data.'',
                        home_state.loading := False\<rparr>,
            outside = console_error (LogError ''Error loading data:'' e) w, held = h,
            loadStudents_promise = p, loadAttendance_promise = q, waiting = False\<rparr>
       | None \<Rightarrow>
           (if p = Fulfilled \<and> q = Fulfilled
            then \<lparr>screen = s\<lparr>home_state.loading := False\<rparr>, outside = w, held = h,
                  loadStudents_promise = p, loadAttendance_promise = q, waiting = False\<rparr>
            else \<lparr>screen = s, outside = w, held = h, loadStudents_promise = p,
                  loadAttendance_promise = q, waiting = b\<rparr>)))"
  by (simp add: resumed_def caught_def split: promise.splits)

lemmas loadData_unfold =
  loadData_def answers_def answered_students answered_courses answered_attendance resumed_record
  loadStudents_courses_answered_def loadAttendance_answered_def
  select_rows_def issue_def console_error_def Let_def

lemma loadData_outcome:
  "case loadData env (st, w) of (st', w') \<Rightarrow>
     db w' = db w
     \<and> requests w' =
         requests w @ [Select ''students'' [], Select ''attendance_records'' []]
           @ (case students_fault env of None \<Rightarrow> [Select ''student_courses'' []] | Some e \<Rightarrow> [])
     \<and> home_state.loading st' = False
     \<and> home_state.error st' =
         (if students_fault env = None \<and> courses_fault env = None \<and> attendance_fault env = None
          then None else Some ''Failed to load data.'')
     \<and> (case students_fault env of
           Some e \<Rightarrow> home_state.students st' = home_state.students st
         | None \<Rightarrow>
             (case courses_fault env of
                Some e \<Rightarrow> home_state.students st' = home_state.students st
              | None \<Rightarrow>
                  home_state.students st' =
                    map (\<lambda>row.
                           \<lparr>student.id = student_row.id row,
                            fullName = full_name row,
                            matricNumber = student_row.matric_number row,
                            image = student_row.image row,
                            session = student_row.session row,
                            semester = student_row.semester row,
                            courses =
                              map student_course_row.course_code
                                (filter (\<lambda>c. student_id c = student_row.id row)
                                   (student_courses (db w))),
                            registrationDate = registration_date row\<rparr>)
                      (store.students (db w))))
     \<and> (case attendance_fault env of
           Some e \<Rightarrow> home_state.attendanceRecords st' = home_state.attendanceRecords st
         | None \<Rightarrow>
             home_state.attendanceRecords st' =
               map (\<lambda>rec. \<lparr>attendance.id = attendance_record_row.id rec,
                           matricNumber = attendance_record_row.matric_number rec,
                           courseCode = attendance_record_row.course_code rec,
                           verificationDate = verification_date rec,
                           invigilatorName = invigilator_name rec\<rparr>) (attendance_records (db w)))
     \<and> (\<exists>logged.
           console w' = console w @ logged
           \<and> (logged = []) =
               (students_fault env = None \<and> courses_fault env = None \<and> attendance_fault env = None)
           \<and> (case students_fault env of
                 Some e \<Rightarrow> LogError ''Error loading students:'' e \<in> set logged
               | None \<Rightarrow>
                   (case courses_fault env of
                      Some e \<Rightarrow> LogError ''Error loading student courses:'' e \<in> set logged
                    | None \<Rightarrow> True))
           \<and> (case attendance_fault env of
                 Some e \<Rightarrow> LogError ''Error loading attendance:'' e \<in> set logged
               | None \<Rightarrow> True)
           \<and> (\<exists>e. LogError ''Error loading data:'' e \<in> set logged) = (logged \<noteq> [])
           \<and> (\<forall>e. LogError ''Error loading data:'' e \<in> set logged \<longrightarrow>
                 LogError ''Error loading students:'' e \<in> set logged
                 \<or> LogError ''Error loading student courses:'' e \<in> set logged
                 \<or> LogError ''Error loading attendance:'' e \<in> set logged))"
proof (cases "attendance_arrives env")
  case Attendance_first
  then show ?thesis
    by (cases "students_fault env"; cases "courses_fault env"; cases "attendance_fault env")
       (auto simp add: loadData_unfold)
next
  case Attendance_second
  then show ?thesis
    by (cases "students_fault env"; cases "courses_fault env"; cases "attendance_fault env")
       (auto simp add: loadData_unfold)
next
  case Attendance_last
  then show ?thesis
    by (cases "students_fault env"; cases "courses_fault env"; cases "attendance_fault env")
       (auto simp add: loadData_unfold)
qed

text \<open>
  Claim C6, as stated, makes every failure logged, answered with a generic message, the
  end of its action, and without effect on the state. Each of these fails somewhere. The
  lookup of the duplicate check fails: the submission goes on to insert the student, who
  is on file for the same course already, and reports success. The search fails: the
  student selected before is cleared. The search meets two rows under one number, which
  the client reports as an error: nothing is logged and the student is said not to be
  found. The details screen shows the error's own text. And on the home screen the load
  of the students fails while the load of the attendance is under way: that one still
  finishes and replaces the list.
\<close>

theorem failed_lookup_counterexample:
  "console (snd (handleSubmit lookup_down_submit (repeat_form, registered_world :: (student, unit) world)))
     = [LogError ''Error checking duplicate registration:'' network_down]
   \<and> requests (snd (handleSubmit lookup_down_submit (repeat_form, registered_world :: (student, unit) world)))
     = [Select ''students'' [(''matricNumber'', code_points ''CSC/2020/002'')], Insert ''students'']
   \<and> registration_state.message
       (fst (handleSubmit lookup_down_submit (repeat_form, registered_world :: (student, unit) world)))
     = Some \<lparr>type = success, text = ''Student registered successfully!''\<rparr>
   \<and> store.students
       (db (snd (handleSubmit lookup_down_submit (repeat_form, registered_world :: (student, unit) world))))
     = [stored_student, newStudent lookup_down_submit (formData repeat_form)]
   \<and> selectedStudent selected_screen = Some stored_student
   \<and> selectedStudent
       (fst (handleSearch Latin1_Uppercase (Some network_down)
               (selected_screen, registered_world :: (student, unit) world)))
     = None
   \<and> response.error two_rows_answer = Some PGRST116
   \<and> requests (snd (handleSearch Latin1_Uppercase None
                      (selected_screen, registered_in_two_steps :: (student, unit) world)))
     = requests (registered_in_two_steps :: (student, unit) world)
         @ [Select ''students'' [(''matricNumber'', code_points ''CSC/2020/002'')]]
   \<and> console (snd (handleSearch Latin1_Uppercase None
                     (selected_screen, registered_in_two_steps :: (student, unit) world)))
     = []
   \<and> verification_state.message
       (fst (handleSearch Latin1_Uppercase None
               (selected_screen, registered_in_two_steps :: (student, unit) world)))
     = Some \<lparr>type = message_type.error,
             text = ''Student not found. Please check the matric number.''\<rparr>
   \<and> details_state.error
       (fst (details_fetchData (Some network_down) None (blank_details, details_world)))
     = Some ''TypeError: Network request failed''
   \<and> home_state.attendanceRecords blank_home = []
   \<and> console (snd (loadData students_down (blank_home, home_world)))
     = [LogError ''Error loading students:'' network_down,
        LogError ''Error loading data:'' network_down]
   \<and> home_state.attendanceRecords (fst (loadData students_down (blank_home, home_world)))
     = [archived_attendance]"
proof (intro conjI)
  show "console (snd (handleSubmit lookup_down_submit (repeat_form, registered_world :: (student, unit) world)))
     = [LogError ''Error checking duplicate registration:'' network_down]"
    and "requests (snd (handleSubmit lookup_down_submit (repeat_form, registered_world :: (student, unit) world)))
     = [Select ''students'' [(''matricNumber'', code_points ''CSC/2020/002'')], Insert ''students'']"
    and "registration_state.message
       (fst (handleSubmit lookup_down_submit (repeat_form, registered_world :: (student, unit) world)))
     = Some \<lparr>type = success, text = ''Student registered successfully!''\<rparr>"
    and "store.students
       (db (snd (handleSubmit lookup_down_submit (repeat_form, registered_world :: (student, unit) world))))
     = [stored_student, newStudent lookup_down_submit (formData repeat_form)]"
    by (simp_all add: handleSubmit_def checkDuplicateRegistration_def lookup_down_submit_def
          repeat_form_def registered_world_def network_down_def form_incomplete_def
          single_def select_rows_def failed_other_than_no_rows_def insert_row_def
          issue_def console_error_def code_points_def stored_student_def Let_def)
  show "selectedStudent selected_screen = Some stored_student"
    by (simp add: selected_screen_def)
  have typed: "trim (verification_state.matricNumber selected_screen) \<noteq> []"
    by (simp add: selected_screen_def trim_def isWhiteSpace_def code_points_def)
  show "selectedStudent
       (fst (handleSearch Latin1_Uppercase (Some network_down)
               (selected_screen, registered_world :: (student, unit) world)))
     = None"
    by (simp add: handleSearch_failed [OF typed])
  have key: "toUpperCase Latin1_Uppercase (trim (verification_state.matricNumber selected_screen))
      = code_points ''CSC/2020/002''"
    by (simp add: selected_screen_def trim_def isWhiteSpace_def code_points_def toUpperCase_def
          Latin1_Uppercase_def)
  have two: "filter (\<lambda>s. student.matricNumber s = code_points ''CSC/2020/002'')
        (store.students (db (registered_in_two_steps :: (student, unit) world)))
      = [newStudent calm_submit (formData first_form), newStudent later_submit (formData second_form)]"
    by (simp add: registered_in_two_steps_def handleSubmit_def checkDuplicateRegistration_def
          first_form_def second_form_def calm_submit_def later_submit_def empty_world_def
          newStudent_def form_incomplete_def single_def select_rows_def
          failed_other_than_no_rows_def PGRST116_def insert_row_def issue_def console_error_def
          code_points_def Let_def)
  show "response.error two_rows_answer = Some PGRST116"
    by (simp add: two_rows_answer_def single_def select_rows_def two)
  show "requests (snd (handleSearch Latin1_Uppercase None
                      (selected_screen, registered_in_two_steps :: (student, unit) world)))
     = requests (registered_in_two_steps :: (student, unit) world)
         @ [Select ''students'' [(''matricNumber'', code_points ''CSC/2020/002'')]]"
    by (simp add: handleSearch_requests typed key)
  have quiet: "console (registered_in_two_steps :: (student, unit) world) = []"
    by (simp add: registered_in_two_steps_def handleSubmit_def checkDuplicateRegistration_def
          first_form_def second_form_def calm_submit_def later_submit_def empty_world_def
          newStudent_def form_incomplete_def single_def select_rows_def
          failed_other_than_no_rows_def PGRST116_def insert_row_def issue_def console_error_def
          code_points_def Let_def)
  show "console (snd (handleSearch Latin1_Uppercase None
                     (selected_screen, registered_in_two_steps :: (student, unit) world)))
     = []"
    and "verification_state.message
       (fst (handleSearch Latin1_Uppercase None
               (selected_screen, registered_in_two_steps :: (student, unit) world)))
     = Some \<lparr>type = message_type.error,
             text = ''Student not found. Please check the matric number.''\<rparr>"
    by (simp_all add: handleSearch_answered [OF typed] key two issue_def quiet)
  show "details_state.error
       (fst (details_fetchData (Some network_down) None (blank_details, details_world)))
     = Some ''TypeError: Network request failed''"
    by (simp add: details_fetchData_students_failed network_down_def)
  show "home_state.attendanceRecords blank_home = []"
    by (simp add: blank_home_def)
  show "console (snd (loadData students_down (blank_home, home_world)))
     = [LogError ''Error loading students:'' network_down,
        LogError ''Error loading data:'' network_down]"
    and "home_state.attendanceRecords (fst (loadData students_down (blank_home, home_world)))
     = [archived_attendance]"
    by (simp_all add: loadData_unfold students_down_def blank_home_def home_world_def
          archived_record_def archived_attendance_def)
qed

text \<open>
  Claim C6, amended. Every failure of a remote call is caught where the call is made. It
  is logged, unless it is the answer to a lookup of a single row and has the code
  \<^verbatim>\<open>PGRST116\<close>, under which the client reports no row and several rows: that one counts
  as "not found". A failed student search, a failed student insert and a failed attendance
  insert set a fixed error message, are the last remote call of their action and leave the
  store unchanged; the failed inserts leave the form and the selection as they were, the
  failed search clears the selected student. A failed lookup of the duplicate check or of
  the attendance check sets no message and does not end the action, which goes on to its
  insert as if nothing had been found. A failed load of the reports, details or home
  screen sets an error message, a fixed one or on the details screen the error's own
  text, leaves the store and the list it was loading unchanged and is followed by no
  further select of that load; on the home screen the other of the two loads still runs to
  its end, and the screen logs one of the failures once more.
\<close>

theorem remote_failures_logged:
  "checkDuplicateRegistration (Some e) m cs (rst, w) =
     ([], rst\<lparr>registration_state.loading := False\<rparr>,
      if code e = ''PGRST116''
      then issue (Select ''students'' [(''matricNumber'', m)]) w
      else console_error (LogError ''Error checking duplicate registration:'' e)
             (issue (Select ''students'' [(''matricNumber'', m)]) w))
   \<and> isAlreadyVerified (Some e) m c (vst, w) =
       (False, vst\<lparr>verification_state.loading := False\<rparr>,
        console_error (LogError ''Error checking attendance:'' e)
          (issue (Select ''course_attendance''
                    [(''matricNumber'', m), (''courseCode'', code_points c)]) w))
   \<and> (trim (verification_state.matricNumber vst) \<noteq> [] \<longrightarrow>
        handleSearch uc (Some e) (vst, w) =
          (vst\<lparr>verification_state.loading := False,
               verification_state.message :=
                 Some \<lparr>type = message_type.error,
                       text = (if code e = ''PGRST116''
                               then ''Student not found. Please check the matric number.''
                               else ''Error searching student.'')\<rparr>,
               selectedStudent := None\<rparr>,
           if code e = ''PGRST116''
           then issue (Select ''students''
                  [(''matricNumber'', toUpperCase uc (trim (verification_state.matricNumber vst)))]) w
           else console_error (LogError ''Error searching student:'' e)
                  (issue (Select ''students''
                     [(''matricNumber'', toUpperCase uc (trim (verification_state.matricNumber vst)))]) w)))
   \<and> (\<not> form_incomplete (formData rst) \<and> lookup_fault senv = Some e \<longrightarrow>
        requests (snd (handleSubmit senv (rst, w))) =
          requests w @ [Select ''students'' [(''matricNumber'', form_data.matricNumber (formData rst))],
                        Insert ''students''])
   \<and> (selectedStudent vst = Some stu
        \<and> verification_state.selectedCourse vst \<noteq> []
        \<and> trim (verification_state.invigilatorName vst) \<noteq> []
        \<and> check_fault menv = Some e \<longrightarrow>
        requests (snd (handleMarkAttendance menv (vst, w))) =
          requests w @ [Select ''course_attendance''
                          [(''matricNumber'', student.matricNumber stu),
                           (''courseCode'', code_points (verification_state.selectedCourse vst))],
                        Insert ''course_attendance''])
   \<and> (\<not> form_incomplete (formData rst)
        \<and> fst (checkDuplicateRegistration (lookup_fault senv)
               (form_data.matricNumber (formData rst)) (form_data.courses (formData rst))
               (rst\<lparr>registration_state.loading := True\<rparr>, w)) = []
        \<and> submit_env.insert_fault senv = Some e \<longrightarrow>
        (case handleSubmit senv (rst, w) of (st', w') \<Rightarrow>
           last (console w') = LogError ''Error registering student:'' e
           \<and> registration_state.message st' =
               Some \<lparr>type = message_type.error, text = ''Error registering student.''\<rparr>
           \<and> last (requests w') = Insert ''students''
           \<and> db w' = db w
           \<and> formData st' = formData rst))
   \<and> (selectedStudent vst = Some stu
        \<and> verification_state.selectedCourse vst \<noteq> []
        \<and> trim (verification_state.invigilatorName vst) \<noteq> []
        \<and> \<not> fst (isAlreadyVerified (check_fault menv) (student.matricNumber stu)
                 (verification_state.selectedCourse vst)
                 (vst\<lparr>verification_state.loading := True\<rparr>, w))
        \<and> mark_env.insert_fault menv = Some e \<longrightarrow>
        (case handleMarkAttendance menv (vst, w) of (st', w') \<Rightarrow>
           last (console w') = LogError ''Error marking attendance:'' e
           \<and> verification_state.message st' =
               Some \<lparr>type = message_type.error, text = ''Error marking attendance.''\<rparr>
           \<and> last (requests w') = Insert ''course_attendance''
           \<and> db w' = db w
           \<and> selectedStudent st' = selectedStudent vst
           \<and> verification_state.selectedCourse st' = verification_state.selectedCourse vst
           \<and> verification_state.matricNumber st' = verification_state.matricNumber vst
           \<and> verification_state.invigilatorName st' = verification_state.invigilatorName vst))
   \<and> (case reports_fetchData (Some e) f2 (pst, w) of (st', w') \<Rightarrow>
        console w' = console w @ [LogText ''Error fetching data:'' (pg_error.message e)]
        \<and> reports_state.error st' = Some ''Failed to load data. Please try again.''
        \<and> requests w' = requests w @ [Select ''students'' []]
        \<and> db w' = db w
        \<and> reports_state.students st' = reports_state.students pst
        \<and> reports_state.attendanceRecords st' = reports_state.attendanceRecords pst)
   \<and> (case reports_fetchData None (Some e) (pst, w) of (st', w') \<Rightarrow>
        console w' = console w @ [LogText ''Error fetching data:'' (pg_error.message e)]
        \<and> reports_state.error st' = Some ''Failed to load data. Please try again.''
        \<and> requests w' = requests w @ [Select ''students'' [], Select ''course_attendance'' []]
        \<and> db w' = db w
        \<and> reports_state.attendanceRecords st' = reports_state.attendanceRecords pst)
   \<and> (case details_fetchData (Some e) f2 (dst, wd) of (st', w') \<Rightarrow>
        console w' = console wd @ [LogError ''Error fetching data:'' e]
        \<and> details_state.error st' = Some (pg_error.message e)
        \<and> requests w' = requests wd @ [Select ''students'' []]
        \<and> db w' = db wd
        \<and> details_state.students st' = details_state.students dst
        \<and> details_state.attendanceRecords st' = details_state.attendanceRecords dst)
   \<and> (case details_fetchData None (Some e) (dst, wd) of (st', w') \<Rightarrow>
        console w' = console wd @ [LogError ''Error fetching data:'' e]
        \<and> details_state.error st' = Some (pg_error.message e)
        \<and> requests w' = requests wd @ [Select ''students'' [], Select ''attendance_records'' []]
        \<and> db w' = db wd
        \<and> details_state.attendanceRecords st' = details_state.attendanceRecords dst)
   \<and> (case loadData henv (hst, wh) of (st', w') \<Rightarrow>
         db w' = db wh
         \<and> requests w' =
             requests wh @ [Select ''students'' [], Select ''attendance_records'' []]
               @ (case students_fault henv of None \<Rightarrow> [Select ''student_courses'' []] | Some e \<Rightarrow> [])
         \<and> home_state.loading st' = False
         \<and> home_state.error st' =
             (if students_fault henv = None \<and> courses_fault henv = None \<and> attendance_fault henv = None
              then None else Some ''Failed to load data.'')
         \<and> (case students_fault henv of
               Some e \<Rightarrow> home_state.students st' = home_state.students hst
             | None \<Rightarrow>
                 (case courses_fault henv of
                    Some e \<Rightarrow> home_state.students st' = home_state.students hst
                  | None \<Rightarrow>
                      home_state.students st' =
                        map (\<lambda>row.
                               \<lparr>student.id = student_row.id row,
                                fullName = full_name row,
                                matricNumber = student_row.matric_number row,
                                image = student_row.image row,
                                session = student_row.session row,
                                semester = student_row.semester row,
                                courses =
                                  map student_course_row.course_code
                                    (filter (\<lambda>c. student_id c = student_row.id row)
                                       (student_courses (db wh))),
                                registrationDate = registration_date row\<rparr>)
                          (store.students (db wh))))
         \<and> (case attendance_fault henv of
               Some e \<Rightarrow> home_state.attendanceRecords st' = home_state.attendanceRecords hst
             | None \<Rightarrow>
                 home_state.attendanceRecords st' =
                   map (\<lambda>rec. \<lparr>attendance.id = attendance_record_row.id rec,
                               matricNumber = attendance_record_row.matric_number rec,
                               courseCode = attendance_record_row.course_code rec,
                               verificationDate = verification_date rec,
                               invigilatorName = invigilator_name rec\<rparr>) (attendance_records (db wh)))
         \<and> (\<exists>logged.
               console w' = console wh @ logged
               \<and> (logged = []) =
                   (students_fault henv = None \<and> courses_fault henv = None \<and> attendance_fault henv = None)
               \<and> (case students_fault henv of
                     Some e \<Rightarrow> LogError ''Error loading students:'' e \<in> set logged
                   | None \<Rightarrow>
                       (case courses_fault henv of
                          Some e \<Rightarrow> LogError ''Error loading student courses:'' e \<in> set logged
                        | None \<Rightarrow> True))
               \<and> (case attendance_fault henv of
                     Some e \<Rightarrow> LogError ''Error loading attendance:'' e \<in> set logged
                   | None \<Rightarrow> True)
               \<and> (\<exists>e. LogError ''Error loading data:'' e \<in> set logged) = (logged \<noteq> [])
           \<and> (\<forall>e. LogError ''Error loading data:'' e \<in> set logged \<longrightarrow>
                 LogError ''Error loading students:'' e \<in> set logged
                 \<or> LogError ''Error loading student courses:'' e \<in> set logged
                 \<or> LogError ''Error loading attendance:'' e \<in> set logged)))"
  (is "?check \<and> ?verified \<and> ?search \<and> ?submit_on \<and> ?mark_on \<and> ?submit \<and> ?mark
       \<and> ?rep1 \<and> ?rep2 \<and> ?det1 \<and> ?det2 \<and> ?home")
proof (intro conjI)
  show ?check
    by (rule checkDuplicateRegistration_fault)
  show ?verified
    by (rule isAlreadyVerified_failed)
  show ?search
    by (simp add: handleSearch_failed)
  show ?submit_on
    by (simp add: handleSubmit_goes_on)
  show ?mark_on
    by (simp add: handleMarkAttendance_goes_on)
  show ?submit
  proof (intro impI, elim conjE)
    assume "\<not> form_incomplete (formData rst)"
      and "fst (checkDuplicateRegistration (lookup_fault senv)
                 (form_data.matricNumber (formData rst)) (form_data.courses (formData rst))
                 (rst\<lparr>registration_state.loading := True\<rparr>, w)) = []"
      and "submit_env.insert_fault senv = Some e"
    then show "case handleSubmit senv (rst, w) of (st', w') \<Rightarrow>
             last (console w') = LogError ''Error registering student:'' e
             \<and> registration_state.message st' =
                 Some \<lparr>type = message_type.error, text = ''Error registering student.''\<rparr>
             \<and> last (requests w') = Insert ''students''
             \<and> db w' = db w
             \<and> formData st' = formData rst"
      by (rule handleSubmit_insert_failed)
  qed
  show ?mark
  proof (intro impI, elim conjE)
    assume "selectedStudent vst = Some stu"
      and "verification_state.selectedCourse vst \<noteq> []"
      and "trim (verification_state.invigilatorName vst) \<noteq> []"
      and "\<not> fst (isAlreadyVerified (check_fault menv) (student.matricNumber stu)
                   (verification_state.selectedCourse vst)
                   (vst\<lparr>verification_state.loading := True\<rparr>, w))"
      and "mark_env.insert_fault menv = Some e"
    then show "case handleMarkAttendance menv (vst, w) of (st', w') \<Rightarrow>
             last (console w') = LogError ''Error marking attendance:'' e
             \<and> verification_state.message st' =
                 Some \<lparr>type = message_type.error, text = ''Error marking attendance.''\<rparr>
             \<and> last (requests w') = Insert ''course_attendance''
             \<and> db w' = db w
             \<and> selectedStudent st' = selectedStudent vst
             \<and> verification_state.selectedCourse st' = verification_state.selectedCourse vst
             \<and> verification_state.matricNumber st' = verification_state.matricNumber vst
             \<and> verification_state.invigilatorName st' = verification_state.invigilatorName vst"
      by (rule handleMarkAttendance_insert_failed)
  qed
  show ?rep1
    by (simp add: reports_fetchData_students_failed console_error_def issue_def)
  show ?rep2
    by (simp add: reports_fetchData_attendance_failed console_error_def issue_def)
  show ?det1
    by (simp add: details_fetchData_students_failed console_error_def issue_def)
  show ?det2
    by (simp add: details_fetchData_attendance_failed console_error_def issue_def)
  show ?home
    by (rule loadData_outcome)
qed

text \<open>
  The network is down: while searching the student of the example, while looking up and
  while inserting the student on an empty store, while looking up and while inserting the
  attendance row, while the reports screen loads, and while the home screen loads its
  students.
\<close>

theorem remote_failures_logged_witness:
  "trim (verification_state.matricNumber selected_screen) \<noteq> []
   \<and> code network_down \<noteq> ''PGRST116''
   \<and> console (snd (handleSearch Latin1_Uppercase (Some network_down)
                     (selected_screen, registered_world :: (student, unit) world)))
     = [LogError ''Error searching student:'' network_down]
   \<and> verification_state.message
       (fst (handleSearch Latin1_Uppercase (Some network_down)
               (selected_screen, registered_world :: (student, unit) world)))
     = Some \<lparr>type = message_type.error, text = ''Error searching student.''\<rparr>
   \<and> \<not> form_incomplete (formData repeat_form)
   \<and> lookup_fault lookup_down_submit = Some network_down
   \<and> requests (snd (handleSubmit lookup_down_submit (repeat_form, empty_world :: (student, unit) world)))
     = [Select ''students'' [(''matricNumber'', code_points ''CSC/2020/002'')], Insert ''students'']
   \<and> check_fault check_down_mark = Some network_down
   \<and> requests (snd (handleMarkAttendance check_down_mark
                      (selected_screen, registered_world :: (student, unit) world)))
     = [Select ''course_attendance''
          [(''matricNumber'', code_points ''CSC/2020/002''), (''courseCode'', code_points ''CSC301'')],
        Insert ''course_attendance'']
   \<and> submit_env.insert_fault insert_down_submit = Some network_down
   \<and> registration_state.message
       (fst (handleSubmit insert_down_submit (repeat_form, empty_world :: (student, unit) world)))
     = Some \<lparr>type = message_type.error, text = ''Error registering student.''\<rparr>
   \<and> db (snd (handleSubmit insert_down_submit (repeat_form, empty_world :: (student, unit) world)))
     = db empty_world
   \<and> mark_env.insert_fault insert_down_mark = Some network_down
   \<and> verification_state.message
       (fst (handleMarkAttendance insert_down_mark
               (selected_screen, registered_world :: (student, unit) world)))
     = Some \<lparr>type = message_type.error, text = ''Error marking attendance.''\<rparr>
   \<and> db (snd (handleMarkAttendance insert_down_mark
                (selected_screen, registered_world :: (student, unit) world)))
     = db registered_world
   \<and> reports_state.error
       (fst (reports_fetchData (Some network_down) None
               (blank_reports, registered_world :: (student, unit) world)))
     = Some ''Failed to load data. Please try again.''
   \<and> students_fault students_down = Some network_down
   \<and> home_state.error (fst (loadData students_down (blank_home, home_world)))
     = Some ''Failed to load data.''
   \<and> requests (snd (loadData students_down (blank_home, home_world)))
     = [Select ''students'' [], Select ''attendance_records'' []]
   \<and> home_state.students (fst (loadData students_down (blank_home, home_world))) = []
   \<and> console (snd (loadData students_down (blank_home, home_world)))
     = [LogError ''Error loading students:'' network_down,
        LogError ''Error loading data:'' network_down]"
proof -
  have down: "code network_down \<noteq> ''PGRST116''"
    by (simp add: network_down_def)
  note at_desk = remote_failures_logged [where e = network_down and vst = selected_screen
      and w = "registered_world :: (student, unit) world" and stu = stored_student
      and uc = Latin1_Uppercase]
  note at_form = remote_failures_logged [where e = network_down and rst = repeat_form
      and w = "empty_world :: (student, unit) world"]
  have typed: "trim (verification_state.matricNumber selected_screen) \<noteq> []"
    by (simp add: selected_screen_def trim_def isWhiteSpace_def code_points_def)
  from at_desk [THEN conjunct2, THEN conjunct2, THEN conjunct1, THEN mp, OF typed] down
  have search: "console (snd (handleSearch Latin1_Uppercase (Some network_down)
          (selected_screen, registered_world :: (student, unit) world)))
        = [LogError ''Error searching student:'' network_down]"
      "verification_state.message (fst (handleSearch Latin1_Uppercase (Some network_down)
          (selected_screen, registered_world :: (student, unit) world)))
        = Some \<lparr>type = message_type.error, text = ''Error searching student.''\<rparr>"
    by (simp_all add: console_error_def issue_def registered_world_def)
  have ready: "\<not> form_incomplete (formData repeat_form)"
    by (simp add: form_incomplete_def repeat_form_def code_points_def)
  have lookup_down: "lookup_fault lookup_down_submit = Some network_down"
    by (simp add: lookup_down_submit_def)
  from at_form [where senv = lookup_down_submit, THEN conjunct2, THEN conjunct2, THEN conjunct2,
      THEN conjunct1, THEN mp, OF conjI [OF ready lookup_down]]
  have submit_on: "requests (snd (handleSubmit lookup_down_submit
          (repeat_form, empty_world :: (student, unit) world)))
     = [Select ''students'' [(''matricNumber'', code_points ''CSC/2020/002'')], Insert ''students'']"
    by (simp add: empty_world_def repeat_form_def)
  have sel: "selectedStudent selected_screen = Some stored_student"
    and crs: "verification_state.selectedCourse selected_screen \<noteq> []"
    and inv: "trim (verification_state.invigilatorName selected_screen) \<noteq> []"
    by (simp_all add: selected_screen_def trim_def isWhiteSpace_def code_points_def)
  have check_down: "check_fault check_down_mark = Some network_down"
    by (simp add: check_down_mark_def)
  from at_desk [where menv = check_down_mark, THEN conjunct2, THEN conjunct2, THEN conjunct2,
      THEN conjunct2, THEN conjunct1, THEN mp,
      OF conjI [OF sel conjI [OF crs conjI [OF inv check_down]]]]
  have mark_on: "requests (snd (handleMarkAttendance check_down_mark
                      (selected_screen, registered_world :: (student, unit) world)))
     = [Select ''course_attendance''
          [(''matricNumber'', code_points ''CSC/2020/002''), (''courseCode'', code_points ''CSC301'')],
        Insert ''course_attendance'']"
    by (simp add: registered_world_def selected_screen_def stored_student_def)
  have clear: "fst (checkDuplicateRegistration (lookup_fault insert_down_submit)
                 (form_data.matricNumber (formData repeat_form))
                 (form_data.courses (formData repeat_form))
                 (repeat_form\<lparr>registration_state.loading := True\<rparr>, empty_world :: (student, unit) world)) = []"
    and fails: "submit_env.insert_fault insert_down_submit = Some network_down"
    by (simp_all add: insert_down_submit_def empty_world_def checkDuplicateRegistration_no_row)
  from at_form [where senv = insert_down_submit, THEN conjunct2, THEN conjunct2, THEN conjunct2,
      THEN conjunct2, THEN conjunct2, THEN conjunct1, THEN mp,
      OF conjI [OF ready conjI [OF clear fails]]]
  have submit: "registration_state.message
        (fst (handleSubmit insert_down_submit (repeat_form, empty_world :: (student, unit) world)))
        = Some \<lparr>type = message_type.error, text = ''Error registering student.''\<rparr>"
      "db (snd (handleSubmit insert_down_submit (repeat_form, empty_world :: (student, unit) world)))
        = db empty_world"
    by (simp_all add: case_prod_unfold)
  have fresh: "\<not> fst (isAlreadyVerified (check_fault insert_down_mark)
                   (student.matricNumber stored_student)
                   (verification_state.selectedCourse selected_screen)
                   (selected_screen\<lparr>verification_state.loading := True\<rparr>,
                    registered_world :: (student, unit) world))"
    and mfails: "mark_env.insert_fault insert_down_mark = Some network_down"
    by (simp_all add: insert_down_mark_def registered_world_def isAlreadyVerified_answered)
  from at_desk [where menv = insert_down_mark, THEN conjunct2, THEN conjunct2, THEN conjunct2,
      THEN conjunct2, THEN conjunct2, THEN conjunct2, THEN conjunct1, THEN mp,
      OF conjI [OF sel conjI [OF crs conjI [OF inv conjI [OF fresh mfails]]]]]
  have mark: "verification_state.message
        (fst (handleMarkAttendance insert_down_mark (selected_screen, registered_world :: (student, unit) world)))
        = Some \<lparr>type = message_type.error, text = ''Error marking attendance.''\<rparr>"
      "db (snd (handleMarkAttendance insert_down_mark (selected_screen, registered_world :: (student, unit) world)))
        = db registered_world"
    by (simp_all add: case_prod_unfold)
  from at_desk [where pst = blank_reports and ?f2.0 = None, THEN conjunct2, THEN conjunct2,
      THEN conjunct2, THEN conjunct2, THEN conjunct2, THEN conjunct2, THEN conjunct2,
      THEN conjunct1]
  have reports: "reports_state.error
       (fst (reports_fetchData (Some network_down) None
               (blank_reports, registered_world :: (student, unit) world)))
     = Some ''Failed to load data. Please try again.''"
    by (simp add: case_prod_unfold)
  have students_failed: "students_fault students_down = Some network_down"
    by (simp add: students_down_def)
  from remote_failures_logged [where henv = students_down and hst = blank_home
      and wh = home_world, THEN conjunct2, THEN conjunct2, THEN conjunct2, THEN conjunct2,
      THEN conjunct2, THEN conjunct2, THEN conjunct2, THEN conjunct2, THEN conjunct2,
      THEN conjunct2, THEN conjunct2]
  have home: "home_state.error (fst (loadData students_down (blank_home, home_world)))
        = Some ''Failed to load data.''"
      "requests (snd (loadData students_down (blank_home, home_world)))
        = [Select ''students'' [], Select ''attendance_records'' []]"
      "home_state.students (fst (loadData students_down (blank_home, home_world))) = []"
    by (simp_all add: case_prod_unfold students_failed)
       (simp_all add: home_world_def blank_home_def)
  have logged: "console (snd (loadData students_down (blank_home, home_world)))
     = [LogError ''Error loading students:'' network_down,
        LogError ''Error loading data:'' network_down]"
    by (simp add: loadData_unfold students_down_def blank_home_def home_world_def)
  from typed down search ready lookup_down submit_on check_down mark_on fails submit mfails mark
    reports students_failed home logged
  show ?thesis
    by (intro conjI)
qed

end
